(* ===== verification/Prelude.thy ===== *)
theory Prelude
  imports Complex_Main "HOL-Library.AList"
begin

text \<open>
  Shared vocabulary of the tic-tac-toe backend model: the types that stand for the
  Python values the components exchange (UUIDs, timestamps, the nested-list board),
  the named collections the component theories put their unfolding facts into, and
  generic lemmas on nested list updates and on association lists that the board, the
  repository and the service proofs share.
\<close>

section \<open>Types of the model\<close>

text \<open>
  A UUID is only ever compared for equality and stored, so it is an abstract natural
  number; a \<open>datetime\<close> is only compared for ordering, so it is a natural timestamp.
  The board is the Python \<open>List[List[int]]\<close> exactly as a client sends it: a list of
  rows of Python integers, not yet known to be 3x3.
\<close>

type_synonym uuid = nat
type_synonym timestamp = nat
type_synonym board = "int list list"
type_synonym cell = "nat \<times> nat"

text \<open>
  A Python call that either raises or returns is a value of \<open>'e + 'a\<close>, \<open>Inl\<close> the
  exception; \<open>res_bind\<close> runs the rest of the method on a return and propagates a raise.
\<close>

definition res_bind :: "'e + 'a \<Rightarrow> ('a \<Rightarrow> 'e + 'b) \<Rightarrow> 'e + 'b" where
  "res_bind r f = (case r of Inl e \<Rightarrow> Inl e | Inr a \<Rightarrow> f a)"

named_theorems board_defs "unfolding facts of the board operations"
named_theorems game_defs "unfolding facts of the CurrentGame operations"
named_theorems store_defs "unfolding facts of the repository operations"

text \<open>\<open>board[i][j] = v\<close> on a list of rows.\<close>

definition set_cell :: "board \<Rightarrow> nat \<Rightarrow> nat \<Rightarrow> int \<Rightarrow> board" where
  "set_cell b i j v = b[i := (b ! i)[j := v]]"

section \<open>Raise-or-return results\<close>

lemma res_bind_Inl [simp]: "res_bind (Inl e) f = Inl e"
  by (simp add: res_bind_def)

lemma res_bind_Inr [simp]: "res_bind (Inr a) f = f a"
  by (simp add: res_bind_def)

lemma res_bind_eq_Inr:
  "res_bind r f = Inr b \<longleftrightarrow> (\<exists>a. r = Inr a \<and> f a = Inr b)"
  by (cases r) simp_all

section \<open>Nested list update\<close>

lemma length_set_cell [simp]: "length (set_cell b i j v) = length b"
  by (simp add: set_cell_def)

lemma set_cell_row_length [simp]:
  "k < length b \<Longrightarrow> length (set_cell b i j v ! k) = length (b ! k)"
  by (cases "k = i") (simp_all add: set_cell_def)

lemma set_cell_nth:
  "i < length b \<Longrightarrow> j < length (b ! i) \<Longrightarrow> k < length b \<Longrightarrow>
   set_cell b i j v ! k ! l = (if (k, l) = (i, j) then v else b ! k ! l)"
  by (cases "k = i") (auto simp: set_cell_def nth_list_update)

lemma set_cell_same [simp]:
  "i < length b \<Longrightarrow> j < length (b ! i) \<Longrightarrow> set_cell b i j v ! i ! j = v"
  by (simp add: set_cell_nth)

lemma set_cell_other:
  "i < length b \<Longrightarrow> j < length (b ! i) \<Longrightarrow> k < length b \<Longrightarrow> (k, l) \<noteq> (i, j) \<Longrightarrow>
   set_cell b i j v ! k ! l = b ! k ! l"
  by (auto simp: set_cell_nth)

lemma set_cell_rows_length:
  "list_all (\<lambda>r. length r = n) b \<Longrightarrow> list_all (\<lambda>r. length r = n) (set_cell b i j v)"
  by (cases "i < length b") (auto simp: set_cell_def list_all_length nth_list_update)

section \<open>Lists\<close>

lemma length_filter_less_member:
  "x \<in> set xs \<Longrightarrow> \<not> P x \<Longrightarrow> length (filter P xs) < length xs"
  by (rule length_filter_less) auto

lemma filter_conj_neq:
  "filter (\<lambda>y. P y \<and> y \<noteq> x) xs = filter (\<lambda>y. y \<noteq> x) (filter P xs)"
  by (induction xs) auto

lemma case_find_Cons:
  "(case find P (x # xs) of None \<Rightarrow> n | Some y \<Rightarrow> f y) =
   (if P x then f x else (case find P xs of None \<Rightarrow> n | Some y \<Rightarrow> f y))"
  by simp

lemma case_find_Nil: "(case find P [] of None \<Rightarrow> n | Some y \<Rightarrow> f y) = n"
  by simp

lemma if_Some_None_neq: "((if c then Some a else None) \<noteq> None) = c"
  by simp

lemma if_same_cond: "(if c then (if c then x else y) else z) = (if c then x else z)"
  by simp

lemma upt_3: "[0..<3] = [0, 1, 2::nat]"
  by (simp add: upt_rec)

section \<open>Association lists\<close>

text \<open>
  A SQL table read back with \<open>.all()\<close> is a list of rows in storage order; a primary-key
  lookup is \<open>map_of\<close>. These facts let the repository proofs move between the two.
\<close>

lemma map_of_update_other [simp]:
  "k' \<noteq> k \<Longrightarrow> map_of (AList.update k v al) k' = map_of al k'"
  by (simp add: update_conv')

lemma map_of_update_same [simp]:
  "map_of (AList.update k v al) k = Some v"
  by (simp add: update_conv')

lemma update_map_of_in:
  "x \<in> set (AList.update k v al) \<Longrightarrow> x = (k, v) \<or> x \<in> set al"
  by (induction al) (auto split: if_splits)

lemma sorted_key_desc:
  "sorted (map (\<lambda>x. - int (f x)) xs) \<Longrightarrow> sorted_wrt (\<lambda>a b. f b \<le> f a) xs"
  by (induction xs) (auto simp: sorted_wrt_map)

end
