(* ===== verification/Board.thy ===== *)
theory Board
  imports Prelude
begin

text \<open>
  The board layer: \<open>PlayerSymbol\<close> (domain/model/player_symbol.py), \<open>GameField\<close>
  (domain/model/game_field.py), and the board helpers of \<open>GameServiceImpl\<close>
  (domain/service/game_service_impl.py): \<open>_check_winner_symbol\<close>, \<open>_is_board_full\<close>,
  the 3x3 format check of \<open>make_move\<close> and the empty-cell scan the minimax loops perform.
  The win check is proved equal to a reference definition over the eight lines of the
  board, and from that its characterisation: it answers a symbol exactly when some row,
  column or diagonal is uniform and non-empty.
\<close>

section \<open>PlayerSymbol\<close>

datatype player_symbol = X | O'

primrec symbol_value :: "player_symbol \<Rightarrow> int" where
  "symbol_value X = 1"
| "symbol_value O' = 2"

text \<open>\<open>from_value\<close> scans the enum members in declaration order.\<close>

definition from_value :: "int \<Rightarrow> player_symbol option" where
  "from_value v = find (\<lambda>s. symbol_value s = v) [X, O']"

definition opposite :: "player_symbol \<Rightarrow> player_symbol" where
  "opposite s = (if s = X then O' else X)"

section \<open>GameField\<close>

definition EMPTY :: int where "EMPTY = 0"
definition PLAYER_X :: int where "PLAYER_X = 1"
definition PLAYER_O :: int where "PLAYER_O = 2"

definition empty_board :: board where
  "empty_board = [[0, 0, 0], [0, 0, 0], [0, 0, 0]]"

text \<open>\<open>GameField(board)\<close>: a falsy (empty) board is replaced by the empty 3x3 board.\<close>

definition game_field_init :: "board \<Rightarrow> board" where
  "game_field_init b = (if b = [] then empty_board else b)"

section \<open>Board shape\<close>

text \<open>The format check of \<open>make_move\<close>, as the Python writes it.\<close>

definition valid_board_format :: "board \<Rightarrow> bool" where
  "valid_board_format b \<longleftrightarrow> \<not> (b = [] \<or> length b \<noteq> 3 \<or> list_ex (\<lambda>row. length row \<noteq> 3) b)"

text \<open>The invariant every stored board satisfies: exactly three rows of three cells.\<close>

definition board_wf :: "board \<Rightarrow> bool" where
  "board_wf b \<longleftrightarrow> length b = 3 \<and> list_all (\<lambda>r. length r = 3) b"

text \<open>\<open>for i in range(3): for j in range(3)\<close>: the cells in row-major order.\<close>

definition board_cells :: "cell list" where
  "board_cells = [(i, j). i \<leftarrow> [0..<3], j \<leftarrow> [0..<3]]"

section \<open>Win detection and fullness\<close>

definition row_win :: "board \<Rightarrow> nat \<Rightarrow> bool" where
  "row_win b i \<longleftrightarrow> b ! i ! 0 = b ! i ! 1 \<and> b ! i ! 1 = b ! i ! 2 \<and> b ! i ! 2 \<noteq> 0"

definition col_win :: "board \<Rightarrow> nat \<Rightarrow> bool" where
  "col_win b j \<longleftrightarrow> b ! 0 ! j = b ! 1 ! j \<and> b ! 1 ! j = b ! 2 ! j \<and> b ! 2 ! j \<noteq> 0"

text \<open>
  \<open>_check_winner_symbol\<close>: the rows first, then the columns, then the main diagonal,
  then the anti-diagonal; the first uniform non-empty line decides. The chained Python
  comparison \<open>a == b == c != 0\<close> is \<open>a = b \<and> b = c \<and> c \<noteq> 0\<close>.
\<close>

definition check_winner_symbol :: "board \<Rightarrow> int option" where
  "check_winner_symbol b =
     (case find (row_win b) [0..<3] of
        Some i \<Rightarrow> Some (b ! i ! 0)
      | None \<Rightarrow>
        (case find (col_win b) [0..<3] of
           Some j \<Rightarrow> Some (b ! 0 ! j)
         | None \<Rightarrow>
           (if b ! 0 ! 0 = b ! 1 ! 1 \<and> b ! 1 ! 1 = b ! 2 ! 2 \<and> b ! 2 ! 2 \<noteq> 0 then Some (b ! 0 ! 0)
            else if b ! 0 ! 2 = b ! 1 ! 1 \<and> b ! 1 ! 1 = b ! 2 ! 0 \<and> b ! 2 ! 0 \<noteq> 0 then Some (b ! 0 ! 2)
            else None)))"

text \<open>\<open>_is_board_full\<close>: no cell of the 3x3 range holds \<open>0\<close>.\<close>

definition is_board_full :: "board \<Rightarrow> bool" where
  "is_board_full b \<longleftrightarrow> list_all (\<lambda>(i, j). b ! i ! j \<noteq> 0) board_cells"

text \<open>
  The test \<open>board[i][j] == 0\<close> of the minimax loops. The bounds conjuncts stand for the
  \<open>IndexError\<close> Python would raise on a ragged board; on a well-formed board they always
  hold (\<open>is_empty_at_wf\<close>), and every board the loops see is well-formed.
\<close>

definition is_empty_at :: "board \<Rightarrow> cell \<Rightarrow> bool" where
  "is_empty_at b c \<longleftrightarrow> fst c < length b \<and> snd c < length (b ! fst c) \<and> b ! fst c ! snd c = 0"

definition empty_cells :: "board \<Rightarrow> cell list" where
  "empty_cells b = filter (is_empty_at b) board_cells"

section \<open>Reference definition of the win check\<close>

text \<open>The eight lines of the board, in the order the Python scans them.\<close>

definition win_lines :: "cell list list" where
  "win_lines =
     [[(0,0),(0,1),(0,2)], [(1,0),(1,1),(1,2)], [(2,0),(2,1),(2,2)],
      [(0,0),(1,0),(2,0)], [(0,1),(1,1),(2,1)], [(0,2),(1,2),(2,2)],
      [(0,0),(1,1),(2,2)], [(0,2),(1,1),(2,0)]]"

definition cell_at :: "board \<Rightarrow> cell \<Rightarrow> int" where
  "cell_at b c = b ! fst c ! snd c"

text \<open>A line is won by \<open>v\<close> when all three of its cells hold the same non-zero \<open>v\<close>.\<close>

definition line_owner :: "board \<Rightarrow> cell list \<Rightarrow> int option" where
  "line_owner b l =
     (if l \<noteq> [] \<and> list_all (\<lambda>c. cell_at b c = cell_at b (hd l)) l \<and> cell_at b (hd l) \<noteq> 0
      then Some (cell_at b (hd l)) else None)"

definition winner_spec :: "board \<Rightarrow> int option" where
  "winner_spec b = (case find (\<lambda>l. line_owner b l \<noteq> None) win_lines of
                      Some l \<Rightarrow> line_owner b l | None \<Rightarrow> None)"

declare symbol_value.simps [board_defs] from_value_def [board_defs] opposite_def [board_defs]
  check_winner_symbol_def [board_defs] row_win_def [board_defs] col_win_def [board_defs]
  is_board_full_def [board_defs] board_cells_def [board_defs] empty_cells_def [board_defs]
  is_empty_at_def [board_defs] board_wf_def [board_defs] valid_board_format_def [board_defs]

section \<open>Symbols\<close>

lemma from_value_symbol_value [simp]: "from_value (symbol_value s) = Some s"
  by (cases s) (simp_all add: from_value_def)

lemma from_value_Some: "from_value v = Some s \<Longrightarrow> symbol_value s = v"
  by (auto simp: from_value_def split: if_splits)

lemma from_value_None: "from_value v = None \<longleftrightarrow> v \<noteq> 1 \<and> v \<noteq> 2"
  by (auto simp: from_value_def)

lemma symbol_value_inj [simp]: "symbol_value s = symbol_value t \<longleftrightarrow> s = t"
  by (cases s; cases t) simp_all

lemma symbol_value_nonzero [simp]: "symbol_value s \<noteq> 0"
  by (cases s) simp_all

lemma opposite_opposite [simp]: "opposite (opposite s) = s"
  by (cases s) (simp_all add: opposite_def)

lemma opposite_neq [simp]: "opposite s \<noteq> s"
  by (cases s) (simp_all add: opposite_def)

section \<open>The win check against the eight lines\<close>

lemma line_owner_row:
  "line_owner b [(i, 0), (i, 1), (i, 2)] = (if row_win b i then Some (b ! i ! 0) else None)"
  by (auto simp: line_owner_def row_win_def cell_at_def)

lemma line_owner_col:
  "line_owner b [(0, j), (1, j), (2, j)] = (if col_win b j then Some (b ! 0 ! j) else None)"
  by (auto simp: line_owner_def col_win_def cell_at_def)

lemma line_owner_diag:
  "line_owner b [(0, 0), (1, 1), (2, 2)] =
     (if b ! 0 ! 0 = b ! 1 ! 1 \<and> b ! 1 ! 1 = b ! 2 ! 2 \<and> b ! 2 ! 2 \<noteq> 0 then Some (b ! 0 ! 0) else None)"
  by (auto simp: line_owner_def cell_at_def)

lemma line_owner_anti:
  "line_owner b [(0, 2), (1, 1), (2, 0)] =
     (if b ! 0 ! 2 = b ! 1 ! 1 \<and> b ! 1 ! 1 = b ! 2 ! 0 \<and> b ! 2 ! 0 \<noteq> 0 then Some (b ! 0 ! 2) else None)"
  by (auto simp: line_owner_def cell_at_def)

lemma line_owner_Some:
  "line_owner b l = Some v \<longleftrightarrow> l \<noteq> [] \<and> list_all (\<lambda>c. cell_at b c = v) l \<and> v \<noteq> 0"
  by (cases l) (auto simp: line_owner_def list_all_iff)

lemma check_winner_symbol_eq_spec: "check_winner_symbol b = winner_spec b"
  unfolding check_winner_symbol_def winner_spec_def win_lines_def upt_3
  by (simp only: case_find_Cons case_find_Nil line_owner_row line_owner_col line_owner_diag
      line_owner_anti if_True if_False option.simps) (simp only: if_Some_None_neq if_same_cond)

lemma winner_spec_None:
  "winner_spec b = None \<longleftrightarrow> list_all (\<lambda>l. line_owner b l = None) win_lines"
  by (auto simp: winner_spec_def list_all_iff find_None_iff dest: find_Some_iff[THEN iffD1]
      split: option.splits)

lemma winner_spec_Some:
  "winner_spec b = Some v \<Longrightarrow> \<exists>l \<in> set win_lines. line_owner b l = Some v"
  by (auto simp: winner_spec_def find_Some_iff split: option.splits)

section \<open>Shape and empty cells\<close>

lemma board_cells_set: "set board_cells = {(i, j). i < 3 \<and> j < 3}"
  by (auto simp: board_cells_def)

lemma valid_board_format_wf: "valid_board_format b \<longleftrightarrow> board_wf b"
  by (auto simp: valid_board_format_def board_wf_def list_ex_iff list_all_iff)

lemma board_wf_set_cell [simp]: "board_wf b \<Longrightarrow> board_wf (set_cell b i j v)"
  by (simp add: board_wf_def set_cell_rows_length)

lemma board_wf_row_length: "board_wf b \<Longrightarrow> i < 3 \<Longrightarrow> length (b ! i) = 3"
  by (simp add: board_wf_def list_all_length)

lemma is_empty_at_wf:
  "board_wf b \<Longrightarrow> c \<in> set board_cells \<Longrightarrow> is_empty_at b c \<longleftrightarrow> cell_at b c = 0"
  by (auto simp: is_empty_at_def cell_at_def board_cells_set board_wf_row_length board_wf_def)

lemma empty_cells_subset: "set (empty_cells b) \<subseteq> set board_cells"
  by (auto simp: empty_cells_def)

lemma empty_cells_in_range:
  "c \<in> set (empty_cells b) \<Longrightarrow> fst c < length b \<and> snd c < length (b ! fst c) \<and> cell_at b c = 0"
  by (auto simp: empty_cells_def is_empty_at_def cell_at_def)

lemma is_board_full_cells: "is_board_full b \<longleftrightarrow> (\<forall>c \<in> set board_cells. cell_at b c \<noteq> 0)"
  by (simp add: is_board_full_def list_all_iff cell_at_def case_prod_beta)

lemma empty_cells_Nil_full:
  assumes "board_wf b"
  shows "empty_cells b = [] \<longleftrightarrow> is_board_full b"
proof -
  have "empty_cells b = [] \<longleftrightarrow> (\<forall>c \<in> set board_cells. \<not> is_empty_at b c)"
    by (simp add: empty_cells_def filter_empty_conv)
  also have "\<dots> \<longleftrightarrow> (\<forall>c \<in> set board_cells. cell_at b c \<noteq> 0)"
    using is_empty_at_wf [OF assms] by blast
  finally show ?thesis by (simp add: is_board_full_cells)
qed
lemma is_empty_at_set_cell:
  assumes "c \<in> set (empty_cells b)" and "v \<noteq> 0"
  shows "is_empty_at (set_cell b (fst c) (snd c) v) d \<longleftrightarrow> is_empty_at b d \<and> d \<noteq> c"
proof -
  obtain i j where c: "c = (i, j)" by (cases c)
  obtain k l where d: "d = (k, l)" by (cases d)
  from empty_cells_in_range [OF assms(1)] c
  have i: "i < length b" and j: "j < length (b ! i)" and z: "b ! i ! j = 0"
    by (simp_all add: cell_at_def)
  show ?thesis
  proof (cases "k < length b")
    case True
    with i j assms(2) z show ?thesis
      by (auto simp: c d is_empty_at_def set_cell_nth)
  next
    case False
    then show ?thesis by (simp add: c d is_empty_at_def)
  qed
qed

lemma empty_cells_set_cell:
  assumes "c \<in> set (empty_cells b)" and "v \<noteq> 0"
  shows "empty_cells (set_cell b (fst c) (snd c) v) = filter (\<lambda>d. d \<noteq> c) (empty_cells b)"
proof -
  have "filter (is_empty_at (set_cell b (fst c) (snd c) v)) board_cells =
        filter (\<lambda>d. is_empty_at b d \<and> d \<noteq> c) board_cells"
    using is_empty_at_set_cell [OF assms] by (intro filter_cong) auto
  then show ?thesis by (simp only: empty_cells_def filter_conj_neq)
qed

lemma empty_cells_set_cell_less:
  assumes "c \<in> set (empty_cells b)" and "v \<noteq> 0"
  shows "length (empty_cells (set_cell b (fst c) (snd c) v)) < length (empty_cells b)"
  unfolding empty_cells_set_cell [OF assms]
  by (rule length_filter_less_member [OF assms(1)]) simp
section \<open>Properties of the win check\<close>

text \<open>
  C1: equivalence of the hand-unrolled scan with the reference definition.
  \<open>_check_winner_symbol\<close> answers the owner of the first line of \<open>win_lines\<close> (rows,
  then columns, then the two diagonals) that three equal non-zero cells occupy, and
  \<open>None\<close> when there is none.
\<close>

theorem check_winner_symbol_spec:
  "check_winner_symbol b =
     (case find (\<lambda>l. line_owner b l \<noteq> None) win_lines of Some l \<Rightarrow> line_owner b l | None \<Rightarrow> None)"
  using check_winner_symbol_eq_spec by (simp add: winner_spec_def)

text \<open>
  The win check finds no winner exactly when no row, column or diagonal is a line of
  three equal non-empty cells.
\<close>

theorem check_winner_symbol_None_iff:
  "check_winner_symbol b = None \<longleftrightarrow> list_all (\<lambda>l. line_owner b l = None) win_lines"
  by (simp add: check_winner_symbol_eq_spec winner_spec_None)

text \<open>
  A symbol the win check answers is non-empty and fills a whole row, column or
  diagonal of the board.
\<close>

theorem check_winner_symbol_Some:
  "check_winner_symbol b = Some v \<Longrightarrow>
     v \<noteq> 0 \<and> (\<exists>l \<in> set win_lines. list_all (\<lambda>c. cell_at b c = v) l)"
  using winner_spec_Some [of b v] by (auto simp: check_winner_symbol_eq_spec line_owner_Some)

theorem check_winner_symbol_Some_witness:
  "check_winner_symbol [[0, 2, 1], [0, 1, 2], [1, 0, 2]] = Some 1 \<and>
   (1::int) \<noteq> 0 \<and> (\<exists>l \<in> set win_lines. list_all (\<lambda>c. cell_at [[0, 2, 1], [0, 1, 2], [1, 0, 2]] c = 1) l)"
proof -
  have h: "check_winner_symbol [[0, 2, 1], [0, 1, 2], [1, 0, 2]] = Some 1"
    by (simp add: check_winner_symbol_def row_win_def col_win_def upt_3)
  show ?thesis using h check_winner_symbol_Some [OF h] by simp
qed

end
