(* ===== verification/Game.thy ===== *)
theory Game
  imports Board
begin

text \<open>
  One match: the lifecycle enum \<open>GameState\<close> (domain/model/game_state.py), the match
  type \<open>GameType\<close>, the \<open>CurrentGame\<close> dataclass and its query methods
  (domain/model/current_game.py), and \<open>GameServiceImpl._update_game_state\<close>, the
  transition that reads the board and moves a game to a terminal state. The theory
  also holds \<open>game_inv\<close>, the well-formedness of a game that every service operation
  keeps (proved in Service), and the functional behaviour of \<open>_update_game_state\<close> on
  each of its branches.
\<close>

section \<open>Enums\<close>

datatype game_state = WAITING_FOR_PLAYER | PLAYER_TURN | DRAW | PLAYER_WON

text \<open>The \<open>.value\<close> strings, which the repository stores in its \<open>game_state\<close> column.\<close>

primrec game_state_value :: "game_state \<Rightarrow> string" where
  "game_state_value WAITING_FOR_PLAYER = ''waiting_for_player''"
| "game_state_value PLAYER_TURN = ''player_turn''"
| "game_state_value DRAW = ''draw''"
| "game_state_value PLAYER_WON = ''player_won''"

text \<open>\<open>GameState(value)\<close>: lookup by value; \<open>None\<close> is the \<open>ValueError\<close> it raises.\<close>

definition game_state_of_value :: "string \<Rightarrow> game_state option" where
  "game_state_of_value v =
     find (\<lambda>s. game_state_value s = v) [WAITING_FOR_PLAYER, PLAYER_TURN, DRAW, PLAYER_WON]"

text \<open>
  \<open>GameType\<close> lives in domain/model/game_type.py, which is not part of the sources; it
  is modelled from the spec and the controller, which accepts exactly \<open>"pvp"\<close> and
  \<open>"pvc"\<close>.
\<close>

datatype game_type = PVP | PVC

primrec game_type_value :: "game_type \<Rightarrow> string" where
  "game_type_value PVP = ''pvp''"
| "game_type_value PVC = ''pvc''"

definition game_type_of_value :: "string \<Rightarrow> game_type option" where
  "game_type_of_value v = find (\<lambda>t. game_type_value t = v) [PVP, PVC]"

section \<open>CurrentGame\<close>

record current_game =
  game_id :: uuid
  game_field :: board
  game_type :: game_type
  game_state :: game_state
  player1_id :: uuid
  player2_id :: "uuid option"
  player1_symbol :: player_symbol
  player2_symbol :: player_symbol
  current_player_id :: "uuid option"
  winner_id :: "uuid option"
  created_at :: timestamp

definition is_player_turn :: "current_game \<Rightarrow> uuid \<Rightarrow> bool" where
  "is_player_turn g p \<longleftrightarrow> game_state g = PLAYER_TURN \<and> current_player_id g = Some p"

definition is_game_over :: "current_game \<Rightarrow> bool" where
  "is_game_over g \<longleftrightarrow> game_state g \<in> set [DRAW, PLAYER_WON]"

definition get_opponent_id :: "current_game \<Rightarrow> uuid \<Rightarrow> uuid option" where
  "get_opponent_id g p =
     (if p = player1_id g then player2_id g
      else if Some p = player2_id g then Some (player1_id g)
      else None)"

definition get_player_symbol :: "current_game \<Rightarrow> uuid \<Rightarrow> player_symbol option" where
  "get_player_symbol g p =
     (if p = player1_id g then Some (player1_symbol g)
      else if Some p = player2_id g then Some (player2_symbol g)
      else None)"

section \<open>The state transition on a new board\<close>

text \<open>
  \<open>_update_game_state\<close>. A winning symbol that is neither player's value (a client may
  put any integer in a cell) leaves \<open>winner_id\<close> as it was; a win by the second symbol
  names the second player only in a PvP game.
\<close>

definition update_game_state :: "current_game \<Rightarrow> current_game" where
  "update_game_state g =
     (case check_winner_symbol (game_field g) of
        Some w \<Rightarrow>
          (let g' = (if w = symbol_value (player1_symbol g) then g\<lparr>winner_id := Some (player1_id g)\<rparr>
                     else if w = symbol_value (player2_symbol g) then
                       (if game_type g = PVP then g\<lparr>winner_id := player2_id g\<rparr>
                        else g\<lparr>winner_id := None\<rparr>)
                     else g)
           in g'\<lparr>game_state := PLAYER_WON, current_player_id := None\<rparr>)
      | None \<Rightarrow>
          (if is_board_full (game_field g)
           then g\<lparr>game_state := DRAW, current_player_id := None, winner_id := None\<rparr>
           else g))"

section \<open>Well-formed games\<close>

text \<open>
  What the code keeps true of every stored game: a 3x3 board, X for the creator and O
  for the second slot, and per lifecycle state the players, the turn, the winner and what
  the board shows. The PvP second player differs from the creator (\<open>join_game\<close> refuses
  a self-join).
\<close>

definition turn_ok :: "current_game \<Rightarrow> bool" where
  "turn_ok g \<longleftrightarrow>
     (case game_type g of
        PVP \<Rightarrow> (case player2_id g of
                  None \<Rightarrow> False
                | Some p2 \<Rightarrow> p2 \<noteq> player1_id g \<and>
                    (current_player_id g = Some (player1_id g) \<or> current_player_id g = Some p2))
      | PVC \<Rightarrow> player2_id g = None \<and> current_player_id g = Some (player1_id g))"

definition game_inv :: "current_game \<Rightarrow> bool" where
  "game_inv g \<longleftrightarrow>
     board_wf (game_field g) \<and> player1_symbol g = X \<and> player2_symbol g = O' \<and>
     (case game_state g of
        WAITING_FOR_PLAYER \<Rightarrow>
          game_type g = PVP \<and> player2_id g = None \<and> current_player_id g = None \<and>
          winner_id g = None \<and> game_field g = empty_board
      | PLAYER_TURN \<Rightarrow>
          turn_ok g \<and> winner_id g = None \<and>
          check_winner_symbol (game_field g) = None \<and> \<not> is_board_full (game_field g)
      | DRAW \<Rightarrow>
          current_player_id g = None \<and> winner_id g = None \<and>
          check_winner_symbol (game_field g) = None \<and> is_board_full (game_field g)
      | PLAYER_WON \<Rightarrow>
          current_player_id g = None \<and> check_winner_symbol (game_field g) \<noteq> None)"

declare is_player_turn_def [game_defs] is_game_over_def [game_defs] get_opponent_id_def [game_defs]
  get_player_symbol_def [game_defs] update_game_state_def [game_defs]

section \<open>Enum round trips and the branches of the transition\<close>

lemma game_state_of_value_value [simp]: "game_state_of_value (game_state_value s) = Some s"
  by (cases s) (simp_all add: game_state_of_value_def)

lemma game_type_of_value_value [simp]: "game_type_of_value (game_type_value t) = Some t"
  by (cases t) (simp_all add: game_type_of_value_def)

lemma update_game_state_ongoing:
  "check_winner_symbol (game_field g) = None \<Longrightarrow> \<not> is_board_full (game_field g) \<Longrightarrow>
   update_game_state g = g"
  by (simp add: update_game_state_def)

lemma update_game_state_draw:
  "check_winner_symbol (game_field g) = None \<Longrightarrow> is_board_full (game_field g) \<Longrightarrow>
   update_game_state g = g\<lparr>game_state := DRAW, current_player_id := None, winner_id := None\<rparr>"
  by (simp add: update_game_state_def)

lemma update_game_state_won:
  "check_winner_symbol (game_field g) = Some w \<Longrightarrow>
   update_game_state g = g\<lparr>game_state := PLAYER_WON, current_player_id := None,
     winner_id := (if w = symbol_value (player1_symbol g) then Some (player1_id g)
                   else if w = symbol_value (player2_symbol g) then
                     (if game_type g = PVP then player2_id g else None)
                   else winner_id g)\<rparr>"
  by (simp add: update_game_state_def Let_def)

lemma update_game_state_frame [simp]:
  "game_field (update_game_state g) = game_field g"
  "game_id (update_game_state g) = game_id g"
  "game_type (update_game_state g) = game_type g"
  "player1_id (update_game_state g) = player1_id g"
  "player2_id (update_game_state g) = player2_id g"
  "player1_symbol (update_game_state g) = player1_symbol g"
  "player2_symbol (update_game_state g) = player2_symbol g"
  "created_at (update_game_state g) = created_at g"
  by (simp_all add: update_game_state_def Let_def split: option.splits)

lemma update_game_state_over_iff:
  "is_game_over (update_game_state g) \<longleftrightarrow>
     check_winner_symbol (game_field g) \<noteq> None \<or> is_board_full (game_field g) \<or> is_game_over g"
  by (auto simp: update_game_state_def Let_def is_game_over_def split: option.splits)

lemma turn_ok_game_field [simp]: "turn_ok (g\<lparr>game_field := b\<rparr>) = turn_ok g"
  by (simp add: turn_ok_def split: game_type.split option.split)

lemma update_game_state_inv:
  assumes inv: "game_inv g" and turn: "game_state g = PLAYER_TURN" and wf: "board_wf b"
  shows "game_inv (update_game_state (g\<lparr>game_field := b\<rparr>))"
proof (cases "check_winner_symbol b")
  case None
  with inv turn wf show ?thesis
    by (cases "is_board_full b")
       (simp_all add: update_game_state_def game_inv_def)
next
  case (Some w)
  with inv turn wf show ?thesis
    by (simp add: update_game_state_won game_inv_def)
qed

lemma game_state_value_eq_iff:
  "game_state_value s = ''waiting_for_player'' \<longleftrightarrow> s = WAITING_FOR_PLAYER"
  "game_state_value s = ''player_turn'' \<longleftrightarrow> s = PLAYER_TURN"
  "game_state_value s = ''draw'' \<longleftrightarrow> s = DRAW"
  "game_state_value s = ''player_won'' \<longleftrightarrow> s = PLAYER_WON"
  by (cases s; simp)+

lemma game_state_open:
  "(s = WAITING_FOR_PLAYER \<or> s = PLAYER_TURN) \<longleftrightarrow> s \<noteq> DRAW \<and> s \<noteq> PLAYER_WON"
  by (cases s) simp_all

end
