(* ===== verification/Field_Entity.thy ===== *)
theory Field_Entity
  imports Prelude
begin

text \<open>
  The \<open>game_fields\<close> row (datasource/model/game_field_entity.py): the board is stored as
  the JSON text \<open>json.dumps(board)\<close> in the column \<open>board_data\<close>, cached in the attribute
  \<open>_board\<close> of the object the setter wrote; an object loaded from the database has no
  \<open>_board\<close> and its getter answers \<open>json.loads(board_data)\<close>, or the empty board when the
  text is empty.

  \<open>json.dumps\<close> and \<open>json.loads\<close> are the standard library's; they are modelled on the
  values they meet here, lists of lists of integers. \<open>dumps_board\<close> writes what
  \<open>json.dumps\<close> writes (separators \<open>", "\<close>, integers in decimal with a leading minus).
  \<open>loads_board\<close> reads a JSON text that denotes a list of lists of integers, with JSON's
  whitespace and its integer syntax (no leading zeros, no plus sign); any other text is
  \<open>None\<close>, where \<open>json.loads\<close> raises or returns a value that is not such a list.
\<close>

section \<open>json.dumps on integer matrices\<close>

fun str_nat :: "nat \<Rightarrow> string" where
  "str_nat n = (if n < 10 then [char_of (48 + n)] else str_nat (n div 10) @ [char_of (48 + n mod 10)])"

declare str_nat.simps [simp del]

definition str_int :: "int \<Rightarrow> string" where
  "str_int i = (if i < 0 then CHR ''-'' # str_nat (nat (- i)) else str_nat (nat i))"

definition dumps_list :: "('a \<Rightarrow> string) \<Rightarrow> 'a list \<Rightarrow> string" where
  "dumps_list f xs =
     CHR ''['' # (case xs of [] \<Rightarrow> [] | x # ys \<Rightarrow> f x @ concat (map (\<lambda>y. CHR '','' # CHR '' '' # f y) ys)) @ '']''"

definition dumps_board :: "board \<Rightarrow> string" where
  "dumps_board b = dumps_list (dumps_list str_int) b"

section \<open>json.loads on integer matrices\<close>

definition is_ws :: "char \<Rightarrow> bool" where
  "is_ws c \<longleftrightarrow> c \<in> set [CHR '' '', CHR 0x09, CHR 0x0A, CHR 0x0D]"

definition skip_ws :: "string \<Rightarrow> string" where
  "skip_ws s = dropWhile is_ws s"

definition is_digit :: "char \<Rightarrow> bool" where
  "is_digit c \<longleftrightarrow> (48::nat) \<le> of_char c \<and> of_char c \<le> (57::nat)"

definition digits_val :: "string \<Rightarrow> nat" where
  "digits_val ds = foldl (\<lambda>a d. 10 * a + (of_char d - 48)) 0 ds"

text \<open>A JSON number that is an integer: an optional minus, then \<open>0\<close> or digits not starting
  with \<open>0\<close>. A fraction or exponent that follows makes it a float, which the callers below
  refuse since they expect a comma or a bracket next.\<close>

definition parse_int :: "string \<Rightarrow> (int \<times> string) option" where
  "parse_int s =
     (let (neg, s1) = (case s of c # r \<Rightarrow> if c = CHR ''-'' then (True, r) else (False, s) | [] \<Rightarrow> (False, s));
          ds = takeWhile is_digit s1; r = dropWhile is_digit s1
      in if ds = [] \<or> (hd ds = CHR ''0'' \<and> 1 < length ds) then None
         else Some (if neg then - int (digits_val ds) else int (digits_val ds), r))"

text \<open>
  A JSON array of items that \<open>p\<close> reads: \<open>parse_tail\<close> reads the items after the first up
  to the closing bracket, \<open>(, item)* ]\<close>. The recursion stops unless the item consumed
  input; the item parsers used here always do, so the test never fails on them
  (\<open>parse_tail_consumes\<close> below), and it makes \<open>parse_tail\<close> total for every \<open>p\<close>.
\<close>

function parse_tail ::
  "(string \<Rightarrow> ('a \<times> string) option) \<Rightarrow> string \<Rightarrow> ('a list \<times> string) option" where
  "parse_tail p s =
     (case skip_ws s of
        [] \<Rightarrow> None
      | c # r \<Rightarrow>
          if c = CHR '']'' then Some ([], r)
          else if c = CHR '','' then
            (case p (skip_ws r) of
               None \<Rightarrow> None
             | Some (x, r') \<Rightarrow>
                 if length r' < length s then map_option (\<lambda>(xs, r''). (x # xs, r'')) (parse_tail p r')
                 else None)
          else None)"
  by pat_completeness auto
termination
  by (relation "measure (\<lambda>(p, s). length s)") auto

declare parse_tail.simps [simp del]

definition parse_list ::
  "(string \<Rightarrow> ('a \<times> string) option) \<Rightarrow> string \<Rightarrow> ('a list \<times> string) option" where
  "parse_list p s =
     (case skip_ws s of
        [] \<Rightarrow> None
      | c # r \<Rightarrow>
          if c \<noteq> CHR ''['' then None
          else (case skip_ws r of
                  [] \<Rightarrow> None
                | d # r2 \<Rightarrow>
                    if d = CHR '']'' then Some ([], r2)
                    else (case p (skip_ws r) of
                            None \<Rightarrow> None
                          | Some (x, r') \<Rightarrow> map_option (\<lambda>(xs, r''). (x # xs, r'')) (parse_tail p r'))))"

text \<open>\<open>json.loads(board_data)\<close>: the whole text is one array of arrays of integers.\<close>

definition loads_board :: "string \<Rightarrow> board option" where
  "loads_board s =
     (case parse_list (parse_list parse_int) s of
        None \<Rightarrow> None
      | Some (b, r) \<Rightarrow> if skip_ws r = [] then Some b else None)"

section \<open>GameFieldEntity\<close>

text \<open>
  The object: the column \<open>board_data\<close> and the attribute \<open>_board\<close> when the object was built
  or assigned in this process. The setter writes both; the getter prefers \<open>_board\<close>, then
  the text, then the empty board.
\<close>

record game_field_entity =
  fe_board_data :: string
  fe_cached :: "board option"

definition fe_set_board :: "game_field_entity \<Rightarrow> board \<Rightarrow> game_field_entity" where
  "fe_set_board e b = e\<lparr>fe_cached := Some b, fe_board_data := dumps_board b\<rparr>"

definition fe_new :: "board \<Rightarrow> game_field_entity" where
  "fe_new b = fe_set_board \<lparr>fe_board_data = [], fe_cached = None\<rparr> b"

definition fe_board :: "game_field_entity \<Rightarrow> board option" where
  "fe_board e =
     (case fe_cached e of
        Some b \<Rightarrow> Some b
      | None \<Rightarrow> if fe_board_data e \<noteq> [] then loads_board (fe_board_data e)
                else Some [[0, 0, 0], [0, 0, 0], [0, 0, 0]])"

text \<open>Loading the row in a later session: SQLAlchemy restores the columns only.\<close>

definition fe_reload :: "game_field_entity \<Rightarrow> game_field_entity" where
  "fe_reload e = \<lparr>fe_board_data = fe_board_data e, fe_cached = None\<rparr>"

section \<open>Printing and reading back\<close>

lemma of_char_digit: "k < 10 \<Longrightarrow> of_char (char_of (48 + k) :: char) = 48 + (k::nat)"
  by (simp add: of_char_of)

lemma str_nat_digits: "str_nat n \<noteq> [] \<and> list_all is_digit (str_nat n)"
proof (induction n rule: str_nat.induct)
  case (1 n)
  then show ?case unfolding str_nat.simps [of n] by (auto simp: is_digit_def of_char_of)
qed

lemma digits_val_str_nat: "digits_val (str_nat n) = n"
proof (induction n rule: str_nat.induct)
  case (1 n)
  then show ?case unfolding str_nat.simps [of n] by (simp add: digits_val_def of_char_digit)
qed

lemma str_nat_lead: "0 < n \<Longrightarrow> hd (str_nat n) \<noteq> CHR ''0''"
proof (induction n rule: str_nat.induct)
  case (1 n)
  show ?case
  proof (cases "n < 10")
    case True
    then have "of_char (hd (str_nat n)) = 48 + n" by (subst str_nat.simps) (simp add: of_char_digit)
    then show ?thesis using "1.prems" by auto
  next
    case False
    then have "hd (str_nat n) = hd (str_nat (n div 10))"
      using str_nat_digits [of "n div 10"] by (subst str_nat.simps) simp
    then show ?thesis using "1.IH" False by simp
  qed
qed

lemma str_nat_0: "str_nat 0 = ''0''"
  by code_simp

lemma not_digit_not_ws [simp]:
  "\<not> is_digit CHR ''-''" "\<not> is_digit CHR '',''" "\<not> is_digit CHR '']''"
  "\<not> is_ws CHR '',''" "\<not> is_ws CHR ''[''" "\<not> is_ws CHR '']''" "\<not> is_ws CHR ''-''" "is_ws CHR '' ''"
  by (simp_all add: is_digit_def is_ws_def)

lemma digit_not_ws: "is_digit c \<Longrightarrow> \<not> is_ws c \<and> c \<noteq> CHR ''-'' \<and> c \<noteq> CHR '']''"
  by (auto simp: is_digit_def is_ws_def)

lemma str_int_start: "str_int i \<noteq> [] \<and> \<not> is_ws (hd (str_int i)) \<and> hd (str_int i) \<noteq> CHR '']''"
  using str_nat_digits [of "nat (- i)"] str_nat_digits [of "nat i"]
  by (cases "str_nat (nat i)"; auto simp: str_int_def list_all_iff dest: digit_not_ws)

lemma skip_ws_start: "s \<noteq> [] \<Longrightarrow> \<not> is_ws (hd s) \<Longrightarrow> skip_ws (s @ r) = s @ r"
  by (cases s) (simp_all add: skip_ws_def)

lemma parse_int_str_int:
  assumes r: "r = [] \<or> \<not> is_digit (hd r)"
  shows "parse_int (str_int i @ r) = Some (i, r)"
proof -
  let ?n = "if i < 0 then nat (- i) else nat i"
  have d: "str_nat ?n \<noteq> []" "list_all is_digit (str_nat ?n)" using str_nat_digits by blast+
  have tw: "takeWhile is_digit (str_nat ?n @ r) = str_nat ?n"
    using d r by (cases r) (auto simp: list_all_iff takeWhile_append2)
  have dw: "dropWhile is_digit (str_nat ?n @ r) = r"
    using d r by (cases r) (auto simp: list_all_iff dropWhile_append2)
  have lead: "\<not> (hd (str_nat ?n) = CHR ''0'' \<and> 1 < length (str_nat ?n))"
    using str_nat_lead [of ?n] str_nat_0 by (cases "?n = 0") auto
  have val: "(if i < 0 then - int (digits_val (str_nat ?n)) else int (digits_val (str_nat ?n))) = i"
    by (simp add: digits_val_str_nat)
  have first: "i \<ge> 0 \<Longrightarrow> hd (str_nat ?n) \<noteq> CHR ''-''"
    using d by (cases "str_nat ?n") (auto dest: digit_not_ws)
  show ?thesis
  proof (cases "i < 0")
    case True
    then show ?thesis using tw dw lead val d(1) by (simp add: parse_int_def str_int_def Let_def)
  next
    case False
    then show ?thesis using tw dw lead val first d(1)
      by (cases "str_nat (nat i)") (simp_all add: parse_int_def str_int_def Let_def)
  qed
qed

text \<open>An item printer and parser that fit: the printed item starts with no blank and no
  closing bracket, and the parser reads it back before a comma or a closing bracket.\<close>

lemma parse_tail_dumps:
  assumes p: "\<And>x r. r \<noteq> [] \<Longrightarrow> hd r \<in> {CHR '','', CHR '']''} \<Longrightarrow> p (f x @ r) = Some (x, r)"
    and f: "\<And>x. f x \<noteq> [] \<and> \<not> is_ws (hd (f x))"
  shows "parse_tail p (concat (map (\<lambda>y. CHR '','' # CHR '' '' # f y) ys) @ CHR '']'' # r) = Some (ys, r)"
proof (induction ys)
  case Nil
  then show ?case by (subst parse_tail.simps) (simp add: skip_ws_def)
next
  case (Cons y ys)
  let ?rest = "concat (map (\<lambda>y. CHR '','' # CHR '' '' # f y) ys) @ CHR '']'' # r"
  have rest: "?rest \<noteq> [] \<and> hd ?rest \<in> {CHR '','', CHR '']''}" by (cases ys) auto
  have sk: "skip_ws (CHR '' '' # f y @ ?rest) = f y @ ?rest"
    using skip_ws_start [of "f y" ?rest] f [of y] by (simp add: skip_ws_def)
  have "parse_tail p (CHR '','' # CHR '' '' # f y @ ?rest) =
        map_option (\<lambda>(xs, r''). (y # xs, r'')) (parse_tail p ?rest)"
    using sk p [of ?rest y] rest by (subst parse_tail.simps) (simp add: skip_ws_def)
  then show ?case using Cons.IH by simp
qed

lemma parse_list_dumps:
  assumes p: "\<And>x r. r \<noteq> [] \<Longrightarrow> hd r \<in> {CHR '','', CHR '']''} \<Longrightarrow> p (f x @ r) = Some (x, r)"
    and f: "\<And>x. f x \<noteq> [] \<and> \<not> is_ws (hd (f x)) \<and> hd (f x) \<noteq> CHR '']''"
  shows "parse_list p (dumps_list f xs @ r) = Some (xs, r)"
proof (cases xs)
  case Nil
  then show ?thesis by (simp add: parse_list_def dumps_list_def skip_ws_def)
next
  case (Cons x ys)
  let ?rest = "concat (map (\<lambda>y. CHR '','' # CHR '' '' # f y) ys) @ CHR '']'' # r"
  have rest: "?rest \<noteq> [] \<and> hd ?rest \<in> {CHR '','', CHR '']''}" by (cases ys) auto
  have sk: "skip_ws (f x @ ?rest) = f x @ ?rest" using skip_ws_start f [of x] by blast
  have hd: "hd (f x @ ?rest) \<noteq> CHR '']''" "f x @ ?rest \<noteq> []" using f [of x] by auto
  obtain d t where d: "f x @ ?rest = d # t" using hd(2) by (cases "f x @ ?rest") auto
  show ?thesis
    using Cons sk hd d p [of ?rest x] rest parse_tail_dumps [OF p, of ys r] f
    by (simp add: parse_list_def dumps_list_def skip_ws_def)
qed

lemma dumps_list_start: "dumps_list f xs \<noteq> [] \<and> \<not> is_ws (hd (dumps_list f xs)) \<and> hd (dumps_list f xs) \<noteq> CHR '']''"
  by (simp add: dumps_list_def)

lemma parse_int_list_dumps:
  "r \<noteq> [] \<Longrightarrow> hd r \<in> {CHR '','', CHR '']''} \<Longrightarrow> parse_list parse_int (dumps_list str_int x @ r) = Some (x, r)"
  by (rule parse_list_dumps) (auto intro: parse_int_str_int simp: str_int_start)

lemma loads_dumps_board: "loads_board (dumps_board b) = Some b"
  using parse_list_dumps [where p = "parse_list parse_int" and f = "dumps_list str_int" and xs = b and r = "[]",
      OF parse_int_list_dumps dumps_list_start]
  by (simp add: loads_board_def dumps_board_def skip_ws_def)

lemma dumps_board_nonempty: "dumps_board b \<noteq> []"
  by (simp add: dumps_board_def dumps_list_def)

section \<open>The parsers consume input\<close>

lemma parse_int_shorter: "parse_int s = Some (i, r) \<Longrightarrow> length r < length s"
proof -
  assume p: "parse_int s = Some (i, r)"
  obtain neg s1 where ns: "(neg, s1) = (case s of c # r \<Rightarrow> if c = CHR ''-'' then (True, r) else (False, s) | [] \<Rightarrow> (False, s))"
    by (metis surj_pair)
  have s1: "length s1 \<le> length s" using ns by (cases s) (auto split: if_splits)
  have ne: "takeWhile is_digit s1 \<noteq> []" and r: "r = dropWhile is_digit s1"
    using p ns by (auto simp: parse_int_def Let_def split: prod.splits if_splits)
  have "length (dropWhile is_digit s1) < length s1"
    using ne by (induction s1) (auto simp: le_imp_less_Suc length_dropWhile_le split: if_splits)
  then show ?thesis using r s1 by simp
qed

lemma length_skip_ws: "length (skip_ws s) \<le> length s"
  by (simp add: skip_ws_def length_dropWhile_le)

lemma parse_tail_shorter:
  assumes p: "\<And>s x r. p s = Some (x, r) \<Longrightarrow> length r < length s"
  shows "parse_tail p s = Some (xs, r) \<Longrightarrow> length r < length s"
proof (induction p s arbitrary: xs rule: parse_tail.induct)
  case (1 p s)
  have sk: "length (skip_ws s) \<le> length s" by (rule length_skip_ws)
  show ?case
    using "1.prems" "1.IH" sk
    by (subst (asm) parse_tail.simps)
       (fastforce split: list.splits if_splits option.splits prod.splits)
qed

lemma parse_list_shorter:
  assumes p: "\<And>s x r. p s = Some (x, r) \<Longrightarrow> length r < length s"
  shows "parse_list p s = Some (xs, r) \<Longrightarrow> length r < length s"
proof -
  assume l: "parse_list p s = Some (xs, r)"
  have sk: "\<And>t. length (skip_ws t) \<le> length t" by (rule length_skip_ws)
  from l obtain c r1 where s1: "skip_ws s = c # r1"
    by (auto simp: parse_list_def split: list.splits)
  then have len1: "length r1 < length s" using sk [of s] by simp
  show ?thesis
    using l s1 len1 sk [of r1] p [of "skip_ws r1"] parse_tail_shorter [OF p]
    by (fastforce simp: parse_list_def split: list.splits if_splits option.splits prod.splits)
qed

section \<open>The stored board\<close>

text \<open>
  A board written through the setter of \<open>GameFieldEntity\<close> reads back as the same
  board, from the object itself (through \<open>_board\<close>) and from the row loaded in a later
  session (through \<open>json.loads(board_data)\<close>); the getter never falls back to its default
  board for a row the setter wrote. This is what lets the rows of \<open>Persistence\<close> hold the
  board itself.
\<close>

theorem board_storage_roundtrip:
  "fe_board (fe_set_board e b) = Some b \<and> fe_board (fe_reload (fe_set_board e b)) = Some b"
  by (simp add: fe_set_board_def fe_reload_def fe_board_def loads_dumps_board dumps_board_nonempty)

end
