(* ===== verification/Persistence.thy ===== *)
theory Persistence
  imports Game Field_Entity "HOL-Library.Product_Lexorder" "HOL-Library.Multiset"
begin

text \<open>
  The persistence layer: the \<open>current_games\<close> row (datasource/model/current_game_entity.py
  with its \<open>game_fields\<close> row, game_field_entity.py), the mapper between rows and
  \<open>CurrentGame\<close> (datasource/mapper/game_mapper.py) and the queries of \<open>GameRepository\<close>
  (datasource/repository/game_repository.py). The table is an association list from
  \<open>game_id\<close> to rows in storage order: a primary-key lookup is \<open>map_of\<close>, an upsert is
  \<open>AList.update\<close> (an update in place, or a new row at the end), and \<open>.all()\<close> without
  \<open>ORDER BY\<close> reads the rows in that order, one of the orders the database may return.
  Enum columns hold the enums' string or integer values. The row holds the board itself: the
  \<open>game_fields\<close> row stores it as JSON text, and theory \<open>Field_Entity\<close> proves (C38) that
  what its setter writes reads back as the same board in any later session. The string form
  of the UUID is left out, since \<open>UUID (str u) = u\<close>. The theory proves that the mapper round-trips a game,
  and what each query and the leaderboard aggregation return.
\<close>

section \<open>Rows\<close>

record game_entity =
  ent_game_id :: uuid
  ent_board :: board
  ent_game_type :: string
  ent_game_state :: string
  ent_player1_id :: uuid
  ent_player2_id :: "uuid option"
  ent_player1_symbol :: int
  ent_player2_symbol :: int
  ent_current_player_id :: "uuid option"
  ent_winner_id :: "uuid option"
  ent_created_at :: timestamp

type_synonym game_store = "(uuid \<times> game_entity) list"

section \<open>GameMapper\<close>

definition to_entity :: "current_game \<Rightarrow> game_entity" where
  "to_entity g =
     \<lparr>ent_game_id = game_id g, ent_board = game_field g,
      ent_game_type = game_type_value (game_type g), ent_game_state = game_state_value (game_state g),
      ent_player1_id = player1_id g, ent_player2_id = player2_id g,
      ent_player1_symbol = symbol_value (player1_symbol g),
      ent_player2_symbol = symbol_value (player2_symbol g),
      ent_current_player_id = current_player_id g, ent_winner_id = winner_id g,
      ent_created_at = created_at g\<rparr>"

text \<open>
  \<open>to_domain\<close>: \<open>GameType(...)\<close> and \<open>GameState(...)\<close> raise on an unknown string, which is
  \<open>None\<close> here. \<open>PlayerSymbol.from_value\<close> answers \<open>None\<close> on an unknown integer and the
  Python builds a game holding \<open>None\<close> that fails at the first \<open>.value\<close>; the model fails
  at once. Every stored row is the image of a game (\<open>store_inv\<close>), so neither happens.
\<close>

definition to_domain :: "game_entity \<Rightarrow> current_game option" where
  "to_domain e =
     (case game_type_of_value (ent_game_type e) of None \<Rightarrow> None | Some t \<Rightarrow>
      case game_state_of_value (ent_game_state e) of None \<Rightarrow> None | Some s \<Rightarrow>
      case from_value (ent_player1_symbol e) of None \<Rightarrow> None | Some s1 \<Rightarrow>
      case from_value (ent_player2_symbol e) of None \<Rightarrow> None | Some s2 \<Rightarrow>
      Some \<lparr>game_id = ent_game_id e, game_field = game_field_init (ent_board e),
            game_type = t, game_state = s,
            player1_id = ent_player1_id e, player2_id = ent_player2_id e,
            player1_symbol = s1, player2_symbol = s2,
            current_player_id = ent_current_player_id e, winner_id = ent_winner_id e,
            created_at = ent_created_at e\<rparr>)"

section \<open>GameRepository\<close>

text \<open>
  \<open>save_game\<close>: an existing row gets every column of the new one but \<open>game_id\<close> and
  \<open>created_at\<close>, and is returned; a new row is added and returned.
\<close>

definition save_game :: "game_store \<Rightarrow> game_entity \<Rightarrow> game_store \<times> game_entity" where
  "save_game st e =
     (case map_of st (ent_game_id e) of
        Some ex \<Rightarrow>
          (let ex' = ex\<lparr>ent_board := ent_board e, ent_game_type := ent_game_type e,
                        ent_game_state := ent_game_state e, ent_player1_id := ent_player1_id e,
                        ent_player2_id := ent_player2_id e, ent_player1_symbol := ent_player1_symbol e,
                        ent_player2_symbol := ent_player2_symbol e,
                        ent_current_player_id := ent_current_player_id e,
                        ent_winner_id := ent_winner_id e\<rparr>
           in (AList.update (ent_game_id e) ex' st, ex'))
      | None \<Rightarrow> (AList.update (ent_game_id e) e st, e))"

definition get_game :: "game_store \<Rightarrow> uuid \<Rightarrow> game_entity option" where
  "get_game st gid = map_of st gid"

definition get_available_games :: "game_store \<Rightarrow> game_entity list" where
  "get_available_games st =
     filter (\<lambda>e. ent_game_state e \<in> set [game_state_value WAITING_FOR_PLAYER, game_state_value PLAYER_TURN])
       (map snd st)"

definition delete_game :: "game_store \<Rightarrow> uuid \<Rightarrow> game_store \<times> bool" where
  "delete_game st gid =
     (case map_of st gid of None \<Rightarrow> (st, False) | Some _ \<Rightarrow> (AList.delete gid st, True))"

definition is_completed_row :: "game_entity \<Rightarrow> bool" where
  "is_completed_row e \<longleftrightarrow> ent_game_state e \<in> set [game_state_value PLAYER_WON, game_state_value DRAW]"

text \<open>
  \<open>get_completed_games_by_user\<close>: \<open>ORDER BY created_at DESC\<close> leaves the order of equal
  timestamps to the database; the model keeps storage order among them (a stable sort).
\<close>

definition get_completed_games_by_user :: "game_store \<Rightarrow> uuid \<Rightarrow> game_entity list" where
  "get_completed_games_by_user st u =
     sort_key (\<lambda>e. - int (ent_created_at e))
       (filter (\<lambda>e. (ent_player1_id e = u \<or> ent_player2_id e = Some u) \<and> is_completed_row e)
          (map snd st))"

section \<open>The leaderboard aggregation\<close>

text \<open>
  \<open>user_stats\<close> is a \<open>defaultdict\<close>: an association list from user to (wins, total), a new
  user appended at the end, so that iteration follows first appearance as the dict's does.
  \<open>if game.player1_id\<close> always holds (a UUID is truthy and the column is not null).
\<close>

definition bump_stats :: "(uuid \<times> nat \<times> nat) list \<Rightarrow> uuid \<Rightarrow> bool \<Rightarrow> (uuid \<times> nat \<times> nat) list" where
  "bump_stats stats u won =
     (let (w, t) = (case map_of stats u of None \<Rightarrow> (0, 0) | Some wt \<Rightarrow> wt)
      in AList.update u (if won then Suc w else w, Suc t) stats)"

definition tally_game :: "(uuid \<times> nat \<times> nat) list \<Rightarrow> game_entity \<Rightarrow> (uuid \<times> nat \<times> nat) list" where
  "tally_game stats e =
     (let s1 = bump_stats stats (ent_player1_id e) (ent_winner_id e = Some (ent_player1_id e))
      in case ent_player2_id e of
           None \<Rightarrow> s1
         | Some p2 \<Rightarrow> bump_stats s1 p2 (ent_winner_id e = Some p2))"

text \<open>A leaderboard row: user, win ratio, wins, total. Python's float ratio is the exact \<open>rat\<close>.\<close>

type_synonym leader_row = "uuid \<times> rat \<times> nat \<times> nat"

definition leader_rows :: "(uuid \<times> nat \<times> nat) list \<Rightarrow> leader_row list" where
  "leader_rows stats =
     map (\<lambda>(u, w, t). (u, of_nat w / of_nat t, w, t)) (filter (\<lambda>(u, w, t). 0 < t) stats)"

text \<open>
  \<open>results.sort(key=lambda x: (x[1], x[2]), reverse=True)\<close> is a stable sort by
  descending (ratio, wins): an ascending stable sort on the negated key.
\<close>

definition sort_leaders :: "leader_row list \<Rightarrow> leader_row list" where
  "sort_leaders rs = sort_key (\<lambda>(u, r, w, t). (- r, - int w)) rs"

definition repo_get_leaderboard :: "game_store \<Rightarrow> nat \<Rightarrow> leader_row list" where
  "repo_get_leaderboard st limit =
     take limit (sort_leaders (leader_rows (fold (\<lambda>e s. tally_game s e)
        (filter is_completed_row (map snd st)) [])))"

section \<open>The store invariant\<close>

text \<open>
  Rows are filed under their own \<open>game_id\<close>, and every row is the image under
  \<open>to_entity\<close> of a well-formed game, which \<open>to_domain\<close> reads back.
\<close>

definition keys_ok :: "game_store \<Rightarrow> bool" where
  "keys_ok st \<longleftrightarrow> list_all (\<lambda>(k, e). ent_game_id e = k) st"

definition stored_created :: "game_store \<Rightarrow> game_entity \<Rightarrow> timestamp" where
  "stored_created st e =
     (case map_of st (ent_game_id e) of Some ex \<Rightarrow> ent_created_at ex | None \<Rightarrow> ent_created_at e)"

definition row_ok :: "uuid \<Rightarrow> game_entity \<Rightarrow> bool" where
  "row_ok k e \<longleftrightarrow> ent_game_id e = k \<and>
     (case to_domain e of None \<Rightarrow> False | Some g \<Rightarrow> game_inv g \<and> to_entity g = e)"

definition store_inv :: "game_store \<Rightarrow> bool" where
  "store_inv st \<longleftrightarrow> list_all (\<lambda>(k, e). row_ok k e) st"

section \<open>What the leaderboard counts\<close>

text \<open>
  The reference counts the leaderboard promises: over a list of rows, the games a user
  plays as first and as second player, and the ones of those the user won; the rows the
  aggregation reads are the completed ones; \<open>stats_of\<close> reads a user's (wins, total)
  counter with the \<open>defaultdict\<close> default; \<open>leader_key\<close> is the sort key
  \<open>(x[1], x[2])\<close>.
\<close>

definition games_in :: "game_entity list \<Rightarrow> uuid \<Rightarrow> nat" where
  "games_in es u = length (filter (\<lambda>e. ent_player1_id e = u) es) +
                   length (filter (\<lambda>e. ent_player2_id e = Some u) es)"

definition wins_in :: "game_entity list \<Rightarrow> uuid \<Rightarrow> nat" where
  "wins_in es u = length (filter (\<lambda>e. ent_player1_id e = u \<and> ent_winner_id e = Some u) es) +
                  length (filter (\<lambda>e. ent_player2_id e = Some u \<and> ent_winner_id e = Some u) es)"

definition completed_rows :: "game_store \<Rightarrow> game_entity list" where
  "completed_rows st = filter is_completed_row (map snd st)"

definition stats_of :: "(uuid \<times> nat \<times> nat) list \<Rightarrow> uuid \<Rightarrow> nat \<times> nat" where
  "stats_of s u = (case map_of s u of None \<Rightarrow> (0, 0) | Some wt \<Rightarrow> wt)"

definition leader_key :: "leader_row \<Rightarrow> rat \<times> nat" where
  "leader_key x = (case x of (u, r, w, t) \<Rightarrow> (r, w))"

section \<open>Mapper, upsert and invariant lemmas\<close>

lemma update_absent_append:
  "map_of al k = None \<Longrightarrow> AList.update k v al = al @ [(k, v)]"
  by (induction al) (auto split: if_splits)

lemma game_field_init_id [simp]: "b \<noteq> [] \<Longrightarrow> game_field_init b = b"
  by (simp add: game_field_init_def)

lemma to_domain_to_entity:
  "game_field g \<noteq> [] \<Longrightarrow> to_domain (to_entity g) = Some g"
  by (simp add: to_domain_def to_entity_def)

lemma to_domain_created_at:
  "to_domain (e\<lparr>ent_created_at := c\<rparr>) = map_option (\<lambda>g. g\<lparr>created_at := c\<rparr>) (to_domain e)"
  by (simp add: to_domain_def split: option.splits)

lemma to_entity_created_at:
  "to_entity (g\<lparr>created_at := c\<rparr>) = (to_entity g)\<lparr>ent_created_at := c\<rparr>"
  by (simp add: to_entity_def)

lemma keys_ok_map_of: "keys_ok st \<Longrightarrow> map_of st k = Some e \<Longrightarrow> ent_game_id e = k"
  by (auto simp: keys_ok_def list_all_iff dest: map_of_SomeD)

lemma save_game_row:
  "keys_ok st \<Longrightarrow> snd (save_game st e) = e\<lparr>ent_created_at := stored_created st e\<rparr>"
  by (auto simp: save_game_def stored_created_def Let_def dest: keys_ok_map_of split: option.splits)

lemma save_game_store:
  "fst (save_game st e) = AList.update (ent_game_id e) (snd (save_game st e)) st"
  by (simp add: save_game_def Let_def split: option.splits)

lemma store_inv_keys_ok: "store_inv st \<Longrightarrow> keys_ok st"
  by (auto simp: store_inv_def keys_ok_def row_ok_def list_all_iff)

lemma store_inv_row: "store_inv st \<Longrightarrow> map_of st k = Some e \<Longrightarrow> row_ok k e"
  by (auto simp: store_inv_def list_all_iff dest: map_of_SomeD)

lemma store_inv_update:
  "store_inv st \<Longrightarrow> row_ok k e \<Longrightarrow> store_inv (AList.update k e st)"
  by (auto simp: store_inv_def list_all_iff dest: update_map_of_in)

lemma turn_ok_created_at [simp]: "turn_ok (g\<lparr>created_at := c\<rparr>) = turn_ok g"
  by (simp add: turn_ok_def split: game_type.split option.split)

lemma game_inv_created_at [simp]: "game_inv (g\<lparr>created_at := c\<rparr>) = game_inv g"
  by (simp add: game_inv_def split: game_state.split)

lemma game_inv_board_nonempty: "game_inv g \<Longrightarrow> game_field g \<noteq> []"
  by (auto simp: game_inv_def board_wf_def)

lemma row_ok_to_entity: "game_inv g \<Longrightarrow> row_ok (game_id g) (to_entity g)"
  by (simp add: row_ok_def to_domain_to_entity game_inv_board_nonempty) (simp add: to_entity_def)

lemma row_ok_domain:
  "row_ok k e \<Longrightarrow> \<exists>g. to_domain e = Some g \<and> game_inv g \<and> e = to_entity g \<and> game_id g = k"
  by (auto simp: row_ok_def to_entity_def split: option.splits)

lemma to_domain_to_entity_init:
  "to_domain (to_entity g) = Some (g\<lparr>game_field := game_field_init (game_field g)\<rparr>)"
  by (simp add: to_domain_def to_entity_def)

lemma game_field_init_nonempty: "game_field_init b \<noteq> []"
  by (simp add: game_field_init_def empty_board_def)

lemma rows_to_domain:
  "list_all (\<lambda>(k, e). row_ok k e) st \<Longrightarrow> list_all (\<lambda>e. to_domain e \<noteq> None) (filter P (map snd st))"
  by (auto simp: list_all_iff row_ok_def split: option.splits)

lemma rows_map_filter:
  assumes rows: "list_all (\<lambda>(k, e). row_ok k e) st" and pq: "\<And>g. P (to_entity g) = Q g"
  shows "map (\<lambda>e. the (to_domain e)) (filter P (map snd st)) =
         filter Q (List.map_filter (\<lambda>(k, e). to_domain e) st)"
  using rows
proof (induction st)
  case Nil
  then show ?case by (simp add: map_filter_simps)
next
  case (Cons ke st)
  obtain k e where ke: "ke = (k, e)" by fastforce
  from Cons.prems ke obtain g where g: "to_domain e = Some g" "e = to_entity g"
    using row_ok_domain by fastforce
  show ?case using Cons g ke pq [of g] by (auto simp: map_filter_simps)
qed

section \<open>Leaderboard aggregation lemmas\<close>

lemma bump_stats_map_of:
  "map_of (bump_stats s v won) u =
     (if u = v then Some ((if won then Suc (fst (stats_of s u)) else fst (stats_of s u)), Suc (snd (stats_of s u)))
      else map_of s u)"
  by (auto simp: bump_stats_def stats_of_def split: option.splits prod.splits)

lemma tally_game_map_of:
  "map_of (tally_game s e) u =
     (if ent_player1_id e = u \<or> ent_player2_id e = Some u
      then Some (fst (stats_of s u) + wins_in [e] u,
                 snd (stats_of s u) + games_in [e] u)
      else map_of s u)"
  by (auto simp: tally_game_def bump_stats_map_of stats_of_def games_in_def wins_in_def Let_def
      split: option.splits)

lemma games_in_Cons: "games_in (e # es) u = games_in [e] u + games_in es u"
  by (simp add: games_in_def)

lemma wins_in_Cons: "wins_in (e # es) u = wins_in [e] u + wins_in es u"
  by (simp add: wins_in_def)

lemma tally_game_stats:
  "stats_of (tally_game s e) u = (fst (stats_of s u) + wins_in [e] u, snd (stats_of s u) + games_in [e] u)"
  by (auto simp: stats_of_def tally_game_map_of games_in_def wins_in_def split: option.splits)

lemma tally_game_None:
  "map_of (tally_game s e) u = None \<longleftrightarrow> map_of s u = None \<and> games_in [e] u = 0"
  by (auto simp: tally_game_map_of games_in_def)

lemma fold_tally_stats:
  "stats_of (fold (\<lambda>e s. tally_game s e) es s0) u =
     (fst (stats_of s0 u) + wins_in es u, snd (stats_of s0 u) + games_in es u)"
proof (induction es arbitrary: s0)
  case Nil
  then show ?case by (simp add: games_in_def wins_in_def)
next
  case (Cons e es)
  then show ?case by (simp add: tally_game_stats games_in_Cons [of e es] wins_in_Cons [of e es])
qed

lemma fold_tally_None:
  "map_of (fold (\<lambda>e s. tally_game s e) es s0) u = None \<longleftrightarrow> map_of s0 u = None \<and> games_in es u = 0"
proof (induction es arbitrary: s0)
  case Nil
  then show ?case by (simp add: games_in_def)
next
  case (Cons e es)
  then show ?case by (auto simp: tally_game_None games_in_Cons [of e es])
qed

lemma distinct_tally_game: "distinct (map fst s) \<Longrightarrow> distinct (map fst (tally_game s e))"
  by (simp add: tally_game_def bump_stats_def Let_def distinct_update split: option.splits prod.splits)

lemma distinct_fold_tally:
  "distinct (map fst s0) \<Longrightarrow> distinct (map fst (fold (\<lambda>e s. tally_game s e) es s0))"
  by (induction es arbitrary: s0) (simp_all add: distinct_tally_game)

lemma stats_member:
  assumes d: "distinct (map fst s)"
  shows "(u, w, t) \<in> set s \<longleftrightarrow> map_of s u = Some (w, t)"
  using map_of_is_SomeI [OF d, of u "(w, t)"] map_of_SomeD [of s u "(w, t)"] by blast

lemma tally_member:
  "(u, w, t) \<in> set (fold (\<lambda>e s. tally_game s e) es []) \<longleftrightarrow>
     0 < games_in es u \<and> w = wins_in es u \<and> t = games_in es u"
proof -
  let ?s = "fold (\<lambda>e s. tally_game s e) es []"
  have d: "distinct (map fst ?s)" by (rule distinct_fold_tally) simp
  have st: "stats_of ?s u = (wins_in es u, games_in es u)"
    using fold_tally_stats [of es "[]" u] by (simp add: stats_of_def)
  have none: "map_of ?s u = None \<longleftrightarrow> games_in es u = 0" using fold_tally_None [of es "[]" u] by simp
  show ?thesis
  proof (cases "map_of ?s u")
    case None
    then show ?thesis using none stats_member [OF d, of u w t] by simp
  next
    case (Some wt)
    then have "wt = (wins_in es u, games_in es u)" "games_in es u \<noteq> 0"
      using st none by (simp_all add: stats_of_def)
    then show ?thesis using Some stats_member [OF d, of u w t] by auto
  qed
qed

lemma leader_rows_member:
  "(u, r, w, t) \<in> set (leader_rows s) \<longleftrightarrow> (u, w, t) \<in> set s \<and> 0 < t \<and> r = of_nat w / of_nat t"
  by (force simp: leader_rows_def)

lemma leader_rows_fst: "map fst (leader_rows s) = map fst (filter (\<lambda>(u, w, t). 0 < t) s)"
  by (induction s) (auto simp: leader_rows_def)

lemma sort_leaders_set: "set (sort_leaders rs) = set rs"
  by (simp add: sort_leaders_def)

lemma sort_leaders_fst: "mset (map fst (sort_leaders rs)) = mset (map fst rs)"
  by (simp add: sort_leaders_def)

lemma neg_key_le:
  "((- r1, - int w1) \<le> (- r2, - int w2)) \<longleftrightarrow> ((r2, w2) \<le> (r1 :: rat, w1 :: nat))"
  unfolding less_eq_prod_def by auto

lemma sort_leaders_sorted: "sorted_wrt (\<lambda>a b. leader_key b \<le> leader_key a) (sort_leaders rs)"
proof -
  let ?f = "\<lambda>(u, r, w, t). (- r, - int w)"
  have "sorted (map ?f (sort_key ?f rs))" by (rule sorted_sort_key)
  then have "sorted_wrt (\<lambda>a b. ?f a \<le> ?f b) (sort_key ?f rs)" by (simp add: sorted_map)
  then show ?thesis unfolding sort_leaders_def
    by (rule sorted_wrt_mono_rel [rotated]) (auto simp: leader_key_def neg_key_le split: prod.splits)
qed

lemma tally_all_positive:
  "filter (\<lambda>(u, w, t). 0 < t) (fold (\<lambda>e s. tally_game s e) es []) = fold (\<lambda>e s. tally_game s e) es []"
  by (rule filter_True) (auto simp: tally_member)

lemma tally_keys: "set (map fst (fold (\<lambda>e s. tally_game s e) es [])) = {u. 0 < games_in es u}"
proof -
  have "\<And>x L. x \<in> fst ` set L \<longleftrightarrow> (\<exists>w t. (x, w, t) \<in> set (L :: (uuid \<times> nat \<times> nat) list))"
    by force
  then show ?thesis by (auto simp: tally_member)
qed

lemma repo_leaderboard_rows:
  "repo_get_leaderboard st n =
     take n (sort_leaders (leader_rows (fold (\<lambda>e s. tally_game s e) (completed_rows st) [])))"
  by (simp add: repo_get_leaderboard_def completed_rows_def)

lemma distinct_leader_rows: "distinct (map fst s) \<Longrightarrow> distinct (map fst (leader_rows s))"
  by (simp add: leader_rows_fst distinct_map_filter)

lemma distinct_sort_leaders: "distinct (map fst rs) \<Longrightarrow> distinct (map fst (sort_leaders rs))"
  by (metis sort_leaders_fst distinct_count_atmost_1 set_mset_mset)

lemma repo_leaderboard_distinct: "distinct (map fst (repo_get_leaderboard st n))"
proof -
  let ?s = "fold (\<lambda>e s. tally_game s e) (completed_rows st) []"
  have "distinct (map fst ?s)" by (rule distinct_fold_tally) simp
  then have "distinct (map fst (sort_leaders (leader_rows ?s)))"
    by (intro distinct_sort_leaders distinct_leader_rows)
  then show ?thesis by (simp add: repo_leaderboard_rows take_map [symmetric])
qed

lemma repo_leaderboard_sorted:
  "sorted_wrt (\<lambda>a b. leader_key b \<le> leader_key a) (repo_get_leaderboard st n)"
  unfolding repo_leaderboard_rows by (rule sorted_wrt_take [OF sort_leaders_sorted])

lemma repo_leaderboard_length_le: "length (repo_get_leaderboard st n) \<le> n"
  by (simp add: repo_get_leaderboard_def)

end
