(* ===== verification/Minimax.thy ===== *)
theory Minimax
  imports Board
begin

text \<open>
  The computer opponent of domain/service/game_service_impl.py: \<open>_minimax\<close> and the
  move-selection loop of \<open>_make_computer_move\<close>. Python mixes \<open>int\<close> scores with
  \<open>float("-inf")\<close> and \<open>float("inf")\<close> as the loops' start values, so a score is an
  integer extended by the two infinities, ordered as Python orders them. The Python
  loops write a mark into the shared board, recurse, and write the \<open>0\<close> back; since the
  cell is restored before the next iteration, each iteration sees the board it started
  from, and the loop is a fold over the empty cells of that board, each child a copy of
  the board with one more mark. The recursion stops because each child has one empty
  cell fewer. The theory proves that on a 3x3 board every score is finite and is the
  score of a reachable terminal position, and that the move choice returns the first cell
  in row-major order whose score is maximal.
\<close>

section \<open>Scores\<close>

datatype score = NegInf | Fin int | PosInf

instantiation score :: linorder
begin

fun less_eq_score :: "score \<Rightarrow> score \<Rightarrow> bool" where
  "less_eq_score NegInf _ = True"
| "less_eq_score _ PosInf = True"
| "less_eq_score (Fin a) (Fin b) = (a \<le> b)"
| "less_eq_score _ _ = False"

definition less_score :: "score \<Rightarrow> score \<Rightarrow> bool" where
  "less_score x y \<longleftrightarrow> x \<le> y \<and> \<not> y \<le> x"

instance
proof
  fix x y z :: score
  show "x < y \<longleftrightarrow> x \<le> y \<and> \<not> y \<le> x" by (simp add: less_score_def)
  show "x \<le> x" by (cases x) simp_all
  show "x \<le> y \<Longrightarrow> y \<le> z \<Longrightarrow> x \<le> z" by (cases x; cases y; cases z) simp_all
  show "x \<le> y \<Longrightarrow> y \<le> x \<Longrightarrow> x = y" by (cases x; cases y) simp_all
  show "x \<le> y \<or> y \<le> x" by (cases x; cases y) auto
qed

end

section \<open>The search\<close>

text \<open>
  \<open>_minimax(board, depth, is_maximizing, computer_symbol, player_symbol)\<close>: a win of the
  computer's symbol scores \<open>10 - depth\<close>, a win of the player's symbol \<open>depth - 10\<close>, a
  full board \<open>0\<close>; otherwise the maximum (computer to move) or minimum (player to move)
  over the children, starting from \<open>-inf\<close> or \<open>inf\<close>.
\<close>

function minimax :: "board \<Rightarrow> int \<Rightarrow> bool \<Rightarrow> player_symbol \<Rightarrow> player_symbol \<Rightarrow> score" where
  "minimax b depth is_max csym psym =
     (let w = check_winner_symbol b in
      if w = Some (symbol_value csym) then Fin (10 - depth)
      else if w = Some (symbol_value psym) then Fin (depth - 10)
      else if is_board_full b then Fin 0
      else if is_max then
        fold (\<lambda>c best. max (minimax (set_cell b (fst c) (snd c) (symbol_value csym)) (depth + 1) False csym psym) best)
          (empty_cells b) NegInf
      else
        fold (\<lambda>c best. min (minimax (set_cell b (fst c) (snd c) (symbol_value psym)) (depth + 1) True csym psym) best)
          (empty_cells b) PosInf)"
  by pat_completeness auto
termination
  by (relation "measure (\<lambda>(b, d, m, c, p). length (empty_cells b))")
     (auto simp: empty_cells_set_cell_less)

declare minimax.simps [simp del]

text \<open>
  The scores a search from depth \<open>d\<close> can return when at most \<open>n\<close> plies remain: a
  draw, or a win or loss decided \<open>k \<le> n\<close> plies below.
\<close>

definition leaf_value :: "int \<Rightarrow> nat \<Rightarrow> int \<Rightarrow> bool" where
  "leaf_value d n s \<longleftrightarrow> (\<exists>k \<le> n. s = 0 \<or> s = 10 - (d + int k) \<or> s = d + int k - 10)"

section \<open>The move choice\<close>

text \<open>The score \<open>_make_computer_move\<close> computes for a candidate cell: depth 0, player next.\<close>

definition child_score :: "board \<Rightarrow> player_symbol \<Rightarrow> player_symbol \<Rightarrow> cell \<Rightarrow> score" where
  "child_score b csym psym c = minimax (set_cell b (fst c) (snd c) (symbol_value csym)) 0 False csym psym"

text \<open>
  The root loop of \<open>_make_computer_move\<close>: a candidate replaces the best move only when
  its score is strictly greater, so among equal scores the first in row-major order wins.
\<close>

definition choose_step :: "(cell \<Rightarrow> score) \<Rightarrow> cell \<Rightarrow> score \<times> cell option \<Rightarrow> score \<times> cell option" where
  "choose_step f c acc = (if f c > fst acc then (f c, Some c) else acc)"

definition choose_move :: "board \<Rightarrow> player_symbol \<Rightarrow> player_symbol \<Rightarrow> cell option" where
  "choose_move b csym psym =
     snd (fold (choose_step (child_score b csym psym)) (empty_cells b) (NegInf, None))"

section \<open>Scores are finite and bounded\<close>

lemma max_NegInf [simp]: "max NegInf x = x" "max x NegInf = x"
  by (cases x; simp add: max_def)+

lemma min_PosInf [simp]: "min PosInf x = x" "min x PosInf = x"
  by (cases x; simp add: min_def)+

lemma fold_max_Max: "fold (\<lambda>x a. max (f x) a) xs a = Max (insert a (f ` set xs))"
proof -
  have "fold (\<lambda>x a. max (f x) a) xs a = fold max (map f xs) a"
    by (simp add: fold_map comp_def)
  also have "\<dots> = Max (set (a # map f xs))"
    by (simp only: Max.set_eq_fold)
  finally show ?thesis by simp
qed

lemma fold_min_Min: "fold (\<lambda>x a. min (f x) a) xs a = Min (insert a (f ` set xs))"
proof -
  have "fold (\<lambda>x a. min (f x) a) xs a = fold min (map f xs) a"
    by (simp add: fold_map comp_def)
  also have "\<dots> = Min (set (a # map f xs))"
    by (simp only: Min.set_eq_fold)
  finally show ?thesis by simp
qed

lemma fold_max_mem: "xs \<noteq> [] \<Longrightarrow> fold (\<lambda>x a. max (f x) a) xs NegInf \<in> f ` set xs"
  by (simp add: fold_max_Max Max_insert)

lemma fold_min_mem: "xs \<noteq> [] \<Longrightarrow> fold (\<lambda>x a. min (f x) a) xs PosInf \<in> f ` set xs"
  by (simp add: fold_min_Min Min_insert)

lemma leaf_value_step:
  "leaf_value (d + 1) n s \<Longrightarrow> n < m \<Longrightarrow> leaf_value d m s"
  unfolding leaf_value_def
  by (metis (no_types, opaque_lifting) Suc_leI add.commute add.left_commute le_trans
      not_less_eq_eq of_nat_Suc)

lemma leaf_value_0: "leaf_value d n 0" "leaf_value d n (10 - d)" "leaf_value d n (d - 10)"
  by (auto simp: leaf_value_def)

lemma minimax_finite:
  "board_wf b \<Longrightarrow> \<exists>s. minimax b d m c p = Fin s \<and> leaf_value d (length (empty_cells b)) s"
proof (induction b d m c p rule: minimax.induct)
  case (1 b d m c p)
  let ?w = "check_winner_symbol b"
  let ?cells = "empty_cells b"
  show ?case
  proof (cases "?w = Some (symbol_value c) \<or> ?w = Some (symbol_value p) \<or> is_board_full b")
    case True
    then show ?thesis
      by (auto simp: minimax.simps [of b d m c p] Let_def leaf_value_0)
  next
    case False
    then have ne: "?cells \<noteq> []" using empty_cells_Nil_full [OF "1.prems"] by simp
    have child: "\<exists>s. minimax (set_cell b (fst x) (snd x) v) (d + 1) m' c p = Fin s \<and>
                    leaf_value d (length ?cells) s"
      if x: "x \<in> set ?cells" and v: "v \<noteq> 0"
        and ih: "board_wf (set_cell b (fst x) (snd x) v) \<Longrightarrow>
                 \<exists>s. minimax (set_cell b (fst x) (snd x) v) (d + 1) m' c p = Fin s \<and>
                     leaf_value (d + 1) (length (empty_cells (set_cell b (fst x) (snd x) v))) s"
      for x v m'
      using ih "1.prems" empty_cells_set_cell_less [OF x v] leaf_value_step by fastforce
    show ?thesis
    proof (cases m)
      case True
      let ?F = "\<lambda>x. minimax (set_cell b (fst x) (snd x) (symbol_value c)) (d + 1) False c p"
      have "minimax b d m c p = fold (\<lambda>x a. max (?F x) a) ?cells NegInf"
        unfolding minimax.simps [of b d m c p] Let_def using False True by simp
      then obtain x where x: "x \<in> set ?cells" and eq: "minimax b d m c p = ?F x"
        using fold_max_mem [OF ne, of ?F] by auto
      show ?thesis using child [OF x symbol_value_nonzero "1.IH"(1)] False True x eq by auto
    next
      case False': False
      let ?F = "\<lambda>x. minimax (set_cell b (fst x) (snd x) (symbol_value p)) (d + 1) True c p"
      have "minimax b d m c p = fold (\<lambda>x a. min (?F x) a) ?cells PosInf"
        unfolding minimax.simps [of b d m c p] Let_def using False False' by simp
      then obtain x where x: "x \<in> set ?cells" and eq: "minimax b d m c p = ?F x"
        using fold_min_mem [OF ne, of ?F] by auto
      show ?thesis using child [OF x symbol_value_nonzero "1.IH"(2)] False False' x eq by auto
    qed
  qed
qed

lemma length_empty_cells_le: "length (empty_cells b) \<le> 9"
proof -
  have "length (empty_cells b) \<le> length board_cells"
    by (simp add: empty_cells_def)
  also have "length board_cells = 9" by (simp add: board_cells_def upt_3)
  finally show ?thesis .
qed

lemma Max_insert2:
  "Max (insert a (insert y (S::score set))) = max y (Max (insert a S))" if "finite S"
proof -
  have "insert a (insert y S) = insert y (insert a S)" by blast
  then show ?thesis using that by simp
qed

lemma Max_insert_gt: "a < (f x::score) \<Longrightarrow> a < Max (insert (f x) (f ` set xs))"
proof -
  assume True: "a < f x"
  have fx: "f x \<le> Max (insert (f x) (f ` set xs))"
    by (rule Max_ge) simp_all
  show ?thesis
    using True fx by (rule order.strict_trans2)
qed

lemma Max_insert_gt_eq: "a < Max (insert (f x) (f ` set xs)) \<Longrightarrow>
   Max (insert (f x) (f ` set xs)) = Max (insert (a::score) (f ` set (x # xs)))"
proof -
  assume lt: "a < Max (insert (f x) (f ` set xs))"
  have "Max (insert a (f ` set (x # xs))) = max a (Max (insert (f x) (f ` set xs)))"
    by (simp only: set_simps image_insert) (rule Max_insert, simp_all)
  then show ?thesis using lt by (simp add: max_absorb2)
qed

lemma Max_insert_not_gt_eq: "\<not> a < (f x::score) \<Longrightarrow>
   Max (insert a (f ` set xs)) = Max (insert a (f ` set (x # xs)))"
proof -
  assume False: "\<not> a < f x"
  have aM: "a \<le> Max (insert a (f ` set xs))"
    by (rule Max_ge) simp_all
  have "Max (insert a (f ` set (x # xs))) = max (f x) (Max (insert a (f ` set xs)))"
    using Max_insert2 [of "f ` set xs" a "f x"] by simp
  then show ?thesis using False aM by (simp add: max_absorb2)
qed

lemma fold_choose_step:
  "fold (choose_step f) xs (a, m) =
     (let M = Max (insert a (f ` set xs)) in (M, if M = a then m else find (\<lambda>x. f x = M) xs))"
proof (induction xs arbitrary: a m)
  case Nil
  then show ?case by simp
next
  case (Cons x xs)
  show ?case
  proof (cases "a < f x")
    case True
    have step: "fold (choose_step f) (x # xs) (a, m) = fold (choose_step f) xs (f x, Some x)"
      using True by (simp add: choose_step_def)
    have lt: "a < Max (insert (f x) (f ` set xs))" using True by (rule Max_insert_gt [of a f x xs])
    have eq: "Max (insert a (f ` set (x # xs))) = Max (insert (f x) (f ` set xs))"
      by (rule Max_insert_gt_eq [OF lt, symmetric])
    show ?thesis
      unfolding step Cons.IH Let_def eq
    proof -
      define N where "N = Max (insert (f x) (f ` set xs))"
      from lt have "a < N" unfolding N_def .
      then have "N \<noteq> a" by (metis less_irrefl)
      then show "(N, if N = f x then Some x else find (\<lambda>y. f y = N) xs) =
                 (N, if N = a then m else find (\<lambda>y. f y = N) (x # xs))"
        by simp
    qed
  next
    case False
    have step: "fold (choose_step f) (x # xs) (a, m) = fold (choose_step f) xs (a, m)"
      using False by (simp add: choose_step_def)
    have eq: "Max (insert a (f ` set (x # xs))) = Max (insert a (f ` set xs))"
      by (rule Max_insert_not_gt_eq [of a f x xs, OF False, symmetric])
    have aM: "a \<le> Max (insert a (f ` set xs))"
      by (rule Max_ge) simp_all
    show ?thesis
      unfolding step Cons.IH Let_def eq
    proof -
      define N where "N = Max (insert a (f ` set xs))"
      from aM have "a \<le> N" unfolding N_def .
      with False have "N \<noteq> a \<Longrightarrow> f x \<noteq> N" by auto
      then show "(N, if N = a then m else find (\<lambda>y. f y = N) xs) =
                 (N, if N = a then m else find (\<lambda>y. f y = N) (x # xs))"
        by simp
    qed
  qed
qed

lemma child_score_finite:
  "board_wf b \<Longrightarrow> \<exists>s. child_score b cs ps x = Fin s"
  using minimax_finite [of "set_cell b (fst x) (snd x) (symbol_value cs)" 0 False cs ps]
  by (auto simp: child_score_def)

lemma Max_insert_NegInf: "finite S \<Longrightarrow> S \<noteq> {} \<Longrightarrow> Max (insert NegInf S) = Max S"
  by simp

lemma choose_move_find:
  assumes wf: "board_wf b"
  shows "choose_move b cs ps =
           find (\<lambda>x. child_score b cs ps x = Max (child_score b cs ps ` set (empty_cells b))) (empty_cells b)"
proof (cases "empty_cells b = []")
  case True
  then show ?thesis by (simp add: choose_move_def)
next
  case False
  let ?F = "child_score b cs ps"
  let ?S = "?F ` set (empty_cells b)"
  have M: "Max (insert NegInf ?S) = Max ?S"
    using False by (simp add: Max_insert_NegInf)
  have "Max ?S \<in> ?S" using False by (simp add: Max_in)
  then obtain x where "Max ?S = ?F x" by blast
  moreover obtain s where "?F x = Fin s" using child_score_finite [OF wf] by blast
  ultimately have "Max ?S \<noteq> NegInf" by simp
  then show ?thesis
    by (simp add: choose_move_def fold_choose_step M Let_def)
qed

lemma choose_move_exists:
  assumes wf: "board_wf b" and nf: "\<not> is_board_full b"
  shows "\<exists>c. choose_move b cs ps = Some c"
proof -
  let ?F = "child_score b cs ps"
  have ne: "empty_cells b \<noteq> []" using empty_cells_Nil_full [OF wf] nf by simp
  then have "Max (?F ` set (empty_cells b)) \<in> ?F ` set (empty_cells b)"
    by (simp add: Max_in)
  then obtain x where x: "x \<in> set (empty_cells b)" and fx: "?F x = Max (?F ` set (empty_cells b))"
    by (metis imageE)
  have "find (\<lambda>y. ?F y = Max (?F ` set (empty_cells b))) (empty_cells b) \<noteq> None"
    unfolding find_None_iff using x fx by blast
  then show ?thesis by (simp add: choose_move_find [OF wf])
qed

lemma choose_move_in_empty:
  "choose_move b cs ps = Some c \<Longrightarrow> board_wf b \<Longrightarrow> c \<in> set (empty_cells b)"
  by (simp add: choose_move_find) (metis find_Some_iff nth_mem)

lemma choose_move_optimal:
  "board_wf b \<Longrightarrow> choose_move b cs ps = Some c \<Longrightarrow> x \<in> set (empty_cells b) \<Longrightarrow>
   child_score b cs ps x \<le> child_score b cs ps c"
  by (auto simp: choose_move_find find_Some_iff)

section \<open>Properties of the computer opponent\<close>

text \<open>
  C4: on a 3x3 board the search from the root never returns an infinite score: every
  value is the integer score of a terminal position, between -10 and 10.
\<close>

theorem minimax_root_bounds:
  "board_wf b \<Longrightarrow> \<exists>s. minimax b 0 m c p = Fin s \<and> -10 \<le> s \<and> s \<le> 10"
proof -
  assume wf: "board_wf b"
  obtain s where s: "minimax b 0 m c p = Fin s" and lv: "leaf_value 0 (length (empty_cells b)) s"
    using minimax_finite [OF wf] by blast
  then obtain k where "k \<le> 9" and "s = 0 \<or> s = 10 - int k \<or> s = int k - 10"
    using length_empty_cells_le [of b] by (auto simp: leaf_value_def)
  with s show ?thesis by auto
qed

theorem minimax_root_bounds_witness:
  "board_wf [[1, 1, 0], [2, 2, 0], [2, 1, 0]] \<and>
   (\<exists>s. minimax [[1, 1, 0], [2, 2, 0], [2, 1, 0]] 0 True O' X = Fin s \<and> -10 \<le> s \<and> s \<le> 10)"
proof -
  have wf: "board_wf [[1, 1, 0], [2, 2, 0], [2, 1, 0]]" by (simp add: board_wf_def)
  show ?thesis using wf minimax_root_bounds [OF wf, of True O' X] by simp
qed

text \<open>
  C5: the move \<open>_make_computer_move\<close> selects on a 3x3 board is the first empty cell in
  row-major order whose minimax score is the maximum: every empty cell before it scores
  strictly less (ties go to the earlier cell).
\<close>

theorem choose_move_first_max:
  assumes wf: "board_wf b"
  shows "choose_move b cs ps = Some c \<longleftrightarrow>
    (\<exists>i < length (empty_cells b). empty_cells b ! i = c \<and>
       child_score b cs ps c = Max (child_score b cs ps ` set (empty_cells b)) \<and>
       (\<forall>j < i. child_score b cs ps (empty_cells b ! j) < child_score b cs ps c))"
proof -
  let ?xs = "empty_cells b"
  let ?F = "child_score b cs ps"
  let ?M = "Max (?F ` set ?xs)"
  have le: "?F (?xs ! j) \<le> ?M" if "j < length ?xs" for j
    using that by (intro Max_ge) simp_all
  have eq: "(?F (?xs ! i) = ?M \<and> c = ?xs ! i \<and> (\<forall>j < i. ?F (?xs ! j) \<noteq> ?M)) \<longleftrightarrow>
            (?xs ! i = c \<and> ?F c = ?M \<and> (\<forall>j < i. ?F (?xs ! j) < ?F c))"
    if i: "i < length ?xs" for i
  proof -
    have "(\<forall>j < i. ?F (?xs ! j) \<noteq> ?M) \<longleftrightarrow> (\<forall>j < i. ?F (?xs ! j) < ?M)"
      using le i by (auto simp: order.strict_iff_order)
    then show ?thesis by auto
  qed
  show ?thesis
    unfolding choose_move_find [OF wf] find_Some_iff using eq by blast
qed

theorem choose_move_first_max_witness:
  "board_wf [[1, 1, 0], [2, 2, 0], [2, 1, 0]] \<and>
   (\<exists>i < length (empty_cells [[1, 1, 0], [2, 2, 0], [2, 1, 0]]).
      empty_cells [[1, 1, 0], [2, 2, 0], [2, 1, 0]] ! i = (0, 2) \<and>
      child_score [[1, 1, 0], [2, 2, 0], [2, 1, 0]] O' X (0, 2) =
        Max (child_score [[1, 1, 0], [2, 2, 0], [2, 1, 0]] O' X ` set (empty_cells [[1, 1, 0], [2, 2, 0], [2, 1, 0]])) \<and>
      (\<forall>j < i. child_score [[1, 1, 0], [2, 2, 0], [2, 1, 0]] O' X (empty_cells [[1, 1, 0], [2, 2, 0], [2, 1, 0]] ! j)
               < child_score [[1, 1, 0], [2, 2, 0], [2, 1, 0]] O' X (0, 2)))"
proof -
  have wf: "board_wf [[1, 1, 0], [2, 2, 0], [2, 1, 0]]" by (simp add: board_wf_def)
  have mv: "choose_move [[1, 1, 0], [2, 2, 0], [2, 1, 0]] O' X = Some (0, 2)" by code_simp
  show ?thesis using wf choose_move_first_max [OF wf, of O' X "(0, 2)"] mv by simp
qed

text \<open>
  The spec's scenario. On \<open>[[1,1,0],[2,2,0],[0,0,0]]\<close> with symbol 1 to move, the
  search picks (0,2), which completes the top row, ahead of the blocking move (1,2).
\<close>

theorem choose_move_scenario: "choose_move [[1, 1, 0], [2, 2, 0], [0, 0, 0]] X O' = Some (0, 2)"
  by code_simp

text \<open>
  C7: on a 3x3 board the computer finds a move exactly when the board is not full, so
  \<open>_make_computer_move\<close> skips its update only on a full board.
\<close>

theorem choose_move_None_iff:
  "board_wf b \<Longrightarrow> choose_move b cs ps = None \<longleftrightarrow> is_board_full b"
proof -
  assume wf: "board_wf b"
  let ?F = "child_score b cs ps"
  have "\<exists>x \<in> set (empty_cells b). ?F x = Max (?F ` set (empty_cells b))"
    if "empty_cells b \<noteq> []"
  proof -
    have "Max (?F ` set (empty_cells b)) \<in> ?F ` set (empty_cells b)"
      using that by (simp add: Max_in)
    then show ?thesis by (metis imageE)
  qed
  then show ?thesis
    using empty_cells_Nil_full [OF wf]
    by (auto simp: choose_move_find [OF wf] find_None_iff)
qed

theorem choose_move_None_iff_witness:
  "board_wf [[1, 2, 1], [1, 2, 2], [2, 1, 1]] \<and> choose_move [[1, 2, 1], [1, 2, 2], [2, 1, 1]] O' X = None"
proof -
  have wf: "board_wf [[1, 2, 1], [1, 2, 2], [2, 1, 1]]" by (simp add: board_wf_def)
  have full: "is_board_full [[1, 2, 1], [1, 2, 2], [2, 1, 1]]"
    by (simp add: is_board_full_def board_cells_def upt_3)
  show ?thesis using wf full choose_move_None_iff [OF wf, of O' X] by simp
qed

end
