(* ===== verification/Service.thy ===== *)
theory Service
  imports Persistence Minimax
begin

text \<open>
  \<open>GameServiceImpl\<close> (domain/service/game_service_impl.py): the orchestration of the game
  lifecycle over the repository. Each public method takes the table and returns either the
  exception it raises (\<open>service_error\<close>, one constructor per \<open>raise ValueError\<close> of the
  code, plus \<open>CorruptRecord\<close> for a row the mapper cannot read) or the new table with the
  game the method returns. Every \<open>save_game\<close> of the code is one write of the table, in
  the code's order, each followed by the mapper's \<open>to_domain\<close> as in the code. The fresh
  \<open>uuid4()\<close> and the clock of \<open>datetime.utcnow\<close> are parameters.
\<close>

section \<open>Errors\<close>

datatype service_error =
    GameNotFound
  | NotAvailableForJoining
  | OnlyPvpJoinable
  | CannotJoinOwnGame
  | GameAlreadyOver
  | NotYourTurn
  | InvalidBoardFormat
  | LimitTooSmall
  | LimitTooLarge
  | CorruptRecord

section \<open>Writing and reading a game\<close>

text \<open>
  \<open>entity = to_entity(game); saved = save_game(entity); return to_domain(saved)\<close>, the
  sequence every write of the service performs.
\<close>

definition persist :: "game_store \<Rightarrow> current_game \<Rightarrow> service_error + game_store \<times> current_game" where
  "persist st g =
     (let (st', e) = save_game st (to_entity g)
      in case to_domain e of None \<Rightarrow> Inl CorruptRecord | Some g' \<Rightarrow> Inr (st', g'))"

text \<open>\<open>entity = get_game(id); if not entity: raise ...; game = to_domain(entity)\<close>.\<close>

definition load_game :: "game_store \<Rightarrow> uuid \<Rightarrow> service_error + current_game" where
  "load_game st gid =
     (case get_game st gid of
        None \<Rightarrow> Inl GameNotFound
      | Some e \<Rightarrow> (case to_domain e of None \<Rightarrow> Inl CorruptRecord | Some g \<Rightarrow> Inr g))"

section \<open>Creating and joining\<close>

text \<open>
  \<open>create_game\<close>: X for the creator, O for the second slot; a PvP game waits for its
  second player, a PvC game starts with the creator's turn.
\<close>

definition new_game :: "uuid \<Rightarrow> timestamp \<Rightarrow> uuid \<Rightarrow> game_type \<Rightarrow> current_game" where
  "new_game gid now pid t =
     (if t = PVP then
        \<lparr>game_id = gid, game_field = game_field_init empty_board, game_type = t,
         game_state = WAITING_FOR_PLAYER, player1_id = pid, player2_id = None,
         player1_symbol = X, player2_symbol = O', current_player_id = None, winner_id = None,
         created_at = now\<rparr>
      else
        \<lparr>game_id = gid, game_field = game_field_init empty_board, game_type = t,
         game_state = PLAYER_TURN, player1_id = pid, player2_id = None,
         player1_symbol = X, player2_symbol = O', current_player_id = Some pid, winner_id = None,
         created_at = now\<rparr>)"

definition create_game ::
  "game_store \<Rightarrow> uuid \<Rightarrow> timestamp \<Rightarrow> uuid \<Rightarrow> game_type \<Rightarrow> service_error + game_store \<times> current_game" where
  "create_game st gid now pid t = persist st (new_game gid now pid t)"

definition join_game :: "game_store \<Rightarrow> uuid \<Rightarrow> uuid \<Rightarrow> service_error + game_store \<times> current_game" where
  "join_game st gid pid =
     res_bind (load_game st gid) (\<lambda>g.
       if game_state g \<noteq> WAITING_FOR_PLAYER then Inl NotAvailableForJoining
       else if game_type g \<noteq> PVP then Inl OnlyPvpJoinable
       else if player1_id g = pid then Inl CannotJoinOwnGame
       else persist st (g\<lparr>player2_id := Some pid, game_state := PLAYER_TURN,
                          current_player_id := Some (player1_id g)\<rparr>))"

section \<open>Moves\<close>

text \<open>
  \<open>_make_computer_move\<close>: the computer plays the second symbol against the first; with
  a move, the board gets its mark, the state is re-evaluated, the turn goes back to the
  creator if the game goes on, and the game is written; without one, the game is returned
  unchanged and nothing is written.
\<close>

definition make_computer_move ::
  "game_store \<Rightarrow> current_game \<Rightarrow> service_error + game_store \<times> current_game" where
  "make_computer_move st g =
     (case choose_move (game_field g) (player2_symbol g) (player1_symbol g) of
        None \<Rightarrow> Inr (st, g)
      | Some c \<Rightarrow>
          (let g1 = update_game_state (g\<lparr>game_field := game_field_init
                      (set_cell (game_field g) (fst c) (snd c) (symbol_value (player2_symbol g)))\<rparr>);
               g2 = (if \<not> is_game_over g1 then g1\<lparr>current_player_id := Some (player1_id g1)\<rparr> else g1)
           in persist st g2))"

text \<open>
  \<open>make_move\<close>: the guards in the code's order, the client's board installed as it is,
  the state re-evaluated and written; then, in a PvC game still running, the computer's
  move (a second write); in a PvP game still running, the turn passes to the opponent (a
  second write).
\<close>

definition make_move ::
  "game_store \<Rightarrow> uuid \<Rightarrow> uuid \<Rightarrow> board \<Rightarrow> service_error + game_store \<times> current_game" where
  "make_move st gid pid b =
     res_bind (load_game st gid) (\<lambda>g.
       if is_game_over g then Inl GameAlreadyOver
       else if \<not> is_player_turn g pid then Inl NotYourTurn
       else if \<not> valid_board_format b then Inl InvalidBoardFormat
       else
         res_bind (persist st (update_game_state (g\<lparr>game_field := game_field_init b\<rparr>))) (\<lambda>(st1, g1).
         res_bind (if \<not> is_game_over g1 \<and> game_type g1 = PVC then make_computer_move st1 g1
                   else Inr (st1, g1)) (\<lambda>(st2, g2).
         if \<not> is_game_over g2 \<and> game_type g2 = PVP
         then persist st2 (g2\<lparr>current_player_id := get_opponent_id g2 pid\<rparr>)
         else Inr (st2, g2))))"

section \<open>Queries\<close>

definition get_game_svc :: "game_store \<Rightarrow> uuid \<Rightarrow> current_game option" where
  "get_game_svc st gid = (case get_game st gid of None \<Rightarrow> None | Some e \<Rightarrow> to_domain e)"

text \<open>A list comprehension over \<open>to_domain\<close>: one unreadable row fails the whole call.\<close>

definition map_domain :: "game_entity list \<Rightarrow> service_error + current_game list" where
  "map_domain es =
     (if list_all (\<lambda>e. to_domain e \<noteq> None) es then Inr (map (\<lambda>e. the (to_domain e)) es)
      else Inl CorruptRecord)"

definition get_available_games_svc :: "game_store \<Rightarrow> service_error + current_game list" where
  "get_available_games_svc st = map_domain (get_available_games st)"

definition get_completed_games_by_user_svc :: "game_store \<Rightarrow> uuid \<Rightarrow> service_error + current_game list" where
  "get_completed_games_by_user_svc st u = map_domain (get_completed_games_by_user st u)"

text \<open>
  \<open>LeaderStats\<close> (domain/model/leader_stats.py), and \<open>get_leaderboard\<close>: the limit is
  checked, the repository aggregates, and each user's login is looked up through the user
  service (\<open>find_login\<close>, the interface to \<open>UserService.find_by_id\<close>), falling back to
  the UUID's string form.
\<close>

record leader_stats =
  ls_user_id :: uuid
  ls_login :: string
  ls_win_ratio :: rat

definition get_leaderboard ::
  "(uuid \<Rightarrow> string option) \<Rightarrow> (uuid \<Rightarrow> string) \<Rightarrow> game_store \<Rightarrow> int \<Rightarrow> service_error + leader_stats list" where
  "get_leaderboard find_login uuid_str st limit =
     (if limit < 1 then Inl LimitTooSmall
      else if limit > 100 then Inl LimitTooLarge
      else Inr (map (\<lambda>(u, r, w, t). \<lparr>ls_user_id = u,
                        ls_login = (case find_login u of Some l \<Rightarrow> l | None \<Rightarrow> uuid_str u),
                        ls_win_ratio = r\<rparr>)
                  (repo_get_leaderboard st (nat limit))))"

section \<open>Pure transitions and the reachable tables\<close>

text \<open>The game a write returns: the row keeps the \<open>created_at\<close> it was first stored with.\<close>

definition persisted :: "game_store \<Rightarrow> current_game \<Rightarrow> current_game" where
  "persisted st g = g\<lparr>created_at := stored_created st (to_entity g)\<rparr>"

text \<open>
  The pure transitions behind the service's writes: the computer's move, the whole of
  \<open>make_move\<close> after its guards (human move, re-evaluation, then computer move or turn
  hand-over), and a successful join. They are not code of their own; the lemmas below show
  that each method with its separate writes leaves the table as one write of these.
\<close>

definition computer_step :: "current_game \<Rightarrow> current_game" where
  "computer_step g =
     (case choose_move (game_field g) (player2_symbol g) (player1_symbol g) of
        None \<Rightarrow> g
      | Some c \<Rightarrow>
          (let g1 = update_game_state (g\<lparr>game_field :=
                      set_cell (game_field g) (fst c) (snd c) (symbol_value (player2_symbol g))\<rparr>)
           in if \<not> is_game_over g1 then g1\<lparr>current_player_id := Some (player1_id g1)\<rparr> else g1))"

definition move_result :: "current_game \<Rightarrow> uuid \<Rightarrow> board \<Rightarrow> current_game" where
  "move_result g pid b =
     (let g1 = update_game_state (g\<lparr>game_field := b\<rparr>);
          g2 = (if \<not> is_game_over g1 \<and> game_type g1 = PVC then computer_step g1 else g1)
      in if \<not> is_game_over g2 \<and> game_type g2 = PVP
         then g2\<lparr>current_player_id := get_opponent_id g2 pid\<rparr> else g2)"

definition joined :: "current_game \<Rightarrow> uuid \<Rightarrow> current_game" where
  "joined g pid = g\<lparr>player2_id := Some pid, game_state := PLAYER_TURN,
                     current_player_id := Some (player1_id g)\<rparr>"

text \<open>
  The tables the service can produce from an empty one by successful calls; a call that
  raises writes nothing. A new game gets a \<open>uuid4()\<close> not yet in the table.
\<close>

inductive service_step :: "game_store \<Rightarrow> game_store \<Rightarrow> bool" where
  create: "map_of st gid = None \<Longrightarrow> create_game st gid now pid t = Inr (st', g) \<Longrightarrow> service_step st st'"
| join: "join_game st gid pid = Inr (st', g) \<Longrightarrow> service_step st st'"
| move: "make_move st gid pid b = Inr (st', g) \<Longrightarrow> service_step st st'"

inductive reachable :: "game_store \<Rightarrow> bool" where
  init: "reachable []"
| step: "reachable st \<Longrightarrow> service_step st st' \<Longrightarrow> reachable st'"

section \<open>Writes, loads and the invariant\<close>

lemma persist_eq:
  assumes inv: "store_inv st" and g: "game_inv g"
  shows "persist st g = Inr (AList.update (game_id g) (to_entity (persisted st g)) st, persisted st g)"
proof -
  have ne: "game_field (persisted st g) \<noteq> []"
    using game_inv_board_nonempty [OF g] by (simp add: persisted_def)
  have row: "snd (save_game st (to_entity g)) = to_entity (persisted st g)"
    using save_game_row [OF store_inv_keys_ok [OF inv]]
    by (simp add: persisted_def to_entity_created_at)
  have "fst (save_game st (to_entity g)) = AList.update (game_id g) (to_entity (persisted st g)) st"
    using save_game_store [of st "to_entity g"] row by (simp add: to_entity_def)
  then show ?thesis
    using row to_domain_to_entity [OF ne]
    by (simp add: persist_def split_beta)
qed

lemma persisted_same_row:
  "map_of st (game_id h) = Some (to_entity g) \<Longrightarrow> created_at h = created_at g \<Longrightarrow> persisted st h = h"
  by (simp add: persisted_def stored_created_def to_entity_def)

lemma persist_inv:
  "store_inv st \<Longrightarrow> game_inv g \<Longrightarrow> store_inv (AList.update (game_id g) (to_entity (persisted st g)) st)"
  using row_ok_to_entity [of "persisted st g"] by (intro store_inv_update) (simp_all add: persisted_def)

lemma load_game_Inr:
  "store_inv st \<Longrightarrow> load_game st gid = Inr g \<Longrightarrow>
   game_inv g \<and> game_id g = gid \<and> map_of st gid = Some (to_entity g)"
  by (auto simp: load_game_def get_game_def dest!: store_inv_row row_ok_domain split: option.splits)

lemma load_game_Inl:
  "store_inv st \<Longrightarrow> load_game st gid = Inl err \<Longrightarrow> err = GameNotFound \<and> map_of st gid = None"
  by (auto simp: load_game_def get_game_def dest!: store_inv_row row_ok_domain split: option.splits)

lemma load_game_stored:
  "store_inv st \<Longrightarrow> map_of st gid = Some (to_entity g) \<Longrightarrow> game_inv g \<Longrightarrow> load_game st gid = Inr g"
  by (simp add: load_game_def get_game_def to_domain_to_entity game_inv_board_nonempty)

lemma update_game_state_frame_ids:
  "game_id (update_game_state g) = game_id g \<and> player1_id (update_game_state g) = player1_id g \<and>
   player2_id (update_game_state g) = player2_id g \<and> game_type (update_game_state g) = game_type g \<and>
   created_at (update_game_state g) = created_at g"
  by simp

lemma computer_step_frame [simp]:
  "game_id (computer_step g) = game_id g"
  "player1_id (computer_step g) = player1_id g"
  "player2_id (computer_step g) = player2_id g"
  "game_type (computer_step g) = game_type g"
  "created_at (computer_step g) = created_at g"
  "player1_symbol (computer_step g) = player1_symbol g"
  "player2_symbol (computer_step g) = player2_symbol g"
  by (simp_all add: computer_step_def Let_def split: option.splits)

lemma game_inv_turn:
  "game_inv g \<Longrightarrow> game_state g = PLAYER_TURN \<Longrightarrow>
   \<not> is_board_full (game_field g) \<and> check_winner_symbol (game_field g) = None \<and> turn_ok g"
  by (simp add: game_inv_def)

lemma current_player_id_update_same: "current_player_id h = c \<Longrightarrow> h\<lparr>current_player_id := c\<rparr> = h"
  by simp

lemma computer_step_inv:
  assumes inv: "game_inv g" and turn: "game_state g = PLAYER_TURN" and pvc: "game_type g = PVC"
  shows "game_inv (computer_step g)"
proof -
  have wf: "board_wf (game_field g)" using inv by (simp add: game_inv_def)
  have nf: "\<not> is_board_full (game_field g)" using game_inv_turn [OF inv turn] by simp
  obtain c where c: "choose_move (game_field g) (player2_symbol g) (player1_symbol g) = Some c"
    using choose_move_exists [OF wf nf] by blast
  let ?g1 = "update_game_state (g\<lparr>game_field :=
               set_cell (game_field g) (fst c) (snd c) (symbol_value (player2_symbol g))\<rparr>)"
  have g1: "game_inv ?g1"
    using update_game_state_inv [OF inv turn board_wf_set_cell [OF wf]] .
  have cur: "\<not> is_game_over ?g1 \<Longrightarrow> current_player_id ?g1 = Some (player1_id ?g1)"
    using g1 pvc by (auto simp: game_inv_def turn_ok_def is_game_over_def split: game_state.splits)
  show ?thesis
    using c g1 cur by (auto simp: computer_step_def Let_def current_player_id_update_same)
qed

lemma flip_inv:
  assumes inv: "game_inv g" and turn: "game_state g = PLAYER_TURN" and pvp: "game_type g = PVP"
    and pid: "pid = player1_id g \<or> player2_id g = Some pid"
  shows "game_inv (g\<lparr>current_player_id := get_opponent_id g pid\<rparr>)"
  using inv turn pvp pid
  by (auto simp: game_inv_def turn_ok_def get_opponent_id_def split: option.splits)

lemma update_game_state_state:
  "game_state (update_game_state h) \<in> {game_state h, DRAW, PLAYER_WON}"
  by (auto simp: update_game_state_def Let_def split: option.splits)

lemma turn_player:
  "game_inv g \<Longrightarrow> is_player_turn g pid \<Longrightarrow> pid = player1_id g \<or> player2_id g = Some pid"
  by (auto simp: game_inv_def turn_ok_def is_player_turn_def split: game_type.splits option.splits)

lemma move_result_inv:
  assumes inv: "game_inv g" and turn: "is_player_turn g pid" and wf: "board_wf b"
  shows "game_inv (move_result g pid b)"
proof -
  let ?g1 = "update_game_state (g\<lparr>game_field := b\<rparr>)"
  have st: "game_state g = PLAYER_TURN" using turn by (simp add: is_player_turn_def)
  have inv1: "game_inv ?g1" by (rule update_game_state_inv [OF inv st wf])
  have st1: "\<not> is_game_over ?g1 \<Longrightarrow> game_state ?g1 = PLAYER_TURN"
    using update_game_state_state [of "g\<lparr>game_field := b\<rparr>"] st by (auto simp: is_game_over_def)
  have pid: "pid = player1_id ?g1 \<or> player2_id ?g1 = Some pid"
    using turn_player [OF inv turn] by simp
  show ?thesis
  proof (cases "is_game_over ?g1")
    case True
    then show ?thesis using inv1 by (simp add: move_result_def)
  next
    case False
    show ?thesis
    proof (cases "game_type g")
      case PVC
      then show ?thesis
        using computer_step_inv [OF inv1 st1 [OF False]] False by (simp add: move_result_def)
    next
      case PVP
      then show ?thesis
        using flip_inv [OF inv1 st1 [OF False] _ pid] False by (simp add: move_result_def Let_def)
    qed
  qed
qed

lemma make_computer_move_eq:
  assumes inv: "store_inv st" and g: "game_inv g" and turn: "game_state g = PLAYER_TURN"
    and pvc: "game_type g = PVC" and row: "map_of st (game_id g) = Some (to_entity g)"
  shows "make_computer_move st g =
           Inr (AList.update (game_id g) (to_entity (computer_step g)) st, computer_step g)"
proof (cases "choose_move (game_field g) (player2_symbol g) (player1_symbol g)")
  case None
  then show ?thesis
    using row by (simp add: make_computer_move_def computer_step_def update_triv)
next
  case (Some c)
  have wf: "board_wf (game_field g)" using g by (simp add: game_inv_def)
  have ne: "set_cell (game_field g) (fst c) (snd c) (symbol_value (player2_symbol g)) \<noteq> []"
  proof -
    have "length (set_cell (game_field g) (fst c) (snd c) (symbol_value (player2_symbol g))) = 3"
      using wf by (simp add: board_wf_def)
    then show ?thesis by (metis length_0_conv zero_neq_numeral)
  qed
  have inv2: "game_inv (computer_step g)" by (rule computer_step_inv [OF g turn pvc])
  have same: "persisted st (computer_step g) = computer_step g"
    using row by (intro persisted_same_row) simp_all
  have "make_computer_move st g = persist st (computer_step g)"
    using Some ne by (simp add: make_computer_move_def computer_step_def Let_def)
  then show ?thesis
    using persist_eq [OF inv inv2] same by simp
qed

lemma make_move_eq:
  assumes inv: "store_inv st" and ld: "load_game st gid = Inr g"
    and turn: "is_player_turn g pid" and wf: "board_wf b"
  shows "make_move st gid pid b =
           Inr (AList.update gid (to_entity (move_result g pid b)) st, move_result g pid b)"
proof -
  from load_game_Inr [OF inv ld] have g: "game_inv g" and gid: "game_id g = gid"
    and row: "map_of st gid = Some (to_entity g)" by auto
  have st: "game_state g = PLAYER_TURN" using turn by (simp add: is_player_turn_def)
  have nover: "\<not> is_game_over g" using st by (simp add: is_game_over_def)
  have fmt: "valid_board_format b" using wf by (simp add: valid_board_format_wf)
  have bne: "b \<noteq> []" using wf by (auto simp: board_wf_def)
  let ?g1 = "update_game_state (g\<lparr>game_field := b\<rparr>)"
  let ?st1 = "AList.update gid (to_entity ?g1) st"
  have inv1: "game_inv ?g1" by (rule update_game_state_inv [OF g st wf])
  have p1: "persist st ?g1 = Inr (?st1, ?g1)"
  proof -
    have "persisted st ?g1 = ?g1" using row gid by (intro persisted_same_row) simp_all
    then show ?thesis using persist_eq [OF inv inv1] gid by simp
  qed
  have sinv1: "store_inv ?st1"
    using persist_inv [OF inv inv1] row gid persisted_same_row [of st ?g1 g] by simp
  have row1: "map_of ?st1 (game_id ?g1) = Some (to_entity ?g1)" using gid by simp
  have st1: "\<not> is_game_over ?g1 \<Longrightarrow> game_state ?g1 = PLAYER_TURN"
    using update_game_state_state [of "g\<lparr>game_field := b\<rparr>"] st by (auto simp: is_game_over_def)
  have pid: "pid = player1_id ?g1 \<or> player2_id ?g1 = Some pid"
    using turn_player [OF g turn] by simp
  have head: "make_move st gid pid b =
      res_bind (if \<not> is_game_over ?g1 \<and> game_type ?g1 = PVC then make_computer_move ?st1 ?g1
                else Inr (?st1, ?g1)) (\<lambda>(st2, g2).
        if \<not> is_game_over g2 \<and> game_type g2 = PVP
        then persist st2 (g2\<lparr>current_player_id := get_opponent_id g2 pid\<rparr>)
        else Inr (st2, g2))"
    using ld nover turn fmt bne p1 by (simp add: make_move_def)
  show ?thesis
  proof (cases "is_game_over ?g1")
    case True
    then show ?thesis using head by (simp add: move_result_def)
  next
    case False
    show ?thesis
    proof (cases "game_type g")
      case PVC
      have "make_computer_move ?st1 ?g1 =
              Inr (AList.update gid (to_entity (computer_step ?g1)) ?st1, computer_step ?g1)"
        using make_computer_move_eq [OF sinv1 inv1 st1 [OF False] _ row1] PVC gid by simp
      then show ?thesis using head False PVC by (simp add: move_result_def)
    next
      case PVP
      let ?g3 = "?g1\<lparr>current_player_id := get_opponent_id ?g1 pid\<rparr>"
      have inv3: "game_inv ?g3" using flip_inv [OF inv1 st1 [OF False] _ pid] PVP by simp
      have "persisted ?st1 ?g3 = ?g3"
        using row1 by (intro persisted_same_row [of _ _ ?g1]) simp_all
      then have "persist ?st1 ?g3 = Inr (AList.update gid (to_entity ?g3) ?st1, ?g3)"
        using persist_eq [OF sinv1 inv3] gid by simp
      then show ?thesis using head False PVP by (simp add: move_result_def Let_def)
    qed
  qed
qed

lemma empty_board_facts:
  "board_wf empty_board" "check_winner_symbol empty_board = None" "\<not> is_board_full empty_board"
  "empty_board \<noteq> []"
  by (simp_all add: empty_board_def board_wf_def check_winner_symbol_def row_win_def col_win_def
      is_board_full_def board_cells_def upt_3)

lemma game_inv_new_game: "game_inv (new_game gid now pid t)"
  using empty_board_facts
  by (cases t) (simp_all add: new_game_def game_inv_def turn_ok_def game_field_init_def)

lemma create_game_eq:
  "store_inv st \<Longrightarrow>
   create_game st gid now pid t =
     Inr (AList.update gid (to_entity (persisted st (new_game gid now pid t))) st,
          persisted st (new_game gid now pid t))"
  using persist_eq [OF _ game_inv_new_game] by (simp add: create_game_def new_game_def)

lemma game_inv_joined:
  "game_inv g \<Longrightarrow> game_state g = WAITING_FOR_PLAYER \<Longrightarrow> player1_id g \<noteq> pid \<Longrightarrow>
   game_inv (joined g pid)"
  using empty_board_facts by (auto simp: game_inv_def joined_def turn_ok_def)

lemma join_game_eq:
  assumes inv: "store_inv st" and ld: "load_game st gid = Inr g"
  shows "join_game st gid pid =
    (if game_state g \<noteq> WAITING_FOR_PLAYER then Inl NotAvailableForJoining
     else if game_type g \<noteq> PVP then Inl OnlyPvpJoinable
     else if player1_id g = pid then Inl CannotJoinOwnGame
     else Inr (AList.update gid (to_entity (joined g pid)) st, joined g pid))"
proof -
  from load_game_Inr [OF inv ld] have g: "game_inv g" and gid: "game_id g = gid"
    and row: "map_of st gid = Some (to_entity g)" by auto
  have "persisted st (joined g pid) = joined g pid"
    using row gid by (intro persisted_same_row) (simp_all add: joined_def)
  then show ?thesis
    using ld persist_eq [OF inv game_inv_joined [OF g]] gid
    by (auto simp: join_game_def joined_def)
qed

lemma persist_store_inv:
  "store_inv st \<Longrightarrow> game_inv g \<Longrightarrow> persist st g = Inr (st', g') \<Longrightarrow> store_inv st' \<and> game_inv g'"
  using persist_eq persist_inv by (fastforce simp: persisted_def)

lemma store_inv_write:
  "store_inv st \<Longrightarrow> game_inv h \<Longrightarrow> store_inv (AList.update (game_id h) (to_entity h) st)"
  by (intro store_inv_update row_ok_to_entity)

lemma make_move_load_Inl: "load_game st gid = Inl e \<Longrightarrow> make_move st gid pid b = Inl e"
  by (simp add: make_move_def)

lemma join_game_load_Inl: "load_game st gid = Inl e \<Longrightarrow> join_game st gid pid = Inl e"
  by (simp add: join_game_def)

lemma make_move_cases:
  assumes inv: "store_inv st" and ld: "load_game st gid = Inr g"
  shows "make_move st gid pid b =
    (if is_game_over g then Inl GameAlreadyOver
     else if \<not> is_player_turn g pid then Inl NotYourTurn
     else if \<not> board_wf b then Inl InvalidBoardFormat
     else Inr (AList.update gid (to_entity (move_result g pid b)) st, move_result g pid b))"
  using make_move_eq [OF inv ld] ld by (auto simp: make_move_def valid_board_format_wf)

lemma join_game_store_inv:
  assumes inv: "store_inv st" and ok: "join_game st gid pid = Inr (st', g')"
  shows "store_inv st' \<and> game_inv g'"
proof (cases "load_game st gid")
  case (Inl e)
  then show ?thesis using ok join_game_load_Inl by simp
next
  case (Inr g)
  from load_game_Inr [OF inv Inr] have g: "game_inv g" and gid: "game_id g = gid" by auto
  show ?thesis
    using ok join_game_eq [OF inv Inr] store_inv_write [OF inv game_inv_joined [OF g]] gid
      game_inv_joined [OF g]
    by (auto simp: joined_def split: if_splits)
qed

lemma make_move_store_inv:
  assumes inv: "store_inv st" and ok: "make_move st gid pid b = Inr (st', g')"
  shows "store_inv st' \<and> game_inv g'"
proof (cases "load_game st gid")
  case (Inl e)
  then show ?thesis using ok make_move_load_Inl by simp
next
  case (Inr g)
  from load_game_Inr [OF inv Inr] have g: "game_inv g" and gid: "game_id g = gid" by auto
  have res: "is_player_turn g pid \<and> board_wf b \<and> st' = AList.update gid (to_entity (move_result g pid b)) st
             \<and> g' = move_result g pid b"
    using ok make_move_cases [OF inv Inr] by (auto split: if_splits)
  moreover have "game_id (move_result g pid b) = gid"
    using gid by (simp add: move_result_def Let_def)
  ultimately show ?thesis
    using store_inv_write [OF inv move_result_inv [OF g]] move_result_inv [OF g] by metis
qed

lemma service_step_store_inv: "service_step st st' \<Longrightarrow> store_inv st \<Longrightarrow> store_inv st'"
proof (induction rule: service_step.induct)
  case (create st gid now pid t st' g)
  then show ?case
    using persist_store_inv [OF create.prems game_inv_new_game] by (simp add: create_game_def)
next
  case (join st gid pid st' g)
  then show ?case using join_game_store_inv by blast
next
  case (move st gid pid b st' g)
  then show ?case using make_move_store_inv by blast
qed

lemma reachable_store_inv: "reachable st \<Longrightarrow> store_inv st"
proof (induction rule: reachable.induct)
  case init
  then show ?case by (simp add: store_inv_def)
next
  case (step st st')
  then show ?case using service_step_store_inv by blast
qed

section \<open>Reading the table back\<close>

lemma load_game_svc:
  "store_inv st \<Longrightarrow> load_game st gid = (case get_game_svc st gid of None \<Rightarrow> Inl GameNotFound | Some g \<Rightarrow> Inr g)"
  by (auto simp: load_game_def get_game_svc_def get_game_def dest!: store_inv_row row_ok_domain
      split: option.splits)

lemma get_game_svc_update:
  "game_field h \<noteq> [] \<Longrightarrow> get_game_svc (AList.update k (to_entity h) st) k = Some h"
  by (simp add: get_game_svc_def get_game_def to_domain_to_entity)

lemma make_move_Inr:
  assumes inv: "store_inv st" and g: "get_game_svc st gid = Some g"
    and ok: "make_move st gid pid b = Inr (st', g')"
  shows "game_inv g \<and> is_player_turn g pid \<and> board_wf b \<and> g' = move_result g pid b \<and>
         st' = AList.update gid (to_entity g') st"
proof -
  have ld: "load_game st gid = Inr g" using load_game_svc [OF inv, of gid] g by simp
  show ?thesis
    using load_game_Inr [OF inv ld] ok make_move_cases [OF inv ld] by (auto split: if_splits)
qed

lemma move_result_first:
  "move_result g pid b =
     (let g1 = update_game_state (g\<lparr>game_field := b\<rparr>)
      in if is_game_over g1 then g1
         else if game_type g1 = PVC then computer_step g1
         else g1\<lparr>current_player_id := get_opponent_id g1 pid\<rparr>)"
  by (cases "game_type g")
     (auto simp: move_result_def Let_def computer_step_def is_game_over_def split: option.splits)

section \<open>Steps of the service\<close>

lemma get_game_svc_update_other:
  "k \<noteq> gid \<Longrightarrow> get_game_svc (AList.update k v st) gid = get_game_svc st gid"
  by (simp add: get_game_svc_def get_game_def)

lemma service_step_write:
  assumes step: "service_step st st'" and inv: "store_inv st"
  obtains k h where "st' = AList.update k (to_entity h) st" and "game_inv h" and "game_id h = k"
    and "\<And>g. get_game_svc st k = Some g \<Longrightarrow> \<not> is_game_over g"
  using step
proof cases
  case (create gid now pid t g)
  let ?h = "persisted st (new_game gid now pid t)"
  have none: "get_game_svc st gid = None" using create(1) by (simp add: get_game_svc_def get_game_def)
  have hinv: "game_inv ?h" using game_inv_new_game by (simp add: persisted_def)
  have hid: "game_id ?h = gid" by (simp add: persisted_def new_game_def)
  have st': "st' = AList.update gid (to_entity ?h) st"
    using create(2) create_game_eq [OF inv, of gid now pid t] by (simp del: create_game_def) (metis)
  show ?thesis using that [OF st' hinv hid] none by simp
next
  case (join gid pid g)
  then obtain g0 where ld: "load_game st gid = Inr g0"
    using join_game_load_Inl by (cases "load_game st gid") fastforce+
  from load_game_Inr [OF inv ld] have g0: "game_inv g0" and gid: "game_id g0 = gid" by auto
  have ok: "game_state g0 = WAITING_FOR_PLAYER" "player1_id g0 \<noteq> pid"
    and st': "st' = AList.update gid (to_entity (joined g0 pid)) st"
    using join(1) join_game_eq [OF inv ld, of pid] by (auto split: if_splits)
  have "get_game_svc st gid = Some g0" using ld load_game_svc [OF inv, of gid] by (auto split: option.splits)
  then show ?thesis
    using that [OF st' game_inv_joined [OF g0 ok]] gid ok by (simp add: joined_def is_game_over_def)
next
  case (move gid pid b g)
  then obtain g0 where ld: "load_game st gid = Inr g0"
    using make_move_load_Inl by (cases "load_game st gid") fastforce+
  have sv: "get_game_svc st gid = Some g0" using ld load_game_svc [OF inv, of gid] by (auto split: option.splits)
  from make_move_Inr [OF inv sv move(1)]
  have g0: "game_inv g0" and res: "g = move_result g0 pid b" "st' = AList.update gid (to_entity g) st"
    by auto
  from load_game_Inr [OF inv ld] have gid: "game_id g0 = gid" by simp
  have "\<not> is_game_over g0" using move(1) make_move_cases [OF inv ld] by (auto split: if_splits)
  moreover have "game_inv g" "game_id g = gid"
    using make_move_store_inv [OF inv move(1)] res gid by (auto simp: move_result_def Let_def)
  ultimately show ?thesis using that [of gid g] res(2) sv by auto
qed

lemma make_move_reachable_Inr:
  assumes r: "reachable st" and g: "get_game_svc st gid = Some g"
    and ok: "make_move st gid pid b = Inr (st', g')"
  shows "game_inv g \<and> game_state g = PLAYER_TURN \<and> current_player_id g = Some pid \<and> board_wf b \<and>
         g' = move_result g pid b"
  using make_move_Inr [OF reachable_store_inv [OF r] g ok] by (simp add: is_player_turn_def)

lemma get_opponent_id_turn:
  "game_inv g \<Longrightarrow> game_type g = PVP \<Longrightarrow> game_state g = PLAYER_TURN \<Longrightarrow> current_player_id g = Some pid \<Longrightarrow>
   \<exists>q. get_opponent_id g pid = Some q \<and> q \<noteq> pid \<and> {pid, q} = {player1_id g, the (player2_id g)}"
  by (auto simp: game_inv_def turn_ok_def get_opponent_id_def split: option.splits)

lemma get_opponent_id_update [simp]:
  "get_opponent_id (update_game_state h) p = get_opponent_id h p"
  "get_opponent_id (h\<lparr>game_field := b\<rparr>) p = get_opponent_id h p"
  by (simp_all add: get_opponent_id_def)

lemma pvc_turn_first: "game_inv g \<Longrightarrow> game_type g = PVC \<Longrightarrow> game_state g = PLAYER_TURN \<Longrightarrow>
   current_player_id g = Some (player1_id g)"
  by (simp add: game_inv_def turn_ok_def)

lemma join_game_svc:
  assumes inv: "store_inv st"
  shows "join_game st gid pid =
    (case get_game_svc st gid of
       None \<Rightarrow> Inl GameNotFound
     | Some g \<Rightarrow>
         if game_state g \<noteq> WAITING_FOR_PLAYER then Inl NotAvailableForJoining
         else if game_type g \<noteq> PVP then Inl OnlyPvpJoinable
         else if player1_id g = pid then Inl CannotJoinOwnGame
         else Inr (AList.update gid (to_entity (joined g pid)) st, joined g pid))"
proof (cases "get_game_svc st gid")
  case None
  then show ?thesis using load_game_svc [OF inv, of gid] join_game_load_Inl by simp
next
  case (Some g)
  then show ?thesis using load_game_svc [OF inv, of gid] join_game_eq [OF inv] by simp
qed

lemma map_domain_filter:
  "list_all (\<lambda>(k, e). row_ok k e) st \<Longrightarrow> (\<And>g. P (to_entity g) = Q g) \<Longrightarrow>
   map_domain (filter P (map snd st)) = Inr (filter Q (List.map_filter (\<lambda>(k, e). to_domain e) st))"
  using rows_to_domain rows_map_filter by (simp add: map_domain_def)

section \<open>Moves fill the board\<close>

lemma computer_step_empty_cells:
  "board_wf (game_field h) \<Longrightarrow>
   length (empty_cells (game_field (computer_step h))) \<le> length (empty_cells (game_field h))"
proof -
  assume wf: "board_wf (game_field h)"
  show ?thesis
  proof (cases "choose_move (game_field h) (player2_symbol h) (player1_symbol h)")
    case None
    then show ?thesis by (simp add: computer_step_def)
  next
    case (Some c)
    have "c \<in> set (empty_cells (game_field h))" using choose_move_in_empty [OF Some wf] .
    then have "length (empty_cells (set_cell (game_field h) (fst c) (snd c) (symbol_value (player2_symbol h))))
               < length (empty_cells (game_field h))"
      by (rule empty_cells_set_cell_less) simp
    then show ?thesis using Some by (simp add: computer_step_def Let_def)
  qed
qed

lemma move_result_empty_cells:
  "board_wf b \<Longrightarrow> length (empty_cells (game_field (move_result g pid b))) \<le> length (empty_cells b)"
  using computer_step_empty_cells [of "update_game_state (g\<lparr>game_field := b\<rparr>)"]
  by (simp add: move_result_def Let_def)

end
