(* ===== verification/Users.thy ===== *)
theory Users
  imports Prelude
begin

text \<open>
  Accounts and authentication: the \<open>users\<close> table (datasource/model/user_entity.py,
  datasource/repository/user_repository.py, datasource/mapper/user_mapper.py), the
  \<open>User\<close> model (domain/model/users.py), \<open>UserService\<close> (registration, lookups, password
  check), \<open>JwtProvider\<close> (token issue and checks), \<open>AuthService\<close> (register, login, the two
  refresh operations, authentication by access token) and \<open>UserAuthenticator.require_auth\<close>,
  the check of the \<open>Authorization\<close> header every protected route runs first.

  The libraries the code calls are parameters collected in \<open>auth_env\<close>: SHA-256 for
  passwords, \<open>flask_jwt_extended\<close>'s \<open>create_access_token\<close>/\<open>create_refresh_token\<close>
  (one encoder taking the issue time, the token type, the identity and the lifetime) and
  \<open>decode_token\<close> (which raises on a bad or expired token: \<open>None\<close>), and the UUID string
  conversions. \<open>jwt_contract\<close> states what the code relies on from them; the theorems about
  tokens assume it and a witness instantiates it with a concrete codec.
\<close>

section \<open>The users table\<close>

record user =
  user_id :: uuid
  login :: string
  password :: string

record user_entity =
  uent_id :: uuid
  uent_login :: string
  uent_password :: string

type_synonym user_store = "user_entity list"

definition user_to_domain :: "user_entity \<Rightarrow> user" where
  "user_to_domain e = \<lparr>user_id = uent_id e, login = uent_login e, password = uent_password e\<rparr>"

definition user_to_entity :: "user \<Rightarrow> user_entity" where
  "user_to_entity u = \<lparr>uent_id = user_id u, uent_login = login u, uent_password = password u\<rparr>"

text \<open>
  The two errors of a registration: the \<open>ValueError\<close> \<open>create_user\<close> raises for a login
  that is taken, and the \<open>DataError\<close> the commit raises when a value does not fit its
  column (PostgreSQL's "value too long for type character varying(100)").
\<close>

datatype user_error = LoginExists | ValueTooLong

text \<open>\<open>login\<close> and \<open>password\<close> are \<open>String(100)\<close> columns: a row fits when both values
  have at most 100 characters.\<close>

definition row_fits :: "user_entity \<Rightarrow> bool" where
  "row_fits e \<longleftrightarrow> length (uent_login e) \<le> 100 \<and> length (uent_password e) \<le> 100"

text \<open>\<open>session.add(user); commit()\<close>: the row is appended, its id the fresh \<open>uuid4\<close>;
  the commit raises \<open>DataError\<close> for a row that does not fit, and nothing is written.\<close>

definition user_save :: "user_store \<Rightarrow> user_entity \<Rightarrow> user_error + user_store \<times> user_entity" where
  "user_save st e = (if row_fits e then Inr (st @ [e], e) else Inl ValueTooLong)"

text \<open>\<open>.filter(...).first()\<close>: the first row in storage order.\<close>

definition find_by_login_repo :: "user_store \<Rightarrow> string \<Rightarrow> user_entity option" where
  "find_by_login_repo st l = find (\<lambda>e. uent_login e = l) st"

definition find_by_id_repo :: "user_store \<Rightarrow> uuid \<Rightarrow> user_entity option" where
  "find_by_id_repo st u = find (\<lambda>e. uent_id e = u) st"

section \<open>The libraries\<close>

text \<open>The claims of a decoded token that the code reads: \<open>decoded.get("type")\<close>, \<open>.get("sub")\<close>.\<close>

record claims =
  cl_type :: "string option"
  cl_sub :: "string option"

record auth_env =
  hash_pw :: "string \<Rightarrow> string"
  jwt_encode :: "timestamp \<Rightarrow> string \<Rightarrow> string \<Rightarrow> nat \<Rightarrow> string"
  jwt_decode :: "timestamp \<Rightarrow> string \<Rightarrow> claims option"
  uuid_str :: "uuid \<Rightarrow> string"
  uuid_parse :: "string \<Rightarrow> uuid option"

text \<open>
  A token issued at \<open>t\<close> with lifetime \<open>d\<close> decodes to its type and identity before
  \<open>t + d\<close> and is rejected from then on; a token is a non-empty string; \<open>UUID(str(u)) = u\<close>
  and \<open>str(u)\<close> is never empty.
\<close>

definition jwt_contract :: "auth_env \<Rightarrow> bool" where
  "jwt_contract E \<longleftrightarrow>
     (\<forall>t now ty s d. jwt_decode E now (jwt_encode E t ty s d) =
        (if now < t + d then Some \<lparr>cl_type = Some ty, cl_sub = Some s\<rparr> else None)) \<and>
     (\<forall>t ty s d. jwt_encode E t ty s d \<noteq> []) \<and>
     (\<forall>u. uuid_parse E (uuid_str E u) = Some u) \<and> (\<forall>u. uuid_str E u \<noteq> [])"

section \<open>UserService\<close>

record sign_up_request =
  su_login :: string
  su_password :: string

definition create_user ::
  "auth_env \<Rightarrow> uuid \<Rightarrow> user_store \<Rightarrow> sign_up_request \<Rightarrow> user_error + user_store \<times> user" where
  "create_user E uid st req =
     (case find_by_login_repo st (su_login req) of
        Some _ \<Rightarrow> Inl LoginExists
      | None \<Rightarrow>
          (case user_save st \<lparr>uent_id = uid, uent_login = su_login req,
                                uent_password = hash_pw E (su_password req)\<rparr> of
             Inl err \<Rightarrow> Inl err
           | Inr (st', e) \<Rightarrow> Inr (st', user_to_domain e)))"

definition find_by_login :: "user_store \<Rightarrow> string \<Rightarrow> user option" where
  "find_by_login st l = map_option user_to_domain (find_by_login_repo st l)"

definition find_by_id :: "user_store \<Rightarrow> uuid \<Rightarrow> user option" where
  "find_by_id st u = map_option user_to_domain (find_by_id_repo st u)"

definition verify_password :: "auth_env \<Rightarrow> user \<Rightarrow> string \<Rightarrow> bool" where
  "verify_password E u pw \<longleftrightarrow> password u = hash_pw E pw"

section \<open>JwtProvider\<close>

text \<open>The two lifetimes in seconds; \<open>container_jwt\<close> is the provider di/container.py builds.\<close>

record jwt_provider =
  access_expires :: nat
  refresh_expires :: nat

definition container_jwt :: jwt_provider where
  "container_jwt = \<lparr>access_expires = 15 * 60, refresh_expires = 30 * 24 * 60 * 60\<rparr>"

definition generate_access_token :: "auth_env \<Rightarrow> jwt_provider \<Rightarrow> timestamp \<Rightarrow> user \<Rightarrow> string" where
  "generate_access_token E P now u = jwt_encode E now ''access'' (uuid_str E (user_id u)) (access_expires P)"

definition generate_refresh_token :: "auth_env \<Rightarrow> jwt_provider \<Rightarrow> timestamp \<Rightarrow> user \<Rightarrow> string" where
  "generate_refresh_token E P now u = jwt_encode E now ''refresh'' (uuid_str E (user_id u)) (refresh_expires P)"

definition validate_access_token :: "auth_env \<Rightarrow> timestamp \<Rightarrow> string \<Rightarrow> bool" where
  "validate_access_token E now t =
     (case jwt_decode E now t of None \<Rightarrow> False | Some c \<Rightarrow> cl_type c = Some ''access'')"

definition validate_refresh_token :: "auth_env \<Rightarrow> timestamp \<Rightarrow> string \<Rightarrow> bool" where
  "validate_refresh_token E now t =
     (case jwt_decode E now t of None \<Rightarrow> False | Some c \<Rightarrow> cl_type c = Some ''refresh'')"

text \<open>\<open>if identity: return UUID(identity)\<close>: an empty subject is falsy; a malformed one raises.\<close>

definition get_uuid_from_token :: "auth_env \<Rightarrow> timestamp \<Rightarrow> string \<Rightarrow> uuid option" where
  "get_uuid_from_token E now t =
     (case jwt_decode E now t of
        None \<Rightarrow> None
      | Some c \<Rightarrow> (case cl_sub c of None \<Rightarrow> None | Some s \<Rightarrow> if s = [] then None else uuid_parse E s))"

section \<open>AuthService\<close>

record jwt_request =
  jr_login :: string
  jr_password :: string

record jwt_response =
  jw_type :: string
  jw_access :: string
  jw_refresh :: string

text \<open>\<open>AuthService.register\<close>: \<open>True\<close> once \<open>create_user\<close> returns, \<open>False\<close> for its
  \<open>ValueError\<close>; the commit's \<open>DataError\<close> is not a \<open>ValueError\<close> and escapes.\<close>

definition register ::
  "auth_env \<Rightarrow> uuid \<Rightarrow> user_store \<Rightarrow> sign_up_request \<Rightarrow> user_error + user_store \<times> bool" where
  "register E uid st req =
     (case create_user E uid st req of
        Inl LoginExists \<Rightarrow> Inr (st, False)
      | Inl ValueTooLong \<Rightarrow> Inl ValueTooLong
      | Inr (st', _) \<Rightarrow> Inr (st', True))"

definition authenticate ::
  "auth_env \<Rightarrow> jwt_provider \<Rightarrow> timestamp \<Rightarrow> user_store \<Rightarrow> jwt_request \<Rightarrow> jwt_response option" where
  "authenticate E P now st req =
     (case find_by_login st (jr_login req) of
        None \<Rightarrow> None
      | Some u \<Rightarrow>
          if \<not> verify_password E u (jr_password req) then None
          else Some \<lparr>jw_type = ''Bearer'', jw_access = generate_access_token E P now u,
                     jw_refresh = generate_refresh_token E P now u\<rparr>)"

definition refresh_access_token ::
  "auth_env \<Rightarrow> jwt_provider \<Rightarrow> timestamp \<Rightarrow> user_store \<Rightarrow> string \<Rightarrow> jwt_response option" where
  "refresh_access_token E P now st t =
     (if \<not> validate_refresh_token E now t then None
      else case get_uuid_from_token E now t of
             None \<Rightarrow> None
           | Some uid \<Rightarrow> (case find_by_id st uid of
                            None \<Rightarrow> None
                          | Some u \<Rightarrow> Some \<lparr>jw_type = ''Bearer'',
                                           jw_access = generate_access_token E P now u,
                                           jw_refresh = t\<rparr>))"

definition refresh_refresh_token ::
  "auth_env \<Rightarrow> jwt_provider \<Rightarrow> timestamp \<Rightarrow> user_store \<Rightarrow> string \<Rightarrow> jwt_response option" where
  "refresh_refresh_token E P now st t =
     (if \<not> validate_refresh_token E now t then None
      else case get_uuid_from_token E now t of
             None \<Rightarrow> None
           | Some uid \<Rightarrow> (case find_by_id st uid of
                            None \<Rightarrow> None
                          | Some u \<Rightarrow> Some \<lparr>jw_type = ''Bearer'',
                                           jw_access = generate_access_token E P now u,
                                           jw_refresh = generate_refresh_token E P now u\<rparr>))"

definition authenticate_by_token :: "auth_env \<Rightarrow> timestamp \<Rightarrow> string \<Rightarrow> uuid option" where
  "authenticate_by_token E now t =
     (if \<not> validate_access_token E now t then None else get_uuid_from_token E now t)"

section \<open>UserAuthenticator.require_auth\<close>

text \<open>
  The four 401 answers of the decorator, in its order; \<open>if not auth_header\<close> treats a
  missing and an empty header alike, \<open>startswith("Bearer ")\<close> is a test on the first seven
  characters and the token is what follows them.
\<close>

datatype auth_failure = AuthorizationRequired | InvalidAuthorizationFormat | TokenMissing | Unauthorized

definition auth_failure_body :: "auth_failure \<Rightarrow> string \<times> string" where
  "auth_failure_body f = (case f of
      AuthorizationRequired \<Rightarrow> (''Authorization required'', ''Please provide Authorization header'')
    | InvalidAuthorizationFormat \<Rightarrow> (''Invalid authorization format'',
                                    ''Authorization header must be in format: Bearer <token>'')
    | TokenMissing \<Rightarrow> (''Token missing'', ''Authorization token is missing'')
    | Unauthorized \<Rightarrow> (''Unauthorized'', ''Invalid or expired token''))"

definition require_auth :: "auth_env \<Rightarrow> timestamp \<Rightarrow> string option \<Rightarrow> auth_failure + uuid" where
  "require_auth E now hdr =
     (case hdr of
        None \<Rightarrow> Inl AuthorizationRequired
      | Some h \<Rightarrow>
          if h = [] then Inl AuthorizationRequired
          else if take 7 h \<noteq> ''Bearer '' then Inl InvalidAuthorizationFormat
          else (let tok = drop 7 h in
                if tok = [] then Inl TokenMissing
                else case authenticate_by_token E now tok of
                       None \<Rightarrow> Inl Unauthorized
                     | Some uid \<Rightarrow> Inr uid))"

section \<open>Registrations\<close>

text \<open>The tables reachable from an empty one by registrations, each with a fresh \<open>uuid4\<close>.\<close>

inductive users_reachable :: "auth_env \<Rightarrow> user_store \<Rightarrow> bool" for E where
  init: "users_reachable E []"
| reg: "users_reachable E st \<Longrightarrow> find_by_id_repo st uid = None \<Longrightarrow>
        register E uid st req = Inr (st', b) \<Longrightarrow> users_reachable E st'"

section \<open>A concrete instance of the libraries\<close>

text \<open>
  A codec that meets \<open>jwt_contract\<close>, so that the theorems assuming it are not vacuous and
  their witnesses can run: a token spells its expiry time and the length of its type in
  unary, then the type and the identity; a UUID is spelled in unary; the hash reverses.
\<close>

definition bar :: char where "bar = CHR ''|''"

definition unary :: "nat \<Rightarrow> string" where "unary n = replicate n (CHR ''a'')"

definition split_bar :: "string \<Rightarrow> nat \<times> string" where
  "split_bar x = (length (takeWhile (\<lambda>c. c \<noteq> bar) x), drop 1 (dropWhile (\<lambda>c. c \<noteq> bar) x))"

definition demo_encode :: "timestamp \<Rightarrow> string \<Rightarrow> string \<Rightarrow> nat \<Rightarrow> string" where
  "demo_encode t ty s d = unary (t + d) @ bar # unary (length ty) @ bar # ty @ s"

definition demo_decode :: "timestamp \<Rightarrow> string \<Rightarrow> claims option" where
  "demo_decode now x =
     (let (e, r1) = split_bar x; (n, r2) = split_bar r1
      in if now < e then Some \<lparr>cl_type = Some (take n r2), cl_sub = Some (drop n r2)\<rparr> else None)"

definition demo_env :: auth_env where
  "demo_env = \<lparr>hash_pw = rev, jwt_encode = demo_encode, jwt_decode = demo_decode,
     uuid_str = (\<lambda>u. replicate (Suc u) (CHR ''u'')),
     uuid_parse = (\<lambda>s. if s \<noteq> [] \<and> list_all (\<lambda>c. c = CHR ''u'') s then Some (length s - 1) else None)\<rparr>"

text \<open>The rows a registration writes, and two sign-up requests for the scenarios.\<close>

abbreviation new_user_row :: "auth_env \<Rightarrow> uuid \<Rightarrow> sign_up_request \<Rightarrow> user_entity" where
  "new_user_row E uid req \<equiv>
     \<lparr>uent_id = uid, uent_login = su_login req, uent_password = hash_pw E (su_password req)\<rparr>"

abbreviation ann :: sign_up_request where "ann \<equiv> \<lparr>su_login = ''ann'', su_password = ''pw''\<rparr>"

abbreviation bob :: sign_up_request where "bob \<equiv> \<lparr>su_login = ''bob'', su_password = ''qq''\<rparr>"

section \<open>Lemmas and properties\<close>

lemma find_by_login_repo_None_iff:
  "find_by_login_repo st l = None \<longleftrightarrow> l \<notin> set (map uent_login st)"
  by (auto simp: find_by_login_repo_def find_None_iff)

lemma find_by_id_repo_None_iff:
  "find_by_id_repo st u = None \<longleftrightarrow> u \<notin> set (map uent_id st)"
  by (auto simp: find_by_id_repo_def find_None_iff)

lemma find_by_login_repo_snoc:
  "l \<notin> set (map uent_login st) \<Longrightarrow>
   find_by_login_repo (st @ [e]) l = (if uent_login e = l then Some e else None)"
  by (induction st) (auto simp: find_by_login_repo_def)

lemma find_by_id_repo_snoc:
  "u \<notin> set (map uent_id st) \<Longrightarrow>
   find_by_id_repo (st @ [e]) u = (if uent_id e = u then Some e else None)"
  by (induction st) (auto simp: find_by_id_repo_def)

lemma register_eq:
  "register E uid st req =
     (if su_login req \<in> set (map uent_login st) then Inr (st, False)
      else if row_fits (new_user_row E uid req) then Inr (st @ [new_user_row E uid req], True)
      else Inl ValueTooLong)"
  using find_by_login_repo_None_iff [of st "su_login req"]
  by (auto simp: register_def create_user_def user_save_def split: option.splits)

lemma register_find_by_login:
  assumes ok: "register E uid st req = Inr (st', True)"
  shows "st' = st @ [new_user_row E uid req] \<and> su_login req \<notin> set (map uent_login st) \<and>
         find_by_login st' (su_login req) = Some (user_to_domain (new_user_row E uid req))"
proof -
  have fresh: "su_login req \<notin> set (map uent_login st)" and st': "st' = st @ [new_user_row E uid req]"
      using ok by (simp_all add: register_eq split: if_splits)
  then show ?thesis using find_by_login_repo_snoc [OF fresh] by (simp add: find_by_login_def)
qed



lemma contract_decode:
  "jwt_contract E \<Longrightarrow> jwt_decode E now (jwt_encode E t ty s d) =
     (if now < t + d then Some \<lparr>cl_type = Some ty, cl_sub = Some s\<rparr> else None)"
  by (simp add: jwt_contract_def)

lemma contract_uuid:
  "jwt_contract E \<Longrightarrow> uuid_parse E (uuid_str E u) = Some u \<and> uuid_str E u \<noteq> []"
  by (simp add: jwt_contract_def)

lemma get_uuid_from_token_encode:
  "jwt_contract E \<Longrightarrow>
   get_uuid_from_token E now (jwt_encode E t ty (uuid_str E u) d) = (if now < t + d then Some u else None)"
  using contract_uuid [of E u] by (simp add: get_uuid_from_token_def contract_decode)

text \<open>
  C28: an access token authenticates its user until its lifetime ends and not after; a
  refresh token never authenticates a request, and an access token is never accepted as a
  refresh token.
\<close>

theorem token_lifetimes:
  assumes c: "jwt_contract E"
  shows "authenticate_by_token E now' (generate_access_token E P now u) =
           (if now' < now + access_expires P then Some (user_id u) else None) \<and>
         authenticate_by_token E now' (generate_refresh_token E P now u) = None \<and>
         validate_refresh_token E now' (generate_refresh_token E P now u) =
           (now' < now + refresh_expires P) \<and>
         \<not> validate_refresh_token E now' (generate_access_token E P now u)"
  using get_uuid_from_token_encode [OF c]
  by (simp add: authenticate_by_token_def validate_access_token_def validate_refresh_token_def
      generate_access_token_def generate_refresh_token_def contract_decode [OF c])

text \<open>
  C29: \<open>require_auth\<close> lets a request through with user id \<open>u\<close>
  exactly when its Authorization header is \<open>Bearer \<close> followed by a non-empty
  access token that authenticates \<open>u\<close>.
\<close>

theorem require_auth_Inr:
  "require_auth E now h = Inr uid \<longleftrightarrow>
     (\<exists>tok. h = Some (''Bearer '' @ tok) \<and> tok \<noteq> [] \<and> authenticate_by_token E now tok = Some uid)"
proof
  assume r: "require_auth E now h = Inr uid"
  then obtain s where h: "h = Some s" and s: "take 7 s = ''Bearer ''" and tok: "drop 7 s \<noteq> []"
    and a: "authenticate_by_token E now (drop 7 s) = Some uid"
    by (auto simp: require_auth_def Let_def split: option.splits if_splits)
  have "s = ''Bearer '' @ drop 7 s" using s by (metis append_take_drop_id)
  then show "\<exists>tok. h = Some (''Bearer '' @ tok) \<and> tok \<noteq> [] \<and> authenticate_by_token E now tok = Some uid"
    using h tok a by blast
next
  assume "\<exists>tok. h = Some (''Bearer '' @ tok) \<and> tok \<noteq> [] \<and> authenticate_by_token E now tok = Some uid"
  then show "require_auth E now h = Inr uid" by (auto simp: require_auth_def)
qed

lemma split_bar_unary: "split_bar (unary n @ bar # r) = (n, r)"
proof -
  have "takeWhile (\<lambda>c. c \<noteq> bar) (unary n @ bar # r) = unary n"
    by (induction n) (auto simp: unary_def bar_def)
  moreover have "dropWhile (\<lambda>c. c \<noteq> bar) (unary n @ bar # r) = bar # r"
    by (induction n) (auto simp: unary_def bar_def)
  ultimately show ?thesis by (simp add: split_bar_def unary_def)
qed

lemma demo_contract: "jwt_contract demo_env"
  by (simp add: jwt_contract_def demo_env_def demo_encode_def demo_decode_def split_bar_unary
      list_all_iff)

lemma contract_token_nonempty: "jwt_contract E \<Longrightarrow> jwt_encode E t ty s d \<noteq> []"
  by (simp add: jwt_contract_def)

text \<open>
  C30: register, log in, then send the access token in the header: the request is authorized
  as the new user until the token expires, and refused as Unauthorized afterwards.
\<close>

theorem login_then_authorized:
  assumes c: "jwt_contract E" and ok: "register E uid st req = Inr (st', True)"
    and li: "authenticate E P now st' \<lparr>jr_login = su_login req, jr_password = su_password req\<rparr> = Some r"
  shows "require_auth E now' (Some (''Bearer '' @ jw_access r)) =
           (if now' < now + access_expires P then Inr uid else Inl Unauthorized) \<and>
         jw_type r = ''Bearer''"
proof -
  have r: "r = \<lparr>jw_type = ''Bearer'',
                 jw_access = generate_access_token E P now (user_to_domain (new_user_row E uid req)),
                 jw_refresh = generate_refresh_token E P now (user_to_domain (new_user_row E uid req))\<rparr>"
  proof -
    have "find_by_login st' (su_login req) = Some (user_to_domain (new_user_row E uid req))"
      using register_find_by_login [OF ok] by blast
    then have "authenticate E P now st' \<lparr>jr_login = su_login req, jr_password = su_password req\<rparr> =
      Some \<lparr>jw_type = ''Bearer'',
            jw_access = generate_access_token E P now (user_to_domain (new_user_row E uid req)),
            jw_refresh = generate_refresh_token E P now (user_to_domain (new_user_row E uid req))\<rparr>"
      by (simp add: authenticate_def verify_password_def user_to_domain_def)
    then show ?thesis using li by simp
  qed
  have ne: "jw_access r \<noteq> []"
    using r contract_token_nonempty [OF c] by (simp add: generate_access_token_def)
  have "authenticate_by_token E now' (jw_access r) = (if now' < now + access_expires P then Some uid else None)"
    using r get_uuid_from_token_encode [OF c]
    by (simp add: authenticate_by_token_def validate_access_token_def generate_access_token_def
        contract_decode [OF c] user_to_domain_def)
  then show ?thesis using ne r by (simp add: require_auth_def)
qed

text \<open>
  C31: for a newly registered user, refreshing with the user's refresh token yields a new
  access token and returns the same refresh token while it is valid; an access token cannot
  be used to refresh.
\<close>

theorem refresh_after_register:
  assumes c: "jwt_contract E" and ok: "register E uid st req = Inr (st', True)"
    and fresh: "uid \<notin> set (map uent_id st)"
  shows "refresh_access_token E P now' st' (generate_refresh_token E P now (user_to_domain (new_user_row E uid req))) =
           (if now' < now + refresh_expires P
            then Some \<lparr>jw_type = ''Bearer'',
                       jw_access = generate_access_token E P now' (user_to_domain (new_user_row E uid req)),
                       jw_refresh = generate_refresh_token E P now (user_to_domain (new_user_row E uid req))\<rparr>
            else None) \<and>
         refresh_access_token E P now' st' (generate_access_token E P now (user_to_domain (new_user_row E uid req))) = None"
proof -
  have st': "st' = st @ [new_user_row E uid req]" using register_find_by_login [OF ok] by simp
  have "find_by_id st' uid = Some (user_to_domain (new_user_row E uid req))"
    using find_by_id_repo_snoc [OF fresh] st' by (simp add: find_by_id_def)
  moreover have "uid = user_id (user_to_domain (new_user_row E uid req))" by (simp add: user_to_domain_def)
  ultimately show ?thesis
    using get_uuid_from_token_encode [OF c]
    by (auto simp: refresh_access_token_def validate_refresh_token_def generate_refresh_token_def
        generate_access_token_def contract_decode [OF c])
qed

text \<open>
  With the lifetimes the DI container sets, an access token is accepted 899 seconds
  after issue and refused at 900 (15 minutes), and a refresh token lasts 30 days.
\<close>

theorem container_token_windows:
  assumes c: "jwt_contract E"
  shows "authenticate_by_token E (t + 899) (generate_access_token E container_jwt t u) = Some (user_id u) \<and>
         authenticate_by_token E (t + 900) (generate_access_token E container_jwt t u) = None \<and>
         validate_refresh_token E (t + 2591999) (generate_refresh_token E container_jwt t u) \<and>
         \<not> validate_refresh_token E (t + 2592000) (generate_refresh_token E container_jwt t u)"
  using get_uuid_from_token_encode [OF c]
  by (simp add: authenticate_by_token_def validate_access_token_def validate_refresh_token_def
      generate_access_token_def generate_refresh_token_def contract_decode [OF c] container_jwt_def)


lemma demo_register_ann:
  "register demo_env 1 [] ann = Inr ([new_user_row demo_env 1 ann], True)"
  by (simp add: register_eq row_fits_def demo_env_def)

lemma demo_register_bob:
  "register demo_env 2 [new_user_row demo_env 1 ann] bob =
     Inr ([new_user_row demo_env 1 ann, new_user_row demo_env 2 bob], True)"
  by (simp add: register_eq row_fits_def demo_env_def)

lemma demo_users_reachable:
  "users_reachable demo_env [new_user_row demo_env 1 ann, new_user_row demo_env 2 bob]"
proof -
  have r1: "users_reachable demo_env [new_user_row demo_env 1 ann]"
    using users_reachable.reg [where E = demo_env and uid = 1 and req = ann, OF users_reachable.init _ demo_register_ann]
    by (simp add: find_by_id_repo_def)
  show ?thesis
    using users_reachable.reg [where E = demo_env and uid = 2 and req = bob, OF r1 _ demo_register_bob]
    by (simp add: find_by_id_repo_def)
qed



theorem token_lifetimes_witness:
  "jwt_contract demo_env \<and>
   authenticate_by_token demo_env 10 (generate_access_token demo_env container_jwt 0 (user_to_domain (new_user_row demo_env 1 ann))) = Some 1"
  using demo_contract token_lifetimes [OF demo_contract, where now' = 10 and P = container_jwt and now = 0 and u = "user_to_domain (new_user_row demo_env 1 ann)"]
  by (simp add: container_jwt_def user_to_domain_def)

theorem login_then_authorized_witness:
  "jwt_contract demo_env \<and> register demo_env 1 [] ann = Inr ([new_user_row demo_env 1 ann], True) \<and>
   require_auth demo_env 100
     (Some (''Bearer '' @ generate_access_token demo_env container_jwt 0 (user_to_domain (new_user_row demo_env 1 ann)))) = Inr 1"
proof -
  let ?r = "\<lparr>jw_type = ''Bearer'',
             jw_access = generate_access_token demo_env container_jwt 0 (user_to_domain (new_user_row demo_env 1 ann)),
             jw_refresh = generate_refresh_token demo_env container_jwt 0 (user_to_domain (new_user_row demo_env 1 ann))\<rparr>"
  have li: "authenticate demo_env container_jwt 0 [new_user_row demo_env 1 ann] \<lparr>jr_login = ''ann'', jr_password = ''pw''\<rparr> = Some ?r"
    by (simp add: authenticate_def find_by_login_def find_by_login_repo_def verify_password_def
        user_to_domain_def)
  show ?thesis
    using demo_contract demo_register_ann login_then_authorized [OF demo_contract demo_register_ann, where P = container_jwt and now = 0 and r = ?r and now' = 100] li
    by (simp add: container_jwt_def)
qed

theorem refresh_after_register_witness:
  "jwt_contract demo_env \<and> register demo_env 1 [] ann = Inr ([new_user_row demo_env 1 ann], True) \<and>
   (1::nat) \<notin> set (map uent_id ([] :: user_store)) \<and>
   refresh_access_token demo_env container_jwt 5 [new_user_row demo_env 1 ann]
     (generate_access_token demo_env container_jwt 0 (user_to_domain (new_user_row demo_env 1 ann))) = None"
  using demo_contract demo_register_ann refresh_after_register [OF demo_contract demo_register_ann, where P = container_jwt and now' = 5 and now = 0]
  by simp


theorem container_token_windows_witness:
  "jwt_contract demo_env \<and>
   authenticate_by_token demo_env 900 (generate_access_token demo_env container_jwt 0 (user_to_domain (new_user_row demo_env 1 ann))) = None"
  using demo_contract container_token_windows [OF demo_contract, where t = 0 and u = "user_to_domain (new_user_row demo_env 1 ann)"]
  by simp

end
