(* ===== verification/Dto.thy ===== *)
theory Dto
  imports Service Users
begin

text \<open>
  The JSON values a request carries and a response returns, Python's view of them that the
  controllers rely on, the responses with their status codes, and the DTO mappers
  (web/mapper/game_dto_mapper.py, leaderboard_mapper.py): a game, an available game, a
  history entry and a leaderboard row as the DTO and as the JSON object the controller
  builds from it, the request DTOs with \<open>AuthMapper\<close> and \<open>JwtMapper\<close>
  (web/mapper/auth_mapper.py, jwt_mapper.py), and the text of each \<open>ValueError\<close> the game
  service raises.

  Python's dynamic behaviour on the request body is followed where the code relies on it:
  \<open>not data\<close> is JSON falsiness, \<open>"k" in data\<close> is key membership for an object,
  element membership for a list and substring search for a string and raises
  \<open>TypeError\<close> otherwise, \<open>data["k"]\<close> raises unless \<open>data\<close> is an object.
\<close>

section \<open>JSON values and Python's view of them\<close>

datatype json =
    JNull
  | JBool bool
  | JInt int
  | JNum rat
  | JStr string
  | JList "json list"
  | JObj "(string \<times> json) list"

text \<open>\<open>not data\<close>.\<close>

fun py_falsy :: "json \<Rightarrow> bool" where
  "py_falsy JNull = True"
| "py_falsy (JBool b) = (\<not> b)"
| "py_falsy (JInt i) = (i = 0)"
| "py_falsy (JNum r) = (r = 0)"
| "py_falsy (JStr s) = (s = [])"
| "py_falsy (JList xs) = (xs = [])"
| "py_falsy (JObj kvs) = (kvs = [])"

fun str_contains :: "string \<Rightarrow> string \<Rightarrow> bool" where
  "str_contains k [] = (k = [])"
| "str_contains k (c # cs) = (take (length k) (c # cs) = k \<or> str_contains k cs)"

text \<open>\<open>"k" in data\<close>; \<open>None\<close> is the \<open>TypeError\<close> of a number, a boolean or \<open>None\<close>.\<close>

fun py_contains :: "string \<Rightarrow> json \<Rightarrow> bool option" where
  "py_contains k (JObj kvs) = Some (k \<in> set (map fst kvs))"
| "py_contains k (JList xs) = Some (JStr k \<in> set xs)"
| "py_contains k (JStr s) = Some (str_contains k s)"
| "py_contains k _ = None"

text \<open>\<open>data["k"]\<close> after a successful \<open>in\<close> test: a JSON object keeps the last binding of a key.\<close>

fun py_getitem :: "string \<Rightarrow> json \<Rightarrow> json option" where
  "py_getitem k (JObj kvs) = map_of (rev kvs) k"
| "py_getitem k _ = None"

text \<open>\<open>str.lower()\<close> on ASCII letters.\<close>

definition lower_char :: "char \<Rightarrow> char" where
  "lower_char c = (let n = (of_char c :: nat) in if 65 \<le> n \<and> n \<le> 90 then char_of (n + 32) else c)"

definition py_lower :: "string \<Rightarrow> string" where
  "py_lower s = map lower_char s"

text \<open>A board cell the service can hold: a JSON integer.\<close>

fun json_int :: "json \<Rightarrow> int option" where
  "json_int (JInt i) = Some i"
| "json_int _ = None"

definition json_int_board :: "json list \<Rightarrow> board option" where
  "json_int_board rows =
     (let cells = map (\<lambda>r. case r of JList xs \<Rightarrow> map json_int xs | _ \<Rightarrow> [None]) rows
      in if list_all (list_all (\<lambda>c. c \<noteq> None)) cells then Some (map (map the) cells) else None)"

section \<open>Responses\<close>

text \<open>
  The exceptions a handler's \<open>except Exception\<close> turns into a 500: \<open>BadRequestErr\<close> is
  Flask's \<open>get_json()\<close> failing on a body that is not JSON.
\<close>

datatype py_exc = BadRequestErr | TypeErr | AttributeErr | ServiceErr service_error | DataErr | PendingRollbackErr

datatype response =
    Json nat json
  | Internal_error py_exc
  | Unmodelled

fun status :: "response \<Rightarrow> nat" where
  "status (Json n _) = n"
| "status (Internal_error _) = 500"
| "status Unmodelled = 0"

definition err :: "nat \<Rightarrow> string \<Rightarrow> response" where
  "err n msg = Json n (JObj [(''error'', JStr msg)])"

definition auth_response :: "auth_failure \<Rightarrow> response" where
  "auth_response f = (let (e, m) = auth_failure_body f in Json 401 (JObj [(''error'', JStr e), (''message'', JStr m)]))"

section \<open>GameDtoMapper and LeaderboardMapper\<close>

definition json_board :: "board \<Rightarrow> json" where
  "json_board b = JList (map (\<lambda>r. JList (map JInt r)) b)"

text \<open>\<open>str(x) if x else None\<close>: a UUID is always truthy.\<close>

definition json_uuid_opt :: "(uuid \<Rightarrow> string) \<Rightarrow> uuid option \<Rightarrow> json" where
  "json_uuid_opt us x = (case x of None \<Rightarrow> JNull | Some u \<Rightarrow> JStr (us u))"

definition game_info_fields :: "(uuid \<Rightarrow> string) \<Rightarrow> current_game \<Rightarrow> (string \<times> json) list" where
  "game_info_fields us g =
     [(''game_id'', JStr (us (game_id g))), (''board'', json_board (game_field g)),
      (''game_type'', JStr (game_type_value (game_type g))),
      (''game_state'', JStr (game_state_value (game_state g))),
      (''player1_id'', JStr (us (player1_id g))), (''player2_id'', json_uuid_opt us (player2_id g)),
      (''player1_symbol'', JInt (symbol_value (player1_symbol g))),
      (''player2_symbol'', JInt (symbol_value (player2_symbol g))),
      (''current_player_id'', json_uuid_opt us (current_player_id g)),
      (''winner_id'', json_uuid_opt us (winner_id g))]"

text \<open>
  \<open>to_game_info_dto\<close> builds the \<open>GameInfoDto\<close> (web/model/game_info_dto.py); the create,
  join, move and get handlers turn it into the game record field by field.
\<close>

record game_info_dto =
  gi_game_id :: string
  gi_board :: board
  gi_game_type :: string
  gi_game_state :: string
  gi_player1_id :: string
  gi_player2_id :: json
  gi_player1_symbol :: int
  gi_player2_symbol :: int
  gi_current_player_id :: json
  gi_winner_id :: json

definition to_game_info_dto :: "(uuid \<Rightarrow> string) \<Rightarrow> current_game \<Rightarrow> game_info_dto" where
  "to_game_info_dto us g =
     \<lparr>gi_game_id = us (game_id g), gi_board = game_field g,
      gi_game_type = game_type_value (game_type g), gi_game_state = game_state_value (game_state g),
      gi_player1_id = us (player1_id g), gi_player2_id = json_uuid_opt us (player2_id g),
      gi_player1_symbol = symbol_value (player1_symbol g), gi_player2_symbol = symbol_value (player2_symbol g),
      gi_current_player_id = json_uuid_opt us (current_player_id g),
      gi_winner_id = json_uuid_opt us (winner_id g)\<rparr>"

definition game_info_dto_json :: "game_info_dto \<Rightarrow> json" where
  "game_info_dto_json d =
     JObj [(''game_id'', JStr (gi_game_id d)), (''board'', json_board (gi_board d)),
           (''game_type'', JStr (gi_game_type d)), (''game_state'', JStr (gi_game_state d)),
           (''player1_id'', JStr (gi_player1_id d)), (''player2_id'', gi_player2_id d),
           (''player1_symbol'', JInt (gi_player1_symbol d)), (''player2_symbol'', JInt (gi_player2_symbol d)),
           (''current_player_id'', gi_current_player_id d), (''winner_id'', gi_winner_id d)]"

definition game_info_json :: "(uuid \<Rightarrow> string) \<Rightarrow> current_game \<Rightarrow> json" where
  "game_info_json us g = game_info_dto_json (to_game_info_dto us g)"

record available_game_dto =
  ag_game_id :: string
  ag_player1_id :: string
  ag_game_type :: string
  ag_player2_id :: json

definition to_available_game_dto :: "(uuid \<Rightarrow> string) \<Rightarrow> current_game \<Rightarrow> available_game_dto" where
  "to_available_game_dto us g =
     \<lparr>ag_game_id = us (game_id g), ag_player1_id = us (player1_id g),
      ag_game_type = game_type_value (game_type g), ag_player2_id = json_uuid_opt us (player2_id g)\<rparr>"

definition available_game_json :: "(uuid \<Rightarrow> string) \<Rightarrow> current_game \<Rightarrow> json" where
  "available_game_json us g =
     JObj [(''game_id'', JStr (us (game_id g))), (''player1_id'', JStr (us (player1_id g))),
           (''player2_id'', json_uuid_opt us (player2_id g)),
           (''game_type'', JStr (game_type_value (game_type g)))]"

definition history_game_json :: "(uuid \<Rightarrow> string) \<Rightarrow> (timestamp \<Rightarrow> string) \<Rightarrow> current_game \<Rightarrow> json" where
  "history_game_json us isofmt g = JObj (game_info_fields us g @ [(''created_at'', JStr (isofmt (created_at g)))])"

text \<open>\<open>to_game_history_dto\<close>: the \<open>GameHistoryDto\<close>, the fields of \<open>GameInfoDto\<close> and the
  creation time in ISO format.\<close>

record game_history_dto =
  gh_info :: game_info_dto
  gh_created_at :: string

definition to_game_history_dto ::
  "(uuid \<Rightarrow> string) \<Rightarrow> (timestamp \<Rightarrow> string) \<Rightarrow> current_game \<Rightarrow> game_history_dto" where
  "to_game_history_dto us isofmt g = \<lparr>gh_info = to_game_info_dto us g, gh_created_at = isofmt (created_at g)\<rparr>"

text \<open>
  \<open>round(win_ratio, 3)\<close>: to the nearest thousandth, ties to even. On the float this is
  exact for ratios whose decimal expansion is a binary fraction; at a tie that is not one,
  the float's binary rounding decides and the model may differ in the last digit.
\<close>

definition round3 :: "rat \<Rightarrow> rat" where
  "round3 r =
     (let x = r * 1000; f = \<lfloor>x\<rfloor>; d = x - of_int f
      in of_int (if d < 1/2 then f else if 1/2 < d then f + 1 else if even f then f else f + 1) / 1000)"

definition leader_json :: "(uuid \<Rightarrow> string) \<Rightarrow> leader_stats \<Rightarrow> json" where
  "leader_json us l =
     JObj [(''user_id'', JStr (us (ls_user_id l))), (''login'', JStr (ls_login l)),
           (''win_ratio'', JNum (round3 (ls_win_ratio l)))]"

text \<open>\<open>LeaderboardMapper.to_dto\<close>: the \<open>LeaderboardEntryDto\<close> of a row.\<close>

record leaderboard_entry_dto =
  le_user_id :: string
  le_login :: string
  le_win_ratio :: rat

definition to_leader_dto :: "(uuid \<Rightarrow> string) \<Rightarrow> leader_stats \<Rightarrow> leaderboard_entry_dto" where
  "to_leader_dto us l = \<lparr>le_user_id = us (ls_user_id l), le_login = ls_login l, le_win_ratio = round3 (ls_win_ratio l)\<rparr>"

text \<open>The text of each \<open>ValueError\<close> the game service raises.\<close>

definition service_error_message :: "(uuid \<Rightarrow> string) \<Rightarrow> uuid \<Rightarrow> service_error \<Rightarrow> string" where
  "service_error_message us gid e = (case e of
      GameNotFound \<Rightarrow> ''Game with ID '' @ us gid @ '' not found''
    | NotAvailableForJoining \<Rightarrow> ''Game is not available for joining''
    | OnlyPvpJoinable \<Rightarrow> ''Only PvP games can be joined''
    | CannotJoinOwnGame \<Rightarrow> ''Cannot join your own game''
    | GameAlreadyOver \<Rightarrow> ''Game is already over''
    | NotYourTurn \<Rightarrow> ''Not your turn''
    | InvalidBoardFormat \<Rightarrow> ''Invalid board format''
    | LimitTooSmall \<Rightarrow> ''Limit must be greater than 0''
    | LimitTooLarge \<Rightarrow> ''Limit must not exceed 100''
    | CorruptRecord \<Rightarrow> ''invalid stored game'')"


section \<open>WebGameMapper and its DTOs\<close>

text \<open>
  \<open>GameFieldDTO\<close> and \<open>CurrentGameDTO\<close> (web/model) with their \<open>to_dict\<close>/\<open>from_dict\<close>, and
  \<open>WebGameMapper\<close> (web/mapper/game_mapper.py). No route uses them. \<open>from_dict\<close> is
  \<open>None\<close> where Python raises (a missing key, a body that is not an object, a string
  \<open>UUID\<close> refuses) or where the board is not a list of lists of integers. \<open>to_domain\<close>
  calls \<open>CurrentGame(game_id=..., game_field=...)\<close> without the seven fields of the
  dataclass that have no default, so it raises \<open>TypeError\<close> on every input.
\<close>

record game_field_dto =
  gfd_board :: board

record current_game_dto =
  cgd_game_id :: uuid
  cgd_game_field :: game_field_dto

definition gfd_to_dict :: "game_field_dto \<Rightarrow> json" where
  "gfd_to_dict f = JObj [(''board'', json_board (gfd_board f))]"

definition gfd_from_dict :: "json \<Rightarrow> game_field_dto option" where
  "gfd_from_dict d =
     (case py_getitem ''board'' d of
        Some (JList rows) \<Rightarrow> map_option (\<lambda>b. \<lparr>gfd_board = b\<rparr>) (json_int_board rows)
      | _ \<Rightarrow> None)"

definition cgd_to_dict :: "(uuid \<Rightarrow> string) \<Rightarrow> current_game_dto \<Rightarrow> json" where
  "cgd_to_dict us c = JObj [(''game_id'', JStr (us (cgd_game_id c))), (''game_field'', gfd_to_dict (cgd_game_field c))]"

definition cgd_from_dict :: "(string \<Rightarrow> uuid option) \<Rightarrow> json \<Rightarrow> current_game_dto option" where
  "cgd_from_dict up d =
     (case py_getitem ''game_id'' d of
        Some (JStr s) \<Rightarrow>
          (case up s of
             None \<Rightarrow> None
           | Some u \<Rightarrow> (case py_getitem ''game_field'' d of
                          None \<Rightarrow> None
                        | Some f \<Rightarrow> map_option (\<lambda>gf. \<lparr>cgd_game_id = u, cgd_game_field = gf\<rparr>) (gfd_from_dict f)))
      | _ \<Rightarrow> None)"

definition web_to_dto :: "current_game \<Rightarrow> current_game_dto" where
  "web_to_dto g = \<lparr>cgd_game_id = game_id g, cgd_game_field = \<lparr>gfd_board = game_field g\<rparr>\<rparr>"

definition web_to_domain :: "current_game_dto \<Rightarrow> py_exc + current_game" where
  "web_to_domain d = Inl TypeErr"

section \<open>AuthMapper and JwtMapper\<close>

text \<open>
  The request DTOs of web/model (\<open>SignUpRequestDto\<close>, \<open>RefreshJwtRequestDto\<close>; the
  \<open>JwtRequestDto\<close> is \<open>Users.jwt_request\<close>) and the mappers between them and the domain:
  \<open>to_sign_up_request\<close>, \<open>to_jwt_request\<close>, \<open>to_jwt_response_dto\<close>,
  \<open>to_refresh_jwt_request\<close>.
\<close>

record sign_up_request_dto =
  sd_login :: string
  sd_password :: string

record refresh_jwt_request_dto =
  rd_refresh_token :: string

definition to_sign_up_request :: "sign_up_request_dto \<Rightarrow> sign_up_request" where
  "to_sign_up_request d = \<lparr>su_login = sd_login d, su_password = sd_password d\<rparr>"

definition to_jwt_request :: "jwt_request \<Rightarrow> string \<times> string" where
  "to_jwt_request d = (jr_login d, jr_password d)"

definition to_jwt_response_dto :: "string \<Rightarrow> string \<Rightarrow> string \<Rightarrow> jwt_response" where
  "to_jwt_response_dto ty a r = \<lparr>jw_type = ty, jw_access = a, jw_refresh = r\<rparr>"

definition to_refresh_jwt_request :: "refresh_jwt_request_dto \<Rightarrow> string" where
  "to_refresh_jwt_request d = rd_refresh_token d"

section \<open>Lemmas\<close>

lemma json_board_read: "json_int_board (map (\<lambda>r. JList (map JInt r)) b) = Some b"
  by (simp add: json_int_board_def list_all_iff comp_def map_idI)

lemma game_info_json_fields: "game_info_json us g = JObj (game_info_fields us g)"
  by (simp add: game_info_json_def game_info_dto_json_def to_game_info_dto_def game_info_fields_def)

lemma available_game_json_dto:
  "available_game_json us g =
     JObj [(''game_id'', JStr (ag_game_id (to_available_game_dto us g))),
           (''player1_id'', JStr (ag_player1_id (to_available_game_dto us g))),
           (''player2_id'', ag_player2_id (to_available_game_dto us g)),
           (''game_type'', JStr (ag_game_type (to_available_game_dto us g)))]"
  by (simp add: available_game_json_def to_available_game_dto_def)

lemma history_game_json_dto:
  "history_game_json us isofmt g =
     (case game_info_dto_json (gh_info (to_game_history_dto us isofmt g)) of
        JObj kvs \<Rightarrow> JObj (kvs @ [(''created_at'', JStr (gh_created_at (to_game_history_dto us isofmt g)))])
      | j \<Rightarrow> j)"
  by (simp add: history_game_json_def to_game_history_dto_def game_info_dto_json_def to_game_info_dto_def
      game_info_fields_def)

lemma leader_json_dto:
  "leader_json us l =
     JObj [(''user_id'', JStr (le_user_id (to_leader_dto us l))), (''login'', JStr (le_login (to_leader_dto us l))),
           (''win_ratio'', JNum (le_win_ratio (to_leader_dto us l)))]"
  by (simp add: leader_json_def to_leader_dto_def)

lemma to_sign_up_request_fields [simp]:
  "to_sign_up_request \<lparr>sd_login = l, sd_password = p\<rparr> = \<lparr>su_login = l, su_password = p\<rparr>"
  by (simp add: to_sign_up_request_def)

lemma to_refresh_jwt_request_field [simp]: "to_refresh_jwt_request \<lparr>rd_refresh_token = t\<rparr> = t"
  by (simp add: to_refresh_jwt_request_def)

lemma jwt_mapper_roundtrip:
  "to_jwt_response_dto (jw_type r) (jw_access r) (jw_refresh r) = r \<and>
   to_jwt_request \<lparr>jr_login = l, jr_password = p\<rparr> = (l, p)"
  by (simp add: to_jwt_response_dto_def to_jwt_request_def)

lemma cgd_dict_roundtrip:
  "up (us (cgd_game_id c)) = Some (cgd_game_id c) \<Longrightarrow> cgd_from_dict up (cgd_to_dict us c) = Some c"
  by (simp add: cgd_from_dict_def cgd_to_dict_def gfd_from_dict_def gfd_to_dict_def json_board_def
      json_board_read)

lemma web_to_dto_dict:
  "up (us (game_id g)) = Some (game_id g) \<Longrightarrow>
   cgd_from_dict up (cgd_to_dict us (web_to_dto g)) = Some (web_to_dto g)"
  by (rule cgd_dict_roundtrip) (simp add: web_to_dto_def)

section \<open>Rounding of the win ratio\<close>

text \<open>
  \<open>round(win_ratio, 3)\<close> as modelled moves the ratio by at most half a thousandth,
  lands on a multiple of a thousandth, and keeps a ratio in [0, 1] in [0, 1].
\<close>

theorem round3_bounds:
  "\<bar>round3 r - r\<bar> \<le> 1 / 2000 \<and> of_int \<lfloor>round3 r * 1000\<rfloor> = round3 r * 1000 \<and>
   (0 \<le> r \<longrightarrow> 0 \<le> round3 r) \<and> (r \<le> 1 \<longrightarrow> round3 r \<le> 1)"
proof -
  define x where "x = r * 1000"
  define f where "f = \<lfloor>x\<rfloor>"
  define n where "n = (if x - of_int f < 1/2 then f else if 1/2 < x - of_int f then f + 1 else if even f then f else f + 1)"
  have fl: "of_int f \<le> x" "x < of_int f + 1" using f_def by linarith+
  have r3: "round3 r = of_int n / 1000" by (simp add: round3_def Let_def x_def f_def n_def)
  have near: "\<bar>of_int n - x\<bar> \<le> 1/2" using fl by (auto simp: n_def)
  have e: "round3 r - r = (of_int n - x) / 1000" by (simp add: r3 x_def field_simps)
  have "\<bar>round3 r - r\<bar> = \<bar>of_int n - x\<bar> / 1000" unfolding e abs_divide by simp
  then have a: "\<bar>round3 r - r\<bar> \<le> 1 / 2000" using near by (simp add: field_simps)
  have b: "of_int \<lfloor>round3 r * 1000\<rfloor> = round3 r * 1000" by (simp add: r3)
  have c: "0 \<le> r \<longrightarrow> 0 \<le> round3 r"
  proof
    assume "0 \<le> r"
    then have "0 \<le> f" using f_def x_def by simp
    then show "0 \<le> round3 r" by (simp add: r3 n_def)
  qed
  have d: "r \<le> 1 \<longrightarrow> round3 r \<le> 1"
  proof
    assume "r \<le> 1"
    then have x1: "x \<le> 1000" by (simp add: x_def)
    then have "f \<le> 1000" using fl by linarith
    moreover have "f = 1000 \<Longrightarrow> n = 1000" using fl x1 by (simp add: n_def)
    ultimately have "n \<le> 1000" by (cases "f = 1000") (auto simp: n_def)
    then show "round3 r \<le> 1" by (simp add: r3)
  qed
  show ?thesis using a b c d by blast
qed

theorem round3_bounds_witness:
  "round3 (2/3) = 667/1000 \<and> 0 \<le> round3 (2/3) \<and> round3 (2/3) \<le> 1"
proof -
  have "round3 (2/3) = 667/1000" by code_simp
  then show ?thesis using round3_bounds [of "2/3"] by simp
qed

end
