(* ===== verification/Web.thy ===== *)
theory Web
  imports Dto
begin

text \<open>
  The HTTP layer: the routes of \<open>GameController\<close>, \<open>AuthController\<close> and
  \<open>UserController\<close> (web/route/) with their status codes, the auth DTOs
  (web/mapper/jwt_mapper.py, auth_mapper.py), and \<open>handle_request\<close>, the whole application
  as one step from the state (the games table and the users table) and a request to the new
  state and the response: \<open>require_auth\<close> first on the protected routes, then the route's own
  checks, then the service call, then the mapper.

  Every exception that reaches a handler's \<open>except Exception\<close> is a 500
  (\<open>Internal_error\<close>, whose \<open>str(e)\<close> text the model does not spell out); a
  \<open>ValueError\<close> from the service is a 400 where the handler catches it. Values the code
  passes on without looking at their type and that the int-valued board and string-valued
  credentials of the model cannot hold (a board cell that is not an integer, a login that is
  not a string) give \<open>Unmodelled\<close>.
\<close>

section \<open>The application state and requests\<close>

record app_state =
  games :: game_store
  users :: user_store

text \<open>
  A request as the handlers see it: the \<open>Authorization\<close> header and the body as
  \<open>request.get_json()\<close> parses it (\<open>None\<close> when it is not JSON, where \<open>get_json\<close> raises).
\<close>

record http_request =
  req_auth :: "string option"
  req_body :: "json option"

text \<open>\<open>if not data or "k" not in data\<close>, for the keys of a route in order: \<open>Some True\<close> when a
  key is missing, \<open>None\<close> when a test raises.\<close>

fun missing_keys :: "string list \<Rightarrow> json \<Rightarrow> bool option" where
  "missing_keys [] d = Some False"
| "missing_keys (k # ks) d =
     (case py_contains k d of None \<Rightarrow> None | Some False \<Rightarrow> Some True | Some True \<Rightarrow> missing_keys ks d)"

definition body_check :: "string list \<Rightarrow> json option \<Rightarrow> (json option) option" where
  "body_check ks b =
     (case b of
        None \<Rightarrow> None
      | Some d \<Rightarrow> if py_falsy d then Some None
                  else (case missing_keys ks d of None \<Rightarrow> None | Some True \<Rightarrow> Some None | Some False \<Rightarrow> Some (Some d)))"

section \<open>GameController\<close>

definition game_json_response :: "auth_env \<Rightarrow> nat \<Rightarrow> current_game \<Rightarrow> response" where
  "game_json_response E n g = Json n (game_info_json (uuid_str E) g)"

definition create_game_route ::
  "auth_env \<Rightarrow> timestamp \<Rightarrow> uuid \<Rightarrow> game_store \<Rightarrow> uuid \<Rightarrow> json option \<Rightarrow> game_store \<times> response" where
  "create_game_route E now gid st pid body =
     (case body_check [''game_type''] body of
        None \<Rightarrow> (st, Internal_error (if body = None then BadRequestErr else TypeErr))
      | Some None \<Rightarrow> (st, err 400 ''game_type is required'')
      | Some (Some d) \<Rightarrow>
          (case py_getitem ''game_type'' d of
             None \<Rightarrow> (st, Internal_error TypeErr)
           | Some (JStr s) \<Rightarrow>
               (let l = py_lower s in
                if l \<notin> set [''pvp'', ''pvc''] then (st, err 400 ''game_type must be \"pvp\" or \"pvc\"'')
                else (case create_game st gid now pid (if l = ''pvp'' then PVP else PVC) of
                        Inl e \<Rightarrow> (st, Internal_error (ServiceErr e))
                      | Inr (st', g) \<Rightarrow> (st', game_json_response E 201 g)))
           | Some _ \<Rightarrow> (st, Internal_error AttributeErr)))"

definition available_games_route :: "auth_env \<Rightarrow> game_store \<Rightarrow> response" where
  "available_games_route E st =
     (case get_available_games_svc st of
        Inl e \<Rightarrow> Internal_error (ServiceErr e)
      | Inr gs \<Rightarrow> Json 200 (JObj [(''games'', JList (map (available_game_json (uuid_str E)) gs))]))"

definition join_game_route ::
  "auth_env \<Rightarrow> game_store \<Rightarrow> uuid \<Rightarrow> string \<Rightarrow> game_store \<times> response" where
  "join_game_route E st pid gs =
     (case uuid_parse E gs of
        None \<Rightarrow> (st, err 400 ''Invalid game_id format'')
      | Some gid \<Rightarrow>
          (case join_game st gid pid of
             Inl e \<Rightarrow> (st, err 400 (service_error_message (uuid_str E) gid e))
           | Inr (st', g) \<Rightarrow> (st', game_json_response E 200 g)))"

definition rows_3x3 :: "json list \<Rightarrow> bool" where
  "rows_3x3 rows \<longleftrightarrow>
     length rows = 3 \<and> list_all (\<lambda>r. case r of JList xs \<Rightarrow> length xs = 3 | _ \<Rightarrow> False) rows"

definition make_move_route ::
  "auth_env \<Rightarrow> game_store \<Rightarrow> uuid \<Rightarrow> string \<Rightarrow> json option \<Rightarrow> game_store \<times> response" where
  "make_move_route E st pid gs body =
     (case body_check [''board''] body of
        None \<Rightarrow> (st, Internal_error (if body = None then BadRequestErr else TypeErr))
      | Some None \<Rightarrow> (st, err 400 ''board is required'')
      | Some (Some d) \<Rightarrow>
          (case py_getitem ''board'' d of
             None \<Rightarrow> (st, Internal_error TypeErr)
           | Some (JList rows) \<Rightarrow>
               if \<not> rows_3x3 rows then (st, err 400 ''board must be a 3x3 array'')
               else (case uuid_parse E gs of
                       None \<Rightarrow> (st, err 400 ''Invalid game_id format'')
                     | Some gid \<Rightarrow>
                         (case json_int_board rows of
                            None \<Rightarrow> (st, Unmodelled)
                          | Some b \<Rightarrow>
                              (case make_move st gid pid b of
                                 Inl e \<Rightarrow> (st, err 400 (service_error_message (uuid_str E) gid e))
                               | Inr (st', g) \<Rightarrow> (st', game_json_response E 200 g))))
           | Some _ \<Rightarrow> (st, err 400 ''board must be a 3x3 array'')))"

text \<open>
  \<open>GameServiceImpl.get_game\<close> answers \<open>None\<close> for a missing row and raises when
  \<open>to_domain\<close> cannot read the row: \<open>load_game\<close> has exactly these two outcomes.
\<close>

definition get_game_route :: "auth_env \<Rightarrow> game_store \<Rightarrow> string \<Rightarrow> response" where
  "get_game_route E st gs =
     (case uuid_parse E gs of
        None \<Rightarrow> err 400 ''Invalid game_id format''
      | Some gid \<Rightarrow> (case load_game st gid of
                      Inl GameNotFound \<Rightarrow> err 404 ''Game not found''
                    | Inl e \<Rightarrow> Internal_error (ServiceErr e)
                    | Inr g \<Rightarrow> game_json_response E 200 g))"

definition game_history_route ::
  "auth_env \<Rightarrow> (timestamp \<Rightarrow> string) \<Rightarrow> game_store \<Rightarrow> uuid \<Rightarrow> response" where
  "game_history_route E isofmt st uid =
     (case get_completed_games_by_user_svc st uid of
        Inl e \<Rightarrow> Internal_error (ServiceErr e)
      | Inr gs \<Rightarrow> Json 200 (JObj [(''games'', JList (map (history_game_json (uuid_str E) isofmt) gs))]))"

text \<open>\<open>request.args.get("limit", default=10, type=int)\<close>: an absent or non-integer argument is 10.\<close>

definition leaderboard_route ::
  "auth_env \<Rightarrow> game_store \<Rightarrow> user_store \<Rightarrow> int option \<Rightarrow> response" where
  "leaderboard_route E st ust arg =
     (let limit = (case arg of None \<Rightarrow> 10 | Some l \<Rightarrow> l) in
      if limit < 1 then err 400 ''limit must be greater than 0''
      else if limit > 100 then err 400 ''limit must not exceed 100''
      else (case get_leaderboard (\<lambda>u. map_option login (find_by_id ust u)) (uuid_str E) st limit of
              Inl e \<Rightarrow> err 400 (service_error_message (uuid_str E) 0 e)
            | Inr ls \<Rightarrow> Json 200 (JObj [(''leaderboard'', JList (map (leader_json (uuid_str E)) ls))])))"

section \<open>AuthController and UserController\<close>

definition success_json :: "bool \<Rightarrow> string \<Rightarrow> json" where
  "success_json b m = JObj [(''success'', JBool b), (''message'', JStr m)]"

definition jwt_response_json :: "jwt_response \<Rightarrow> json" where
  "jwt_response_json r = JObj [(''type'', JStr (jw_type r)), (''access_token'', JStr (jw_access r)),
                               (''refresh_token'', JStr (jw_refresh r))]"

text \<open>
  \<open>register\<close>: a login that is not a string is handed to the database query unchecked
  (\<open>Unmodelled\<close>); a password that is not a string makes \<open>_hash_password\<close> raise
  \<open>AttributeError\<close>, which \<open>AuthService.register\<close> does not catch, once the login is free.
\<close>

definition register_route ::
  "auth_env \<Rightarrow> uuid \<Rightarrow> user_store \<Rightarrow> json option \<Rightarrow> user_store \<times> response" where
  "register_route E uid ust body =
     (case body_check [''login'', ''password''] body of
        None \<Rightarrow> (ust, Internal_error (if body = None then BadRequestErr else TypeErr))
      | Some None \<Rightarrow> (ust, Json 400 (success_json False ''Login or password are required''))
      | Some (Some d) \<Rightarrow>
          (case (py_getitem ''login'' d, py_getitem ''password'' d) of
             (Some (JStr l), Some (JStr p)) \<Rightarrow>
               (case register E uid ust (to_sign_up_request \<lparr>sd_login = l, sd_password = p\<rparr>) of
                  Inl _ \<Rightarrow> (ust, Internal_error DataErr)
                | Inr (ust', ok) \<Rightarrow>
                    if ok then (ust', Json 200 (success_json True ''User registered successfully''))
                    else (ust', Json 400 (success_json False ''Login already exists'')))
           | (Some (JStr l), Some _) \<Rightarrow>
               (if find_by_login_repo ust l \<noteq> None then (ust, Json 400 (success_json False ''Login already exists''))
                else (ust, Internal_error AttributeErr))
           | (Some _, Some _) \<Rightarrow> (ust, Unmodelled)
           | _ \<Rightarrow> (ust, Internal_error TypeErr)))"

text \<open>
  \<open>login\<close>: a password that is not a string makes \<open>verify_password\<close> raise inside
  \<open>authenticate\<close>'s \<open>try\<close>, which answers \<open>None\<close>: the credentials are invalid.
\<close>

definition login_route ::
  "auth_env \<Rightarrow> jwt_provider \<Rightarrow> timestamp \<Rightarrow> user_store \<Rightarrow> json option \<Rightarrow> response" where
  "login_route E P now ust body =
     (case body_check [''login'', ''password''] body of
        None \<Rightarrow> Internal_error (if body = None then BadRequestErr else TypeErr)
      | Some None \<Rightarrow> err 400 ''Login and password are required''
      | Some (Some d) \<Rightarrow>
          (case (py_getitem ''login'' d, py_getitem ''password'' d) of
             (Some (JStr l), Some pj) \<Rightarrow>
               (let res = (case pj of
                            JStr p \<Rightarrow> authenticate E P now ust \<lparr>jr_login = l, jr_password = p\<rparr>
                          | _ \<Rightarrow> None) in
                case res of
                  None \<Rightarrow> err 401 ''Invalid credentials''
                | Some r \<Rightarrow> Json 200 (jwt_response_json r))
           | (Some _, Some _) \<Rightarrow> Unmodelled
           | _ \<Rightarrow> Internal_error TypeErr))"

definition refresh_route ::
  "(string \<Rightarrow> jwt_response option) \<Rightarrow> json option \<Rightarrow> response" where
  "refresh_route f body =
     (case body_check [''refresh_token''] body of
        None \<Rightarrow> Internal_error (if body = None then BadRequestErr else TypeErr)
      | Some None \<Rightarrow> err 400 ''Refresh token is required''
      | Some (Some d) \<Rightarrow>
          (case py_getitem ''refresh_token'' d of
             Some (JStr t) \<Rightarrow> (case f (to_refresh_jwt_request \<lparr>rd_refresh_token = t\<rparr>) of
                                 None \<Rightarrow> err 401 ''Invalid or expired refresh token''
                               | Some r \<Rightarrow> Json 200 (jwt_response_json r))
           | Some _ \<Rightarrow> Unmodelled
           | None \<Rightarrow> Internal_error TypeErr))"

definition user_json :: "auth_env \<Rightarrow> user \<Rightarrow> json" where
  "user_json E u = JObj [(''user_id'', JStr (uuid_str E (user_id u))), (''login'', JStr (login u))]"

definition me_route :: "auth_env \<Rightarrow> user_store \<Rightarrow> uuid \<Rightarrow> response" where
  "me_route E ust uid =
     (case find_by_id ust uid of None \<Rightarrow> err 404 ''User not found'' | Some u \<Rightarrow> Json 200 (user_json E u))"

definition user_info_route :: "auth_env \<Rightarrow> user_store \<Rightarrow> string \<Rightarrow> response" where
  "user_info_route E ust s =
     (case uuid_parse E s of
        None \<Rightarrow> err 400 ''Invalid user_id format''
      | Some uid \<Rightarrow> (case find_by_id ust uid of
                      None \<Rightarrow> err 404 ''User not found''
                    | Some u \<Rightarrow> Json 200 (user_json E u)))"

section \<open>The application\<close>

datatype route =
    CreateGame | AvailableGames | JoinGame string | MakeMove string | GetGame string | GameHistory
  | Leaderboard "int option" | Register | Login | RefreshAccess | Refresh | Me | UserInfo string

text \<open>
  URL routing. Each controller registers its rules on a blueprint with a URL prefix
  (\<open>/auth\<close>, \<open>/user\<close>, \<open>/game\<close>) and \<open>create_app\<close> registers the three blueprints. Werkzeug
  matches a path segment by segment: a static segment wins over a \<open><name>\<close> placeholder,
  which matches any non-empty segment, and a rule whose path matches but whose method does
  not is passed over for the next one. \<open>None\<close> is Flask's own 404 or 405 page. Only GET and
  POST are modelled, and paths without a trailing slash; the leaderboard's \<open>limit\<close> comes
  from the query string, already converted (\<open>lmt\<close>).
\<close>

fun split_on :: "char \<Rightarrow> string \<Rightarrow> string list" where
  "split_on d [] = [[]]"
| "split_on d (c # cs) =
     (if c = d then [] # split_on d cs
      else (case split_on d cs of s # ss \<Rightarrow> (c # s) # ss | [] \<Rightarrow> [[c]]))"

definition dispatch_auth :: "string \<Rightarrow> string \<Rightarrow> route option" where
  "dispatch_auth m seg =
     (if m = ''POST'' \<and> seg = ''register'' then Some Register
      else if m = ''POST'' \<and> seg = ''login'' then Some Login
      else if m = ''POST'' \<and> seg = ''refresh-access'' then Some RefreshAccess
      else if m = ''POST'' \<and> seg = ''refresh'' then Some Refresh
      else if m = ''GET'' \<and> seg = ''me'' then Some Me
      else None)"

definition dispatch_user :: "string \<Rightarrow> string \<Rightarrow> route option" where
  "dispatch_user m seg = (if m = ''GET'' \<and> seg \<noteq> [] then Some (UserInfo seg) else None)"

definition dispatch_game :: "string \<Rightarrow> string list \<Rightarrow> int option \<Rightarrow> route option" where
  "dispatch_game m segs lmt =
     (case segs of
        [s] \<Rightarrow>
          if m = ''POST'' \<and> s = ''create'' then Some CreateGame
          else if m = ''GET'' \<and> s = ''available'' then Some AvailableGames
          else if m = ''GET'' \<and> s = ''history'' then Some GameHistory
          else if m = ''GET'' \<and> s = ''leaderboard'' then Some (Leaderboard lmt)
          else if m = ''GET'' \<and> s \<noteq> [] then Some (GetGame s)
          else None
      | [g, a] \<Rightarrow>
          if g = [] then None
          else if m = ''POST'' \<and> a = ''join'' then Some (JoinGame g)
          else if m = ''POST'' \<and> a = ''move'' then Some (MakeMove g)
          else None
      | _ \<Rightarrow> None)"

definition dispatch :: "string \<Rightarrow> string \<Rightarrow> int option \<Rightarrow> route option" where
  "dispatch m path lmt =
     (case split_on CHR ''/'' path of
        [] # p # rest \<Rightarrow>
          if p = ''auth'' then (case rest of [s] \<Rightarrow> dispatch_auth m s | _ \<Rightarrow> None)
          else if p = ''user'' then (case rest of [s] \<Rightarrow> dispatch_user m s | _ \<Rightarrow> None)
          else if p = ''game'' then dispatch_game m rest lmt
          else None
      | _ \<Rightarrow> None)"

text \<open>The request line a client sends for each endpoint.\<close>

fun request_line :: "route \<Rightarrow> string \<times> string" where
  "request_line CreateGame = (''POST'', ''/game/create'')"
| "request_line AvailableGames = (''GET'', ''/game/available'')"
| "request_line (JoinGame g) = (''POST'', ''/game/'' @ g @ ''/join'')"
| "request_line (MakeMove g) = (''POST'', ''/game/'' @ g @ ''/move'')"
| "request_line (GetGame g) = (''GET'', ''/game/'' @ g)"
| "request_line GameHistory = (''GET'', ''/game/history'')"
| "request_line (Leaderboard l) = (''GET'', ''/game/leaderboard'')"
| "request_line Register = (''POST'', ''/auth/register'')"
| "request_line Login = (''POST'', ''/auth/login'')"
| "request_line RefreshAccess = (''POST'', ''/auth/refresh-access'')"
| "request_line Refresh = (''POST'', ''/auth/refresh'')"
| "request_line Me = (''GET'', ''/auth/me'')"
| "request_line (UserInfo u) = (''GET'', ''/user/'' @ u)"

text \<open>A path parameter a client can use: non-empty, no slash, and for \<open>GET /game/<id>\<close> not
  one of the static words of the blueprint.\<close>

fun route_ok :: "route \<Rightarrow> bool" where
  "route_ok (JoinGame g) = (g \<noteq> [] \<and> CHR ''/'' \<notin> set g)"
| "route_ok (MakeMove g) = (g \<noteq> [] \<and> CHR ''/'' \<notin> set g)"
| "route_ok (GetGame g) = (g \<noteq> [] \<and> CHR ''/'' \<notin> set g \<and> g \<notin> set [''create'', ''available'', ''history'', ''leaderboard''])"
| "route_ok (UserInfo u) = (u \<noteq> [] \<and> CHR ''/'' \<notin> set u)"
| "route_ok _ = True"

text \<open>
  One request: the public auth routes directly, every other route behind \<open>require_auth\<close>,
  whose refusal answers before anything is read or written. \<open>nid\<close> is the \<open>uuid4()\<close> a
  creation draws, \<open>now\<close> the clock.
\<close>

definition handle_request ::
  "auth_env \<Rightarrow> jwt_provider \<Rightarrow> (timestamp \<Rightarrow> string) \<Rightarrow> timestamp \<Rightarrow> uuid \<Rightarrow>
   app_state \<Rightarrow> route \<Rightarrow> http_request \<Rightarrow> app_state \<times> response" where
  "handle_request E P isofmt now nid st r req =
     (case r of
        Register \<Rightarrow> (let (u', resp) = register_route E nid (users st) (req_body req) in (st\<lparr>users := u'\<rparr>, resp))
      | Login \<Rightarrow> (st, login_route E P now (users st) (req_body req))
      | RefreshAccess \<Rightarrow> (st, refresh_route (refresh_access_token E P now (users st)) (req_body req))
      | Refresh \<Rightarrow> (st, refresh_route (refresh_refresh_token E P now (users st)) (req_body req))
      | _ \<Rightarrow>
          (case require_auth E now (req_auth req) of
             Inl f \<Rightarrow> (st, auth_response f)
           | Inr uid \<Rightarrow>
               (case r of
                  CreateGame \<Rightarrow> (let (g', resp) = create_game_route E now nid (games st) uid (req_body req)
                                 in (st\<lparr>games := g'\<rparr>, resp))
                | JoinGame s \<Rightarrow> (let (g', resp) = join_game_route E (games st) uid s in (st\<lparr>games := g'\<rparr>, resp))
                | MakeMove s \<Rightarrow> (let (g', resp) = make_move_route E (games st) uid s (req_body req)
                                in (st\<lparr>games := g'\<rparr>, resp))
                | AvailableGames \<Rightarrow> (st, available_games_route E (games st))
                | GetGame s \<Rightarrow> (st, get_game_route E (games st) s)
                | GameHistory \<Rightarrow> (st, game_history_route E isofmt (games st) uid)
                | Leaderboard a \<Rightarrow> (st, leaderboard_route E (games st) (users st) a)
                | Me \<Rightarrow> (st, me_route E (users st) uid)
                | UserInfo s \<Rightarrow> (st, user_info_route E (users st) s)
                | _ \<Rightarrow> (st, Unmodelled))))"

text \<open>
  The states the application reaches from empty tables, one request at a time; each
  request draws a \<open>uuid4()\<close> that names no row yet.
\<close>

inductive app_reachable ::
  "auth_env \<Rightarrow> jwt_provider \<Rightarrow> (timestamp \<Rightarrow> string) \<Rightarrow> app_state \<Rightarrow> bool" for E P isofmt where
  init: "app_reachable E P isofmt \<lparr>games = [], users = []\<rparr>"
| step: "app_reachable E P isofmt st \<Longrightarrow> map_of (games st) nid = None \<Longrightarrow>
         find_by_id_repo (users st) nid = None \<Longrightarrow>
         app_reachable E P isofmt (fst (handle_request E P isofmt now nid st r req))"

text \<open>
  The bodies a client that follows the API sends: each field a route reads is present,
  with the JSON type the code expects of it (a string, or a list of rows of integers for
  the board; the login route accepts a password of any type).
\<close>

fun json_is_str :: "json \<Rightarrow> bool" where
  "json_is_str (JStr _) = True"
| "json_is_str _ = False"

definition json_int_cells :: "json \<Rightarrow> bool" where
  "json_int_cells j =
     (case j of
        JList rows \<Rightarrow> list_all (\<lambda>r. case r of JList xs \<Rightarrow> list_all (\<lambda>c. json_int c \<noteq> None) xs | _ \<Rightarrow> True) rows
      | _ \<Rightarrow> True)"

definition field_typed :: "string \<Rightarrow> (json \<Rightarrow> bool) \<Rightarrow> json option \<Rightarrow> bool" where
  "field_typed k T b =
     (case b of Some (JObj kvs) \<Rightarrow> (case map_of (rev kvs) k of Some v \<Rightarrow> T v | None \<Rightarrow> False) | _ \<Rightarrow> False)"

definition body_typed :: "route \<Rightarrow> json option \<Rightarrow> bool" where
  "body_typed r b =
     (case r of
        CreateGame \<Rightarrow> field_typed ''game_type'' json_is_str b
      | MakeMove _ \<Rightarrow> field_typed ''board'' json_int_cells b
      | Register \<Rightarrow> field_typed ''login'' json_is_str b \<and> field_typed ''password'' json_is_str b
      | Login \<Rightarrow> field_typed ''login'' json_is_str b \<and> field_typed ''password'' (\<lambda>_. True) b
      | RefreshAccess \<Rightarrow> field_typed ''refresh_token'' json_is_str b
      | Refresh \<Rightarrow> field_typed ''refresh_token'' json_is_str b
      | _ \<Rightarrow> True)"

text \<open>A response the application answers as intended: JSON, with a status below 500.\<close>

fun answered :: "response \<Rightarrow> bool" where
  "answered (Json n _) = (n < 500)"
| "answered _ = False"

text \<open>
  The requests of the scenarios below: a short-lived token pair, the empty application,
  and Ann's bearer header issued at time 0 for the user with id 1.
\<close>

abbreviation demo_jwt :: jwt_provider where
  "demo_jwt \<equiv> \<lparr>access_expires = 5, refresh_expires = 9\<rparr>"

abbreviation empty_app :: app_state where
  "empty_app \<equiv> \<lparr>games = [], users = []\<rparr>"

abbreviation bearer_ann :: "string option" where
  "bearer_ann \<equiv> Some (''Bearer '' @ generate_access_token demo_env demo_jwt 0 (user_to_domain (new_user_row demo_env 1 ann)))"

section \<open>What each route writes\<close>

lemma create_game_route_write:
  "create_game_route E now gid st pid body = (st', resp) \<Longrightarrow>
   st' = st \<or> (\<exists>t g. create_game st gid now pid t = Inr (st', g))"
  by (auto simp: create_game_route_def Let_def
           split: option.splits json.splits sum.splits prod.splits if_splits)

lemma join_game_route_write:
  "join_game_route E st pid s = (st', resp) \<Longrightarrow> st' = st \<or> (\<exists>gid g. join_game st gid pid = Inr (st', g))"
  by (auto simp: join_game_route_def split: option.splits sum.splits prod.splits)

lemma make_move_route_write:
  "make_move_route E st pid s body = (st', resp) \<Longrightarrow>
   st' = st \<or> (\<exists>gid b g. make_move st gid pid b = Inr (st', g))"
  by (auto simp: make_move_route_def
           split: option.splits json.splits sum.splits prod.splits if_splits)

lemma register_Inr_False: "register E uid ust q = Inr (ust', False) \<Longrightarrow> ust' = ust"
  by (simp add: register_eq split: if_splits)

lemma register_route_write:
  "register_route E uid ust body = (ust', resp) \<Longrightarrow> ust' = ust \<or> (\<exists>req. register E uid ust req = Inr (ust', True))"
  by (auto simp: register_route_def split: option.splits json.splits prod.splits if_splits sum.splits
      dest: register_Inr_False)

lemma handle_request_games:
  assumes h: "handle_request E P isofmt now nid st r req = (st', resp)"
    and fresh: "map_of (games st) nid = None"
  shows "games st' = games st \<or> service_step (games st) (games st')"
  using h fresh
  by (auto simp: handle_request_def split: route.splits sum.splits prod.splits
           dest!: create_game_route_write join_game_route_write make_move_route_write
           intro: service_step.intros)

lemma handle_request_users:
  "handle_request E P isofmt now nid st r req = (st', resp) \<Longrightarrow>
   users st' = users st \<or> (\<exists>q. register E nid (users st) q = Inr (users st', True))"
  by (auto simp: handle_request_def split: route.splits sum.splits prod.splits
           dest!: register_route_write)

section \<open>Well-typed requests\<close>

lemma missing_keys_obj: "missing_keys ks (JObj kvs) = Some (\<not> set ks \<subseteq> fst ` set kvs)"
  by (induction ks) (auto simp: image_iff split: bool.split)

lemma field_typed_D:
  "field_typed k T b \<Longrightarrow>
   \<exists>kvs v. b = Some (JObj kvs) \<and> kvs \<noteq> [] \<and> k \<in> fst ` set kvs \<and> py_getitem k (JObj kvs) = Some v \<and> T v"
proof -
  assume "field_typed k T b"
  then obtain kvs v where b: "b = Some (JObj kvs)" and m: "map_of (rev kvs) k = Some v" and "T v"
    by (auto simp: field_typed_def split: option.splits json.splits)
  moreover from m have "(k, v) \<in> set kvs" by (auto dest: map_of_SomeD)
  ultimately show ?thesis by (auto intro: rev_image_eqI)
qed

lemma body_check_obj:
  "kvs \<noteq> [] \<Longrightarrow> set ks \<subseteq> fst ` set kvs \<Longrightarrow> body_check ks (Some (JObj kvs)) = Some (Some (JObj kvs))"
  by (simp add: body_check_def missing_keys_obj)

lemma json_int_board_Some:
  "json_int_cells (JList rows) \<Longrightarrow> rows_3x3 rows \<Longrightarrow> \<exists>b. json_int_board rows = Some b"
  by (auto simp: json_int_cells_def rows_3x3_def json_int_board_def list_all_iff split: json.splits)
    (metis option.distinct(1))

lemma svc_queries_Inr:
  assumes "store_inv st"
  shows "\<exists>gs. get_available_games_svc st = Inr gs" "\<exists>gs. get_completed_games_by_user_svc st u = Inr gs"
  using rows_to_domain [of st] assms
  by (auto simp: store_inv_def map_domain_def get_available_games_svc_def get_available_games_def
           get_completed_games_by_user_svc_def get_completed_games_by_user_def list_all_iff)

lemma create_game_route_answered:
  assumes inv: "store_inv st" and ty: "field_typed ''game_type'' json_is_str b"
  shows "answered (snd (create_game_route E now gid st pid b))"
proof -
  obtain kvs v where b: "b = Some (JObj kvs)" "kvs \<noteq> []" "''game_type'' \<in> fst ` set kvs"
    and v: "py_getitem ''game_type'' (JObj kvs) = Some v" "json_is_str v"
    using field_typed_D [OF ty] by blast
  then obtain t where "v = JStr t" by (cases v) auto
  then show ?thesis
    using b v create_game_eq [OF inv]
    by (simp add: create_game_route_def body_check_obj Let_def game_json_response_def err_def)
qed

lemma make_move_route_answered:
  assumes ty: "field_typed ''board'' json_int_cells b"
  shows "answered (snd (make_move_route E st pid s b))"
proof -
  obtain kvs v where b: "b = Some (JObj kvs)" "kvs \<noteq> []" "''board'' \<in> fst ` set kvs"
    and v: "py_getitem ''board'' (JObj kvs) = Some v" "json_int_cells v"
    using field_typed_D [OF ty] by blast
  show ?thesis
  proof (cases v)
    case (JList rows)
    then show ?thesis
      using b v json_int_board_Some [of rows]
      by (auto simp: make_move_route_def body_check_obj err_def game_json_response_def
               split: option.splits sum.splits)
  qed (use b v in \<open>simp_all add: make_move_route_def body_check_obj err_def\<close>)
qed

lemma field_typed_str:
  assumes "field_typed k json_is_str b"
  shows "\<exists>kvs t. b = Some (JObj kvs) \<and> kvs \<noteq> [] \<and> k \<in> fst ` set kvs \<and> py_getitem k (JObj kvs) = Some (JStr t)"
proof -
  obtain kvs v where "b = Some (JObj kvs)" "kvs \<noteq> []" "k \<in> fst ` set kvs"
    "py_getitem k (JObj kvs) = Some v" "json_is_str v"
    using field_typed_D [OF assms] by blast
  then show ?thesis by (cases v) auto
qed

text \<open>A typed registration is answered, unless its login is free and its login or hashed
  password is too long for the column: then the commit's \<open>DataError\<close> is a 500.\<close>

lemma register_route_answered:
  assumes "field_typed ''login'' json_is_str b" "field_typed ''password'' json_is_str b"
  shows "answered (snd (register_route E uid ust b)) \<or>
         ((\<exists>l p. py_getitem ''login'' (the b) = Some (JStr l) \<and> py_getitem ''password'' (the b) = Some (JStr p) \<and>
                l \<notin> set (map uent_login ust) \<and> \<not> (length l \<le> 100 \<and> length (hash_pw E p) \<le> 100)) \<and>
          register_route E uid ust b = (ust, Internal_error DataErr))"
proof -
  obtain kvs l where b: "b = Some (JObj kvs)" "kvs \<noteq> []" "''login'' \<in> fst ` set kvs"
    "py_getitem ''login'' (JObj kvs) = Some (JStr l)"
    using field_typed_str [OF assms(1)] by blast
  moreover obtain p where "''password'' \<in> fst ` set kvs" "py_getitem ''password'' (JObj kvs) = Some (JStr p)"
    using field_typed_str [OF assms(2)] b(1) by auto
  ultimately show ?thesis
    by (auto simp: register_route_def body_check_obj register_eq row_fits_def to_sign_up_request_def)
qed

lemma login_route_answered:
  assumes "field_typed ''login'' json_is_str b" "field_typed ''password'' (\<lambda>_. True) b"
  shows "answered (login_route E P now ust b)"
proof -
  obtain kvs l where b: "b = Some (JObj kvs)" "kvs \<noteq> []" "''login'' \<in> fst ` set kvs"
    "py_getitem ''login'' (JObj kvs) = Some (JStr l)"
    using field_typed_str [OF assms(1)] by blast
  moreover obtain pj where "''password'' \<in> fst ` set kvs" "py_getitem ''password'' (JObj kvs) = Some pj"
    using field_typed_D [OF assms(2)] b(1) by auto
  ultimately show ?thesis
    by (simp add: login_route_def body_check_obj err_def Let_def split: option.split)
qed

lemma refresh_route_answered:
  assumes "field_typed ''refresh_token'' json_is_str b"
  shows "answered (refresh_route f b)"
proof -
  obtain kvs t where b: "b = Some (JObj kvs)" "kvs \<noteq> []" "''refresh_token'' \<in> fst ` set kvs"
    "py_getitem ''refresh_token'' (JObj kvs) = Some (JStr t)"
    using field_typed_D [OF assms] by (metis json_is_str.elims(2))
  then show ?thesis
    by (simp add: refresh_route_def body_check_obj err_def split: option.split)
qed

lemma query_routes_answered:
  assumes "store_inv st"
  shows "answered (available_games_route E st)" "answered (game_history_route E isofmt st uid)"
    "answered (snd (join_game_route E st pid s))" "answered (get_game_route E st s)"
    "answered (leaderboard_route E st ust a)" "answered (me_route E ust uid)"
    "answered (user_info_route E ust s)" "answered (auth_response f)"
  using svc_queries_Inr(1) [OF assms] svc_queries_Inr(2) [OF assms, of uid] load_game_Inl [OF assms]
  by (auto simp: available_games_route_def game_history_route_def get_game_route_def
      leaderboard_route_def me_route_def user_info_route_def auth_response_def err_def join_game_route_def
      game_json_response_def Let_def split: option.splits sum.splits prod.splits service_error.splits)

section \<open>The board on the wire\<close>

lemma json_board_3x3:
  "rows_3x3 (map (\<lambda>r. JList (map JInt r)) b) \<longleftrightarrow> length b = 3 \<and> list_all (\<lambda>r. length r = 3) b"
  by (simp add: rows_3x3_def list_all_iff)

section \<open>Properties of the HTTP layer\<close>

text \<open>
  C33: every route but registration, login and the two refresh routes sits behind
  \<open>require_auth\<close>: when it refuses the request, the answer is its 401 and neither table
  is read or written.
\<close>

theorem protected_routes_require_auth:
  assumes "r \<notin> {Register, Login, RefreshAccess, Refresh}" and "require_auth E now (req_auth req) = Inl f"
  shows "handle_request E P isofmt now nid st r req = (st, auth_response f) \<and> status (auth_response f) = 401"
  using assms by (cases r) (simp_all add: handle_request_def auth_response_def split: prod.split)

theorem protected_routes_require_auth_witness:
  "MakeMove ''u'' \<notin> {Register, Login, RefreshAccess, Refresh} \<and>
   require_auth demo_env 7 bearer_ann = Inl Unauthorized \<and>
   handle_request demo_env demo_jwt (\<lambda>_. []) 7 2 empty_app (MakeMove ''u'') \<lparr>req_auth = bearer_ann, req_body = None\<rparr> =
     (empty_app, auth_response Unauthorized)"
proof -
  have a: "require_auth demo_env 7 bearer_ann = Inl Unauthorized" by code_simp
  show ?thesis
    using a protected_routes_require_auth [where r = "MakeMove ''u''" and E = demo_env and now = 7
      and req = "\<lparr>req_auth = bearer_ann, req_body = None\<rparr>" and f = Unauthorized and P = demo_jwt
      and isofmt = "\<lambda>_. []" and nid = 2 and st = empty_app]
    by simp
qed

text \<open>
  C34: the HTTP layer refines the services. A request with a fresh \<open>uuid4()\<close> leaves the
  games table unchanged or changes it by one step of the game service
  (\<open>Service.service_step\<close>: a creation, a join or a move), and leaves the users table
  unchanged or changes it as one \<open>AuthService.register\<close> with that id.
\<close>

theorem handle_request_refines_services:
  assumes fresh: "map_of (games st) nid = None"
  shows "case handle_request E P isofmt now nid st r req of (st', resp) \<Rightarrow>
           (games st' = games st \<or> service_step (games st) (games st')) \<and>
           (users st' = users st \<or> (\<exists>q. register E nid (users st) q = Inr (users st', True)))"
proof (cases "handle_request E P isofmt now nid st r req")
  case (Pair st' resp)
  then show ?thesis using handle_request_games [OF Pair fresh] handle_request_users [OF Pair] by simp
qed

theorem handle_request_refines_services_witness:
  "map_of (games empty_app) 2 = None \<and>
   (case handle_request demo_env demo_jwt (\<lambda>_. []) 1 2 empty_app CreateGame
           \<lparr>req_auth = bearer_ann, req_body = Some (JObj [(''game_type'', JStr ''PvP'')])\<rparr> of (st', resp) \<Rightarrow>
      (games st' = games empty_app \<or> service_step (games empty_app) (games st')) \<and>
      (users st' = users empty_app \<or> (\<exists>q. register demo_env 2 (users empty_app) q = Inr (users st', True))))"
  using handle_request_refines_services [where st = empty_app and nid = 2 and E = demo_env and P = demo_jwt
      and isofmt = "\<lambda>_. []" and now = 1 and r = CreateGame
      and req = "\<lparr>req_auth = bearer_ann, req_body = Some (JObj [(''game_type'', JStr ''PvP'')])\<rparr>"]
  by simp

text \<open>
  C35: every state the application reaches holds a games table the game service reaches
  (hence consistent: every row readable and well-formed) and a users table the
  registrations reach (hence logins unique).
\<close>

theorem app_reachable_inv:
  "app_reachable E P isofmt st \<Longrightarrow> reachable (games st) \<and> store_inv (games st) \<and> users_reachable E (users st)"
proof (induction rule: app_reachable.induct)
  case init
  then show ?case by (simp add: reachable.init users_reachable.init reachable_store_inv)
next
  case (step st nid now r req)
  obtain st' resp where h: "handle_request E P isofmt now nid st r req = (st', resp)" by fastforce
  have "reachable (games st')"
    using handle_request_games [OF h step.hyps(2)] step.IH reachable.step by auto
  moreover have "users_reachable E (users st')"
    using handle_request_users [OF h] step.IH users_reachable.reg [OF _ step.hyps(3)] by auto
  ultimately show ?case using h reachable_store_inv by simp
qed

theorem app_reachable_inv_witness:
  "app_reachable demo_env demo_jwt (\<lambda>_. [])
     (fst (handle_request demo_env demo_jwt (\<lambda>_. []) 0 1 empty_app Register
             \<lparr>req_auth = None, req_body = Some (JObj [(''login'', JStr ''ann''), (''password'', JStr ''pw'')])\<rparr>)) \<and>
   users_reachable demo_env [new_user_row demo_env 1 ann]"
proof -
  let ?st = "fst (handle_request demo_env demo_jwt (\<lambda>_. []) 0 1 empty_app Register
             \<lparr>req_auth = None, req_body = Some (JObj [(''login'', JStr ''ann''), (''password'', JStr ''pw'')])\<rparr>)"
  have a: "app_reachable demo_env demo_jwt (\<lambda>_. []) ?st"
    by (rule app_reachable.step [OF app_reachable.init]) (simp_all add: find_by_id_repo_def)
  have "users ?st = [new_user_row demo_env 1 ann]" by code_simp
  then show ?thesis using a app_reachable_inv [OF a] by simp
qed

text \<open>
  C36: a move whose body carries a 3x3 board of integers passes the controller's checks
  unchanged: the route answers what \<open>GameService.make_move\<close> does with that very board, its
  \<open>ValueError\<close>s as 400 with the message, its game as 200 with the new table.
\<close>

theorem make_move_route_board:
  assumes "length b = 3" "list_all (\<lambda>r. length r = 3) b" "uuid_parse E gs = Some gid"
  shows "make_move_route E st pid gs (Some (JObj [(''board'', json_board b)])) =
           (case make_move st gid pid b of
              Inl e \<Rightarrow> (st, err 400 (service_error_message (uuid_str E) gid e))
            | Inr (st', g) \<Rightarrow> (st', game_json_response E 200 g))"
  using assms
  by (simp add: make_move_route_def body_check_obj json_board_def json_board_read json_board_3x3)

theorem make_move_route_board_witness:
  "length empty_board = 3 \<and> list_all (\<lambda>r. length r = 3) empty_board \<and> uuid_parse demo_env ''uu'' = Some 1 \<and>
   make_move_route demo_env [] 5 ''uu'' (Some (JObj [(''board'', json_board empty_board)])) =
     ([], err 400 ''Game with ID uu not found'')"
proof -
  have h: "length empty_board = 3" "list_all (\<lambda>r. length r = 3) empty_board" "uuid_parse demo_env ''uu'' = Some 1"
    by (simp_all add: empty_board_def demo_env_def)
  have "make_move [] 1 5 empty_board = Inl GameNotFound"
    by (simp add: make_move_def load_game_def get_game_def)
  then show ?thesis
    using h make_move_route_board [OF h, where st = "[]" and pid = 5]
    by (simp add: service_error_message_def demo_env_def)
qed

text \<open>
  C37: on a consistent games table, a request whose body has the fields its route reads,
  with the types the code expects, is answered with JSON and a status below 500, with one
  exception: a registration of a free login whose login or hashed password is longer than
  the 100 characters of its column, which the commit refuses with a \<open>DataError\<close> that
  reaches the handler's \<open>except Exception\<close> as a 500, leaving the state unchanged.
\<close>

theorem well_typed_requests_answered:
  assumes inv: "store_inv (games st)" and ty: "body_typed r (req_body req)"
  shows "answered (snd (handle_request E P isofmt now nid st r req)) \<or>
         (r = Register \<and>
          (\<exists>l p. py_getitem ''login'' (the (req_body req)) = Some (JStr l) \<and>
                 py_getitem ''password'' (the (req_body req)) = Some (JStr p) \<and>
                 l \<notin> set (map uent_login (users st)) \<and> \<not> (length l \<le> 100 \<and> length (hash_pw E p) \<le> 100)) \<and>
          handle_request E P isofmt now nid st r req = (st, Internal_error DataErr))"
proof (cases "r = Register")
  case True
  then have "field_typed ''login'' json_is_str (req_body req)" "field_typed ''password'' json_is_str (req_body req)"
    using ty by (simp_all add: body_typed_def)
  from register_route_answered [OF this, of E nid "users st"] True show ?thesis
    by (auto simp: handle_request_def case_prod_beta)
next
  case False
  then show ?thesis
    using ty query_routes_answered [OF inv]
    by (cases r)
       (auto simp: handle_request_def body_typed_def case_prod_beta create_game_route_answered [OF inv]
             make_move_route_answered login_route_answered refresh_route_answered
             split: sum.split)
qed

theorem well_typed_requests_answered_witness:
  "store_inv (games empty_app) \<and> body_typed CreateGame (Some (JObj [(''game_type'', JStr ''PvP'')])) \<and>
   answered (snd (handle_request demo_env demo_jwt (\<lambda>_. []) 1 2 empty_app CreateGame
           \<lparr>req_auth = bearer_ann, req_body = Some (JObj [(''game_type'', JStr ''PvP'')])\<rparr>))"
proof -
  have h: "store_inv (games empty_app)" "body_typed CreateGame (Some (JObj [(''game_type'', JStr ''PvP'')]))"
    by (simp_all add: store_inv_def body_typed_def field_typed_def)
  show ?thesis
    using h well_typed_requests_answered [OF h(1), where r = CreateGame and E = demo_env and P = demo_jwt
        and isofmt = "\<lambda>_. []" and now = 1 and nid = 2
        and req = "\<lparr>req_auth = bearer_ann, req_body = Some (JObj [(''game_type'', JStr ''PvP'')])\<rparr>"]
    by simp
qed

text \<open>
  The board a game response carries, sent back unchanged as a move's body, is read by
  the move route as the same board, and passes its 3x3 check exactly when it is 3x3.
\<close>

theorem game_board_json_roundtrip:
  "\<exists>rows. py_getitem ''board'' (game_info_json us g) = Some (JList rows) \<and>
          json_int_board rows = Some (game_field g) \<and>
          (rows_3x3 rows \<longleftrightarrow> length (game_field g) = 3 \<and> list_all (\<lambda>r. length r = 3) (game_field g))"
  by (simp add: game_info_json_fields game_info_fields_def json_board_def json_board_read json_board_3x3)

section \<open>Routing\<close>

lemma split_on_append:
  "d \<notin> set xs \<Longrightarrow> split_on d (xs @ d # ys) = xs # split_on d ys"
  by (induction xs) auto

lemma split_on_no_sep: "d \<notin> set xs \<Longrightarrow> split_on d xs = [xs]"
  by (induction xs) auto

text \<open>
  The route table round-trips: every endpoint, sent on its own request line with a usable
  path parameter, is dispatched to that endpoint (the leaderboard with the limit of the
  query string).
\<close>

theorem dispatch_request_line:
  assumes "route_ok r"
  shows "dispatch (fst (request_line r)) (snd (request_line r)) lmt =
           Some (case r of Leaderboard _ \<Rightarrow> Leaderboard lmt | _ \<Rightarrow> r)"
  using assms
  by (cases r)
     (simp_all add: dispatch_def dispatch_auth_def dispatch_user_def dispatch_game_def
        split_on_append split_on_no_sep)

lemma dispatch_static_first:
  "dispatch ''GET'' ''/game/history'' lmt = Some GameHistory"
  "dispatch ''GET'' ''/game/create'' lmt = Some (GetGame ''create'')"
  "dispatch ''POST'' ''/game/history'' lmt = None"
  by code_simp+

end
