(* ===== verification/Service_Api.thy ===== *)
theory Service_Api
  imports Service
begin

text \<open>
  \<open>GameServiceInterface\<close> (domain/service/game_service_interface.py), the abstract class the
  controllers and the DI container hold the game service as: its seven methods as the
  constructors of \<open>game_call\<close>, their results as \<open>game_answer\<close>, and \<open>game_service\<close>, the
  one implementation, \<open>GameServiceImpl\<close>, as a step on the games table. \<open>gid\<close> and \<open>now\<close> are
  the \<open>uuid4()\<close> and the clock a creation reads; \<open>find_login\<close> is the user service the
  container passes in.
\<close>

datatype game_call =
    Create_game uuid game_type
  | Join_game uuid uuid
  | Make_move uuid uuid board
  | Get_game uuid
  | Get_available_games
  | Get_completed_games_by_user uuid
  | Get_leaderboard int

datatype game_answer =
    A_game current_game
  | A_game_opt "current_game option"
  | A_games "current_game list"
  | A_leaders "leader_stats list"

definition game_service ::
  "(uuid \<Rightarrow> string option) \<Rightarrow> (uuid \<Rightarrow> string) \<Rightarrow> uuid \<Rightarrow> timestamp \<Rightarrow> game_store \<Rightarrow> game_call \<Rightarrow>
   service_error + game_store \<times> game_answer" where
  "game_service find_login us gid now st c =
     (case c of
        Create_game pid t \<Rightarrow> res_bind (create_game st gid now pid t) (\<lambda>(st', g). Inr (st', A_game g))
      | Join_game g pid \<Rightarrow> res_bind (join_game st g pid) (\<lambda>(st', g'). Inr (st', A_game g'))
      | Make_move g pid b \<Rightarrow> res_bind (make_move st g pid b) (\<lambda>(st', g'). Inr (st', A_game g'))
      | Get_game g \<Rightarrow>
          (case load_game st g of
             Inl GameNotFound \<Rightarrow> Inr (st, A_game_opt None)
           | Inl e \<Rightarrow> Inl e
           | Inr g' \<Rightarrow> Inr (st, A_game_opt (Some g')))
      | Get_available_games \<Rightarrow> res_bind (get_available_games_svc st) (\<lambda>gs. Inr (st, A_games gs))
      | Get_completed_games_by_user u \<Rightarrow>
          res_bind (get_completed_games_by_user_svc st u) (\<lambda>gs. Inr (st, A_games gs))
      | Get_leaderboard l \<Rightarrow> res_bind (get_leaderboard find_login us st l) (\<lambda>ls. Inr (st, A_leaders ls)))"

text \<open>The calls that write: the others only read the table.\<close>

fun writes :: "game_call \<Rightarrow> bool" where
  "writes (Create_game _ _) = True"
| "writes (Join_game _ _) = True"
| "writes (Make_move _ _ _) = True"
| "writes _ = False"

section \<open>The interface and the step relation\<close>

lemma game_service_reads:
  "\<not> writes c \<Longrightarrow> game_service fl us gid now st c = Inr (st', a) \<Longrightarrow> st' = st"
  by (cases c) (auto simp: game_service_def res_bind_eq_Inr split: sum.splits service_error.splits)

lemma game_service_get_game:
  "store_inv st \<Longrightarrow> game_service fl us gid now st (Get_game g) = Inr (st, A_game_opt (get_game_svc st g))"
  by (auto simp: game_service_def load_game_svc split: option.splits)

text \<open>
  The steps of \<open>service_step\<close> are exactly the successful writing calls through the
  interface, a creation drawing an id that names no row.
\<close>

lemma service_step_game_service:
  "service_step st st' \<longleftrightarrow>
     (\<exists>c gid now a. writes c \<and> (\<forall>pid t. c = Create_game pid t \<longrightarrow> map_of st gid = None) \<and>
                    game_service fl us gid now st c = Inr (st', a))"
proof
  assume "service_step st st'"
  then show "\<exists>c gid now a. writes c \<and> (\<forall>pid t. c = Create_game pid t \<longrightarrow> map_of st gid = None) \<and>
                    game_service fl us gid now st c = Inr (st', a)"
  proof cases
    case (create gid now pid t g)
    then show ?thesis by (intro exI [of _ "Create_game pid t"] exI [of _ gid] exI [of _ now]) (simp add: game_service_def)
  next
    case (join gid pid g)
    then show ?thesis by (intro exI [of _ "Join_game gid pid"]) (simp add: game_service_def)
  next
    case (move gid pid b g)
    then show ?thesis by (intro exI [of _ "Make_move gid pid b"]) (simp add: game_service_def)
  qed
next
  assume "\<exists>c gid now a. writes c \<and> (\<forall>pid t. c = Create_game pid t \<longrightarrow> map_of st gid = None) \<and>
                    game_service fl us gid now st c = Inr (st', a)"
  then obtain c gid now a where w: "writes c" and f: "\<forall>pid t. c = Create_game pid t \<longrightarrow> map_of st gid = None"
    and ok: "game_service fl us gid now st c = Inr (st', a)" by blast
  show "service_step st st'"
    using w f ok
    by (cases c) (auto simp: game_service_def res_bind_eq_Inr intro: service_step.intros)
qed

end
