(* ===== verification/Concurrency.thy ===== *)
theory Concurrency
  imports Service Users
begin

text \<open>
  Concurrent \<open>make_move\<close> requests on one table. The spec (section 5) serves each request
  on its own against the shared store, with no locking and no version check. A request of
  \<open>make_move\<close> reads the row and checks its guards (\<open>mm_prepare\<close>), then writes the row;
  its writes all go to that one row and together leave it as one write of the final game
  (\<open>Service.make_move_eq\<close>), so the model splits a request into its read-and-check step
  and its commit (\<open>mm_commit\<close>). \<open>conc_step\<close> interleaves these steps of a list of requests
  in any order. Registration is split the same way.
\<close>

definition mm_prepare :: "game_store \<Rightarrow> uuid \<Rightarrow> uuid \<Rightarrow> board \<Rightarrow> service_error + current_game" where
  "mm_prepare st gid pid b =
     res_bind (load_game st gid) (\<lambda>g.
       if is_game_over g then Inl GameAlreadyOver
       else if \<not> is_player_turn g pid then Inl NotYourTurn
       else if \<not> valid_board_format b then Inl InvalidBoardFormat
       else Inr (move_result g pid b))"

definition mm_commit :: "game_store \<Rightarrow> current_game \<Rightarrow> game_store" where
  "mm_commit st g = AList.update (game_id g) (to_entity g) st"

datatype req_state =
    Pending uuid uuid board
  | Prepared current_game
  | Failed service_error
  | Done current_game

inductive conc_step :: "game_store \<times> req_state list \<Rightarrow> game_store \<times> req_state list \<Rightarrow> bool" where
  read: "i < length rs \<Longrightarrow> rs ! i = Pending gid pid b \<Longrightarrow>
         conc_step (st, rs) (st, rs[i := (case mm_prepare st gid pid b of Inl e \<Rightarrow> Failed e | Inr g \<Rightarrow> Prepared g)])"
| commit: "i < length rs \<Longrightarrow> rs ! i = Prepared g \<Longrightarrow> conc_step (st, rs) (mm_commit st g, rs[i := Done g])"

text \<open>
  \<open>UserService.create_user\<close> likewise checks that the login is free and then inserts the
  row: \<open>reg_prepare\<close> is the check and the row it will insert, \<open>reg_commit\<close> the insert.
\<close>

definition reg_prepare :: "auth_env \<Rightarrow> uuid \<Rightarrow> user_store \<Rightarrow> sign_up_request \<Rightarrow> user_entity option" where
  "reg_prepare E uid st req =
     (case find_by_login_repo st (su_login req) of
        Some _ \<Rightarrow> None
      | None \<Rightarrow> Some \<lparr>uent_id = uid, uent_login = su_login req, uent_password = hash_pw E (su_password req)\<rparr>)"

definition reg_commit :: "user_store \<Rightarrow> user_entity \<Rightarrow> user_error + user_store" where
  "reg_commit st e = (case user_save st e of Inl err \<Rightarrow> Inl err | Inr (st', _) \<Rightarrow> Inr st')"

section \<open>A request on its own is make_move\<close>

lemma make_move_prepare_commit:
  assumes inv: "store_inv st"
  shows "make_move st gid pid b =
           (case mm_prepare st gid pid b of Inl e \<Rightarrow> Inl e | Inr g \<Rightarrow> Inr (mm_commit st g, g))"
proof (cases "load_game st gid")
  case (Inl e)
  then show ?thesis by (simp add: mm_prepare_def make_move_load_Inl)
next
  case (Inr g)
  have gid: "game_id (move_result g pid b) = gid"
    using load_game_Inr [OF inv Inr] by (simp add: move_result_def Let_def)
  show ?thesis
    using make_move_cases [OF inv Inr] Inr gid
    by (simp add: mm_prepare_def mm_commit_def valid_board_format_wf)
qed

lemma serial_request:
  assumes inv: "store_inv st" and i: "i < length rs" and p: "rs ! i = Pending gid pid b"
  shows "\<exists>st' rs'. conc_step\<^sup>*\<^sup>* (st, rs) (st', rs') \<and>
           (case make_move st gid pid b of
              Inl e \<Rightarrow> st' = st \<and> rs' = rs[i := Failed e]
            | Inr (st2, g) \<Rightarrow> st' = st2 \<and> rs' = rs[i := Done g])"
proof (cases "mm_prepare st gid pid b")
  case (Inl e)
  then have "conc_step (st, rs) (st, rs[i := Failed e])" using conc_step.read [OF i p, of st] by simp
  then show ?thesis using Inl make_move_prepare_commit [OF inv] by fastforce
next
  case (Inr g)
  then have s1: "conc_step (st, rs) (st, rs[i := Prepared g])" using conc_step.read [OF i p, of st] by simp
  have "conc_step (st, rs[i := Prepared g]) (mm_commit st g, (rs[i := Prepared g])[i := Done g])"
    using i by (intro conc_step.commit) simp_all
  then have "conc_step\<^sup>*\<^sup>* (st, rs) (mm_commit st g, rs[i := Done g])" using s1 by simp
  then show ?thesis using Inr make_move_prepare_commit [OF inv] by fastforce
qed

section \<open>Registration\<close>

lemma register_prepare_commit:
  "register E uid st req =
     (case reg_prepare E uid st req of
        None \<Rightarrow> Inr (st, False)
      | Some e \<Rightarrow> (case reg_commit st e of Inl err \<Rightarrow> Inl err | Inr st' \<Rightarrow> Inr (st', True)))"
  by (simp add: register_def create_user_def reg_prepare_def reg_commit_def user_save_def
      split: option.splits)

text \<open>
  Two concurrent registrations of one login whose row fits: each checks before either
  inserts, so both commits succeed and the table holds the login twice; served one after
  the other, the second is refused.
\<close>

lemma concurrent_registrations_duplicate:
  assumes p1: "reg_prepare E u1 st req = Some e1" and p2: "reg_prepare E u2 st req = Some e2"
    and fits: "row_fits e1" "row_fits e2"
  shows "register E u1 st req = Inr (st @ [e1], True) \<and> register E u2 (st @ [e1]) req = Inr (st @ [e1], False) \<and>
         reg_commit st e1 = Inr (st @ [e1]) \<and> reg_commit (st @ [e1]) e2 = Inr (st @ [e1, e2]) \<and>
         map uent_login (st @ [e1, e2]) = map uent_login st @ [su_login req, su_login req]"
proof -
  have free: "find_by_login_repo st (su_login req) = None"
    using p1 by (simp add: reg_prepare_def split: option.splits)
  have l: "uent_login e1 = su_login req" "uent_login e2 = su_login req"
    using p1 p2 free by (auto simp: reg_prepare_def)
  have "su_login req \<notin> set (map uent_login st)" using free find_by_login_repo_None_iff by blast
  then have taken: "find_by_login_repo (st @ [e1]) (su_login req) = Some e1"
    using find_by_login_repo_snoc l(1) by simp
  have c: "reg_commit st e1 = Inr (st @ [e1])" "reg_commit (st @ [e1]) e2 = Inr (st @ [e1, e2])"
    using fits by (simp_all add: reg_commit_def user_save_def)
  show ?thesis
    using c l p1 taken
    by (simp add: register_prepare_commit reg_prepare_def)
qed

end
