(* ===== verification/App.thy ===== *)
theory App
  imports Web
begin

text \<open>
  The process around the handlers: the database of datasource/database.py with the tables
  \<open>init_db\<close> creates, the dependency container of di/container.py that builds one session
  and the services over it, the Flask application of web/module/app.py, and main.py, which
  builds the container and the application and serves requests. A request is dispatched by
  URL (\<open>Web.dispatch\<close>), handled by \<open>Web.handle_request\<close> on the container's session with
  its JWT provider and the application's secret, and every write of a handler is committed
  to the database before the next request reads it. A commit that the database refuses
  leaves the one session of the process unusable: the code never rolls it back, so every
  later query raises until the process is restarted.
\<close>

section \<open>The database\<close>

text \<open>
  The tables \<open>Base.metadata\<close> holds, one per entity class (\<open>UserEntity\<close>,
  \<open>CurrentGameEntity\<close>, \<open>GameFieldEntity\<close>), and the database the engine at
  \<open>DATABASE_URL\<close> is bound to: the tables it has and their committed rows. A row of
  \<open>current_games\<close> joined with its \<open>game_fields\<close> row is one \<open>game_entity\<close>.
\<close>

definition base_tables :: "string list" where
  "base_tables = [''users'', ''current_games'', ''game_fields'']"

record database =
  db_tables :: "string list"
  db_games :: game_store
  db_users :: user_store

text \<open>A database with no tables, as a first deployment finds it.\<close>

definition fresh_database :: database where
  "fresh_database = \<lparr>db_tables = [], db_games = [], db_users = []\<rparr>"

text \<open>\<open>Base.metadata.create_all\<close>: each table of the metadata that the database lacks is
  created (empty); existing tables and their rows are left as they are.\<close>

definition init_db :: "database \<Rightarrow> database" where
  "init_db d = d\<lparr>db_tables := db_tables d @ filter (\<lambda>t. t \<notin> set (db_tables d)) base_tables\<rparr>"

text \<open>\<open>SessionLocal()\<close>: a session reads the committed rows. The repositories commit after
  every write (\<open>autocommit=False\<close>, an explicit \<open>commit()\<close> in \<open>save_game\<close>,
  \<open>delete_game\<close> and \<open>UserRepository.save\<close>), so the database after a request holds what the
  session holds. A commit the database refuses writes nothing (\<open>Users.user_save\<close>).\<close>

definition get_db_session :: "database \<Rightarrow> app_state" where
  "get_db_session d = \<lparr>games = db_games d, users = db_users d\<rparr>"

definition session_commit :: "database \<Rightarrow> app_state \<Rightarrow> database" where
  "session_commit d st = d\<lparr>db_games := games st, db_users := users st\<rparr>"

section \<open>The container\<close>

text \<open>
  \<open>Container.__init__\<close>: \<open>init_db()\<close>, one session for the process, both repositories on
  that session, the JWT provider with lifetimes of 15 minutes and 30 days
  (\<open>Users.container_jwt\<close>), and the services wired over them: \<open>UserService\<close> on the user
  repository, \<open>GameServiceImpl\<close> on the game repository and the user service,
  \<open>AuthService\<close> on the user service and the provider, \<open>UserAuthenticator\<close> on the auth
  service. The services keep no state of their own, so the container is its database, its
  provider and the state of its one session: \<open>ct_failed\<close> holds once a commit has raised,
  after which SQLAlchemy refuses every operation of the session with
  \<open>PendingRollbackError\<close> until \<open>rollback()\<close>, which no code of the program calls.
\<close>

record container =
  ct_db :: database
  ct_jwt :: jwt_provider
  ct_failed :: bool

definition container_init :: "database \<Rightarrow> container" where
  "container_init d = \<lparr>ct_db = init_db d, ct_jwt = container_jwt, ct_failed = False\<rparr>"

text \<open>The \<open>session\<close> property, which both repositories use.\<close>

definition container_session :: "container \<Rightarrow> app_state" where
  "container_session c = get_db_session (ct_db c)"

section \<open>The Flask application and main\<close>

text \<open>
  \<open>create_app\<close>: the container, the secret from the environment variable
  \<open>JWT_SECRET_KEY\<close> (\<open>os.getenv\<close> with its default when the variable is unset), and the
  configured lifetimes of flask_jwt_extended, 30 minutes and 30 days. The three blueprints
  it registers are the URL rules of \<open>Web.dispatch\<close>.
\<close>

record flask_app =
  app_container :: container
  app_jwt_secret :: string
  app_access_expires :: nat
  app_refresh_expires :: nat

definition default_secret :: string where
  "default_secret = ''your-secret-key-change-in-production''"

definition create_app :: "string option \<Rightarrow> container \<Rightarrow> flask_app" where
  "create_app env c =
     \<lparr>app_container = c,
      app_jwt_secret = (case env of None \<Rightarrow> default_secret | Some s \<Rightarrow> s),
      app_access_expires = 30 * 60, app_refresh_expires = 30 * 24 * 60 * 60\<rparr>"

definition main_app :: "string option \<Rightarrow> database \<Rightarrow> flask_app" where
  "main_app env d = create_app env (container_init d)"

text \<open>
  A route's answer on a session whose commit has failed: its own checks run as usual (the
  body, \<open>require_auth\<close>, the id's format, the game type, the board's shape, the limit),
  and its first query raises \<open>PendingRollbackError\<close>. The handlers answer that with their
  \<open>except Exception\<close> 500, except login and the two refresh routes, whose
  \<open>AuthService\<close> methods catch every exception and return \<open>None\<close>: 401.
\<close>

definition failed_register :: "json option \<Rightarrow> response" where
  "failed_register b =
     (case body_check [''login'', ''password''] b of
        None \<Rightarrow> Internal_error (if b = None then BadRequestErr else TypeErr)
      | Some None \<Rightarrow> Json 400 (success_json False ''Login or password are required'')
      | Some (Some d) \<Rightarrow>
          (case (py_getitem ''login'' d, py_getitem ''password'' d) of
             (Some _, Some _) \<Rightarrow> Internal_error PendingRollbackErr
           | _ \<Rightarrow> Internal_error TypeErr))"

definition failed_login :: "json option \<Rightarrow> response" where
  "failed_login b =
     (case body_check [''login'', ''password''] b of
        None \<Rightarrow> Internal_error (if b = None then BadRequestErr else TypeErr)
      | Some None \<Rightarrow> err 400 ''Login and password are required''
      | Some (Some d) \<Rightarrow>
          (case (py_getitem ''login'' d, py_getitem ''password'' d) of
             (Some _, Some _) \<Rightarrow> err 401 ''Invalid credentials''
           | _ \<Rightarrow> Internal_error TypeErr))"

definition failed_refresh :: "json option \<Rightarrow> response" where
  "failed_refresh b =
     (case body_check [''refresh_token''] b of
        None \<Rightarrow> Internal_error (if b = None then BadRequestErr else TypeErr)
      | Some None \<Rightarrow> err 400 ''Refresh token is required''
      | Some (Some d) \<Rightarrow>
          (case py_getitem ''refresh_token'' d of
             Some _ \<Rightarrow> err 401 ''Invalid or expired refresh token''
           | None \<Rightarrow> Internal_error TypeErr))"

definition failed_create :: "json option \<Rightarrow> response" where
  "failed_create b =
     (case body_check [''game_type''] b of
        None \<Rightarrow> Internal_error (if b = None then BadRequestErr else TypeErr)
      | Some None \<Rightarrow> err 400 ''game_type is required''
      | Some (Some d) \<Rightarrow>
          (case py_getitem ''game_type'' d of
             None \<Rightarrow> Internal_error TypeErr
           | Some (JStr s) \<Rightarrow>
               if py_lower s \<notin> set [''pvp'', ''pvc''] then err 400 ''game_type must be \"pvp\" or \"pvc\"''
               else Internal_error PendingRollbackErr
           | Some _ \<Rightarrow> Internal_error AttributeErr))"

definition failed_move :: "auth_env \<Rightarrow> string \<Rightarrow> json option \<Rightarrow> response" where
  "failed_move E s b =
     (case body_check [''board''] b of
        None \<Rightarrow> Internal_error (if b = None then BadRequestErr else TypeErr)
      | Some None \<Rightarrow> err 400 ''board is required''
      | Some (Some d) \<Rightarrow>
          (case py_getitem ''board'' d of
             None \<Rightarrow> Internal_error TypeErr
           | Some (JList rows) \<Rightarrow>
               if \<not> rows_3x3 rows then err 400 ''board must be a 3x3 array''
               else if uuid_parse E s = None then err 400 ''Invalid game_id format''
               else Internal_error PendingRollbackErr
           | Some _ \<Rightarrow> err 400 ''board must be a 3x3 array''))"

definition failed_id :: "auth_env \<Rightarrow> string \<Rightarrow> string \<Rightarrow> response" where
  "failed_id E s msg = (if uuid_parse E s = None then err 400 msg else Internal_error PendingRollbackErr)"

definition failed_limit :: "int option \<Rightarrow> response" where
  "failed_limit a =
     (let limit = (case a of None \<Rightarrow> 10 | Some l \<Rightarrow> l) in
      if limit < 1 then err 400 ''limit must be greater than 0''
      else if limit > 100 then err 400 ''limit must not exceed 100''
      else Internal_error PendingRollbackErr)"

definition failed_answer :: "auth_env \<Rightarrow> timestamp \<Rightarrow> route \<Rightarrow> http_request \<Rightarrow> response" where
  "failed_answer E now r req =
     (case r of
        Register \<Rightarrow> failed_register (req_body req)
      | Login \<Rightarrow> failed_login (req_body req)
      | RefreshAccess \<Rightarrow> failed_refresh (req_body req)
      | Refresh \<Rightarrow> failed_refresh (req_body req)
      | _ \<Rightarrow>
          (case require_auth E now (req_auth req) of
             Inl f \<Rightarrow> auth_response f
           | Inr uid \<Rightarrow>
               (case r of
                  CreateGame \<Rightarrow> failed_create (req_body req)
                | MakeMove s \<Rightarrow> failed_move E s (req_body req)
                | JoinGame s \<Rightarrow> failed_id E s ''Invalid game_id format''
                | GetGame s \<Rightarrow> failed_id E s ''Invalid game_id format''
                | UserInfo s \<Rightarrow> failed_id E s ''Invalid user_id format''
                | Leaderboard a \<Rightarrow> failed_limit a
                | _ \<Rightarrow> Internal_error PendingRollbackErr)))"

text \<open>
  \<open>app.run\<close> serving one request: Flask matches the method and path against the URL rules
  (\<open>None\<close> is its own 404 or 405 page, which touches nothing), and the matched handler runs
  on the container's session. The JWT library signs and checks tokens with the
  application's secret: \<open>Es\<close> gives the token functions for a secret. On a working session
  the handler's writes are committed; a \<open>DataError\<close>, which only a refused commit raises,
  leaves the session failed. A failed session changes nothing and answers \<open>failed_answer\<close>.
\<close>

definition serve ::
  "(string \<Rightarrow> auth_env) \<Rightarrow> (timestamp \<Rightarrow> string) \<Rightarrow> timestamp \<Rightarrow> uuid \<Rightarrow>
   flask_app \<Rightarrow> string \<Rightarrow> string \<Rightarrow> int option \<Rightarrow> http_request \<Rightarrow> flask_app \<times> response option" where
  "serve Es isofmt now nid A m path lmt req =
     (case dispatch m path lmt of
        None \<Rightarrow> (A, None)
      | Some r \<Rightarrow>
          (let c = app_container A; E = Es (app_jwt_secret A) in
           if ct_failed c then (A, Some (failed_answer E now r req))
           else
             (let (st', resp) = handle_request E (ct_jwt c) isofmt now nid (container_session c) r req
              in (A\<lparr>app_container := c\<lparr>ct_db := session_commit (ct_db c) st',
                                        ct_failed := (resp = Internal_error DataErr)\<rparr>\<rparr>, Some resp))))"

text \<open>A request as it arrives: the clock, the \<open>uuid4()\<close> it would draw, the request line,
  the query's \<open>limit\<close>, the header and the body.\<close>

record incoming =
  in_now :: timestamp
  in_nid :: uuid
  in_method :: string
  in_path :: string
  in_limit :: "int option"
  in_req :: http_request

text \<open>Requests served one after another, each seeing what the previous one committed.\<close>

fun serve_all ::
  "(string \<Rightarrow> auth_env) \<Rightarrow> (timestamp \<Rightarrow> string) \<Rightarrow> flask_app \<Rightarrow> incoming list \<Rightarrow>
   flask_app \<times> response option list" where
  "serve_all Es isofmt A [] = (A, [])"
| "serve_all Es isofmt A (q # qs) =
     (let (A', r) = serve Es isofmt (in_now q) (in_nid q) A (in_method q) (in_path q) (in_limit q) (in_req q);
          (A'', rs) = serve_all Es isofmt A' qs
      in (A'', r # rs))"

text \<open>
  The abstract machine the process implements: the handlers run one after another on the
  two tables, each request given as its clock, its \<open>uuid4()\<close>, its route and the request.
\<close>

fun run_handlers ::
  "auth_env \<Rightarrow> jwt_provider \<Rightarrow> (timestamp \<Rightarrow> string) \<Rightarrow> app_state \<Rightarrow>
   (timestamp \<times> uuid \<times> route \<times> http_request) list \<Rightarrow> app_state \<times> response list" where
  "run_handlers E P isofmt st [] = (st, [])"
| "run_handlers E P isofmt st ((now, nid, r, req) # cs) =
     (let (st', resp) = handle_request E P isofmt now nid st r req;
          (st'', rs) = run_handlers E P isofmt st' cs
      in (st'', resp # rs))"

text \<open>The routed calls of a list of arriving requests.\<close>

definition calls_of :: "incoming list \<Rightarrow> (timestamp \<times> uuid \<times> route \<times> http_request) list" where
  "calls_of qs =
     map (\<lambda>q. (in_now q, in_nid q, the (dispatch (in_method q) (in_path q) (in_limit q)), in_req q)) qs"

text \<open>
  The applications one deployment runs through, with the environment variable \<open>env\<close>
  of \<open>JWT_SECRET_KEY\<close> fixed: \<open>main\<close> started on a database with no tables, requests,
  each drawing a \<open>uuid4()\<close> that names no row yet, and restarts of the process on the
  database the previous one committed to.
\<close>

inductive served ::
  "(string \<Rightarrow> auth_env) \<Rightarrow> (timestamp \<Rightarrow> string) \<Rightarrow> string option \<Rightarrow> flask_app \<Rightarrow> bool"
  for Es isofmt env where
  start: "served Es isofmt env (main_app env fresh_database)"
| req: "served Es isofmt env A \<Longrightarrow> map_of (games (container_session (app_container A))) nid = None \<Longrightarrow>
        find_by_id_repo (users (container_session (app_container A))) nid = None \<Longrightarrow>
        served Es isofmt env (fst (serve Es isofmt now nid A m path lmt req))"
| restart: "served Es isofmt env A \<Longrightarrow> served Es isofmt env (main_app env (ct_db (app_container A)))"

section \<open>Serving on a working and on a failed session\<close>

lemma session_commit_read [simp]: "get_db_session (session_commit d st) = st"
  by (simp add: get_db_session_def session_commit_def)

lemma init_db_read [simp]: "get_db_session (init_db d) = get_db_session d"
  by (simp add: get_db_session_def init_db_def)

lemma init_db_tables: "set (db_tables (init_db d)) = set (db_tables d) \<union> set base_tables"
  by (auto simp: init_db_def)

lemma init_db_idem: "init_db (init_db d) = init_db d"
  by (simp add: init_db_def)

lemma serve_config:
  "app_jwt_secret (fst (serve Es isofmt now nid A m path lmt req)) = app_jwt_secret A \<and>
   app_access_expires (fst (serve Es isofmt now nid A m path lmt req)) = app_access_expires A \<and>
   ct_jwt (app_container (fst (serve Es isofmt now nid A m path lmt req))) = ct_jwt (app_container A)"
  by (simp add: serve_def Let_def case_prod_beta split: option.split)

lemma main_app_config:
  "app_jwt_secret (main_app env d) = (case env of None \<Rightarrow> default_secret | Some s \<Rightarrow> s) \<and>
   app_access_expires (main_app env d) = 30 * 60 \<and>
   ct_jwt (app_container (main_app env d)) = container_jwt \<and> \<not> ct_failed (app_container (main_app env d))"
  by (simp add: main_app_def create_app_def container_init_def)

lemma served_config:
  "served Es isofmt env A \<Longrightarrow>
     app_jwt_secret A = (case env of None \<Rightarrow> default_secret | Some s \<Rightarrow> s) \<and>
     app_access_expires A = 30 * 60 \<and> ct_jwt (app_container A) = container_jwt"
proof (induction rule: served.induct)
  case (req A nid now m path lmt req)
  then show ?case using serve_config [of Es isofmt now nid A m path lmt req] by simp
qed (simp_all add: main_app_config)

lemma serve_all_append:
  "serve_all Es isofmt A (qs @ qs') =
     (let (A', rs) = serve_all Es isofmt A qs; (A'', rs') = serve_all Es isofmt A' qs' in (A'', rs @ rs'))"
  by (induction qs arbitrary: A) (simp_all add: Let_def case_prod_beta)

lemma status_err [simp]: "status (err n m) = n"
  by (simp add: err_def)

lemma status_auth_response [simp]: "status (auth_response f) = 401"
  by (simp add: auth_response_def case_prod_beta)

text \<open>No answer of a failed session is a success: each is a refusal by a check that comes
  before the database, or the failure itself.\<close>

lemma failed_parts_not_2xx:
  "status (failed_register b) \<notin> {200..<300}" "status (failed_login b) \<notin> {200..<300}"
  "status (failed_refresh b) \<notin> {200..<300}" "status (failed_create b) \<notin> {200..<300}"
  "status (failed_move E s b) \<notin> {200..<300}" "status (failed_id E s msg) \<notin> {200..<300}"
  "status (failed_limit a) \<notin> {200..<300}"
  by (simp_all add: failed_register_def failed_login_def failed_refresh_def failed_create_def
      failed_move_def failed_id_def failed_limit_def Let_def
      split: option.split json.split prod.split)

lemma failed_answer_not_2xx: "status (failed_answer E now r req) \<notin> {200..<300}"
  using failed_parts_not_2xx [simplified]
  by (cases r) (simp_all add: failed_answer_def split: sum.split)

lemma bearer_require_auth:
  "jwt_contract E \<Longrightarrow>
   require_auth E now (Some (''Bearer '' @ generate_access_token E P t u)) =
     (case authenticate_by_token E now (generate_access_token E P t u) of None \<Rightarrow> Inl Unauthorized | Some uid \<Rightarrow> Inr uid)"
  by (simp add: require_auth_def generate_access_token_def contract_token_nonempty)

lemma dispatch_me: "dispatch ''GET'' ''/auth/me'' lmt = Some Me"
  using dispatch_request_line [of Me lmt] by simp

lemma dispatch_login: "dispatch ''POST'' ''/auth/login'' lmt = Some Login"
  using dispatch_request_line [of Login lmt] by simp

lemma session_commit_self [simp]: "session_commit d (get_db_session d) = d"
  by (simp add: session_commit_def get_db_session_def)

lemma run_handlers_Cons:
  "handle_request E P isofmt now nid st r req = (st', resp) \<Longrightarrow>
   run_handlers E P isofmt st ((now, nid, r, req) # cs) =
     (fst (run_handlers E P isofmt st' cs), resp # snd (run_handlers E P isofmt st' cs))"
  by (simp add: case_prod_beta)


text \<open>
  C6: a session whose commit has failed stays failed, and the process is down until it is
  restarted: every request leaves the application as it is and none is answered with a
  success. A restart, which builds a new container on the database, gives a working
  session over the committed rows, so the outage is visible from outside and ends only
  with the process.
\<close>

theorem failed_session_until_restart:
  assumes failed: "ct_failed (app_container A)"
  shows "fst (serve Es isofmt now nid A m path lmt req) = A \<and>
         pred_option (\<lambda>resp. status resp \<notin> {200..<300}) (snd (serve Es isofmt now nid A m path lmt req)) \<and>
         \<not> ct_failed (app_container (main_app env (ct_db (app_container A)))) \<and>
         container_session (app_container (main_app env (ct_db (app_container A)))) = container_session (app_container A)"
  using failed failed_answer_not_2xx
  by (simp add: serve_def main_app_def create_app_def container_init_def container_session_def
      get_db_session_def init_db_def split: option.split)

text \<open>
  C32: the application configures flask_jwt_extended with access tokens of 30 minutes,
  but every token it issues comes from the container's \<open>JwtProvider\<close>, which passes its
  own \<open>expires_delta\<close> of 15 minutes. A token the application issued at \<open>t\<close> for user
  \<open>u\<close> passes \<open>require_auth\<close> on \<open>GET /auth/me\<close> at \<open>t + 899\<close> (the route then answers
  from the users table, or with 500 on a failed session) and is refused with 401 at
  \<open>t + 900\<close>; neither request changes the application.
\<close>

theorem served_access_window:
  assumes s: "served Es isofmt env A" and c: "jwt_contract (Es (app_jwt_secret A))"
  shows "app_access_expires A = 30 * 60 \<and>
         serve Es isofmt (t + 899) nid A ''GET'' ''/auth/me'' lmt
           \<lparr>req_auth = Some (''Bearer '' @ generate_access_token (Es (app_jwt_secret A)) (ct_jwt (app_container A)) t u),
            req_body = b\<rparr> =
           (A, Some (if ct_failed (app_container A) then Internal_error PendingRollbackErr
                     else me_route (Es (app_jwt_secret A)) (users (container_session (app_container A))) (user_id u))) \<and>
         serve Es isofmt (t + 900) nid A ''GET'' ''/auth/me'' lmt
           \<lparr>req_auth = Some (''Bearer '' @ generate_access_token (Es (app_jwt_secret A)) (ct_jwt (app_container A)) t u),
            req_body = b\<rparr> =
           (A, Some (auth_response Unauthorized))"
proof -
  have cfg: "app_access_expires A = 30 * 60" "ct_jwt (app_container A) = container_jwt"
    using served_config [OF s] by simp_all
  have w: "authenticate_by_token (Es (app_jwt_secret A)) (t + 899) (generate_access_token (Es (app_jwt_secret A)) container_jwt t u) = Some (user_id u)"
          "authenticate_by_token (Es (app_jwt_secret A)) (t + 900) (generate_access_token (Es (app_jwt_secret A)) container_jwt t u) = None"
    using container_token_windows [OF c, of t u] by simp_all
  have r: "require_auth (Es (app_jwt_secret A)) (t + 899)
              (Some (''Bearer '' @ generate_access_token (Es (app_jwt_secret A)) container_jwt t u)) = Inr (user_id u)"
          "require_auth (Es (app_jwt_secret A)) (t + 900)
              (Some (''Bearer '' @ generate_access_token (Es (app_jwt_secret A)) container_jwt t u)) = Inl Unauthorized"
    using w bearer_require_auth [OF c] by simp_all
  show ?thesis
    using cfg r
    by (simp add: serve_def dispatch_me handle_request_def failed_answer_def container_session_def Let_def
        me_route_def err_def auth_response_def case_prod_beta split: option.split)
qed


abbreviation app0 :: flask_app where
  "app0 \<equiv> main_app None fresh_database"

lemma app0_state:
  "\<not> ct_failed (app_container app0)" "container_session (app_container app0) = \<lparr>games = [], users = []\<rparr>"
  "app_jwt_secret app0 = default_secret" "ct_jwt (app_container app0) = container_jwt"
  by (simp_all add: main_app_def create_app_def container_init_def container_session_def
      get_db_session_def fresh_database_def init_db_def)

abbreviation register_ann_req :: incoming where
  "register_ann_req \<equiv> \<lparr>in_now = 0, in_nid = 1, in_method = ''POST'', in_path = ''/auth/register'', in_limit = None,
     in_req = \<lparr>req_auth = None, req_body = Some (JObj [(''login'', JStr ''ann''), (''password'', JStr ''pw'')])\<rparr>\<rparr>"


theorem failed_session_until_restart_witness:
  "ct_failed (app_container (app0\<lparr>app_container := (app_container app0)\<lparr>ct_failed := True\<rparr>\<rparr>)) \<and>
   fst (serve (\<lambda>_. demo_env) (\<lambda>_. []) 5 2 (app0\<lparr>app_container := (app_container app0)\<lparr>ct_failed := True\<rparr>\<rparr>)
          ''GET'' ''/auth/me'' None \<lparr>req_auth = None, req_body = None\<rparr>) =
     app0\<lparr>app_container := (app_container app0)\<lparr>ct_failed := True\<rparr>\<rparr> \<and>
   \<not> ct_failed (app_container (main_app None (ct_db (app_container app0))))"
  using failed_session_until_restart [where A = "app0\<lparr>app_container := (app_container app0)\<lparr>ct_failed := True\<rparr>\<rparr>"
      and Es = "\<lambda>_. demo_env" and isofmt = "\<lambda>_. []" and now = 5 and nid = 2 and m = "''GET''"
      and path = "''/auth/me''" and lmt = None and req = "\<lparr>req_auth = None, req_body = None\<rparr>" and env = None]
  by simp

theorem served_access_window_witness:
  "served (\<lambda>_. demo_env) (\<lambda>_. []) None app0 \<and> jwt_contract demo_env \<and>
   app_access_expires app0 = 30 * 60 \<and>
   serve (\<lambda>_. demo_env) (\<lambda>_. []) 900 3 app0 ''GET'' ''/auth/me'' None
     \<lparr>req_auth = Some (''Bearer '' @ generate_access_token demo_env container_jwt 0 (user_to_domain (new_user_row demo_env 1 ann))),
      req_body = None\<rparr> =
   (app0, Some (auth_response Unauthorized))"
proof -
  have s: "served (\<lambda>_. demo_env) (\<lambda>_. []) None app0" by (rule served.start)
  have c: "jwt_contract ((\<lambda>_. demo_env) (app_jwt_secret app0))"
    using demo_contract by simp
  show ?thesis
    using s demo_contract served_access_window [OF s c, where t = 0 and nid = 3 and lmt = None
        and u = "user_to_domain (new_user_row demo_env 1 ann)" and b = None]
    by (simp add: main_app_config)
qed


end
