(* ===== verification/Spec2Isabelle.thy ===== *)
theory Spec2Isabelle
  imports Web Service_Api Concurrency App "HOL-Library.Multiset"
begin

text \<open>
  \<^bold>\<open>A verification library for the tic-tac-toe backend.\<close>

  The program (\<open>src/src\<close>) is a Flask service in layers. The domain model holds the
  game (\<open>domain/model/current_game.py\<close>: the \<open>CurrentGame\<close> dataclass; \<open>game_field.py\<close>,
  \<open>player_symbol.py\<close>, \<open>game_state.py\<close>). The game service
  (\<open>domain/service/game_service_impl.py\<close>, class \<open>GameServiceImpl\<close>) holds the rules:
  \<open>create_game\<close>, \<open>join_game\<close> and \<open>make_move\<close> load a game through the repository, check
  the caller's guards, install the client's board, re-evaluate the state
  (\<open>_update_game_state\<close> with \<open>_check_winner_symbol\<close> and \<open>_is_board_full\<close>), let the
  computer answer in a PvC game (\<open>_make_computer_move\<close> with \<open>_minimax\<close>), pass the turn
  in a PvP game and write the game back; the queries and \<open>get_leaderboard\<close> read the
  repository. The repository (\<open>datasource/repository/game_repository.py\<close>) stores games
  as SQLAlchemy rows (\<open>datasource/model/current_game_entity.py\<close>) through a mapper
  (\<open>datasource/mapper/game_mapper.py\<close>) and aggregates the leaderboard. Users live in their own
  table (\<open>datasource/repository/user_repository.py\<close>); \<open>UserService\<close>,
  \<open>AuthService\<close> and \<open>JwtProvider\<close> (\<open>domain/service\<close>) register users, check
  passwords and issue and check JWTs, and \<open>UserAuthenticator.require_auth\<close>
  (\<open>web/module/user_authenticator.py\<close>) turns the Authorization header into the caller's id.
  On top, the Flask controllers (\<open>web/route/game_controller.py\<close>, \<open>auth_controller.py\<close>,
  \<open>user_controller.py\<close>) parse the JSON body, call a service, and shape the answer
  through the DTO mappers (\<open>web/mapper\<close>), translating exceptions into status codes.

  \<^bold>\<open>Theories.\<close>
  \<^item> \<open>Prelude\<close>: the types standing for UUIDs, timestamps and the nested-list board;
    \<open>res_bind\<close>, which chains calls that raise (\<open>Inl\<close>) or return (\<open>Inr\<close>); nested list
    update \<open>set_cell\<close> (\<open>board[i][j] = v\<close>); shared lemmas on lists and association lists.
  \<^item> \<open>Board\<close>: \<open>PlayerSymbol\<close> and its \<open>from_value\<close>, the empty board and \<open>game_field\<close>
    initialisation, \<open>valid_board_format\<close> (the 3x3 check of \<open>make_move\<close>), \<open>check_winner_symbol\<close> (rows, columns,
    diagonals in the code's order), \<open>is_board_full\<close> and the empty cells. A reference
    definition \<open>winner_spec\<close> over the eight winning lines; C1 proves the checker
    equal to it.
  \<^item> \<open>Game\<close>: the \<open>CurrentGame\<close> record, its enums with their string values and
    \<open>_update_game_state\<close>, the transition on a new board; the invariant \<open>game_inv\<close> and its
    preservation by the transition.
  \<^item> \<open>Minimax\<close>: scores as \<open>-inf | int | +inf\<close> (Python's \<open>float('-inf')\<close> start values),
    \<open>minimax\<close> as a terminating function (the measure is the number of empty cells, which
    every recursive call lowers by one), the move choice as the code's loop with its strict
    comparison, and C4, C5 and C7: bounded scores, first best move, totality.
  \<^item> \<open>Persistence\<close>: the entity record, the mapper both ways, the repository's save (an
    upsert that keeps the first \<open>created_at\<close>), loads, queries and leaderboard aggregation
    over a table modelled as an association list in storage order; the table invariant
    \<open>store_inv\<close> (each row under its own id, every row a well-formed game).
  \<^item> \<open>Field_Entity\<close>: the \<open>game_fields\<close> row, whose board is JSON text; \<open>json.dumps\<close> and
    \<open>json.loads\<close> on integer matrices (a printer and a parser whose array loop is a
    \<open>function\<close> terminating on the length of the input), and the lemma that what the
    setter writes reads back as the same board in a later session, which is why
    \<open>Persistence\<close> may keep the board itself in its rows.
  \<^item> \<open>Service\<close>: the \<open>GameServiceImpl\<close> methods with every raise as an error value and
    every write as an upsert, in the code's order; the pure transitions \<open>move_result\<close>,
    \<open>computer_step\<close> and \<open>joined\<close> with the refinement lemmas showing each method's writes
    amount to one write of them; the step relation \<open>service_step\<close> of successful calls and
    \<open>reachable\<close>, the tables reached from an empty one, with the invariant proved by
    rule induction.
  \<^item> \<open>Service_Api\<close>: \<open>GameServiceInterface\<close> as a datatype of its seven methods and
    \<open>game_service\<close>, its implementation; the queries write nothing and the steps of
    \<open>service_step\<close> are exactly the successful writing calls.
  \<^item> \<open>Concurrency\<close>: \<open>make_move\<close> split into its read-and-check step \<open>mm_prepare\<close> and
    its commit \<open>mm_commit\<close>, and \<open>conc_step\<close>, the interleavings of a list of concurrent
    requests; a request run on its own is \<open>make_move\<close>. \<open>create_user\<close>'s check and insert
    likewise, with two concurrent registrations of one login both inserting it.
  \<^item> \<open>Users\<close>: the users table, \<open>UserService\<close>, \<open>JwtProvider\<close>, \<open>AuthService\<close> and
    \<open>require_auth\<close>. SHA-256, the JWT library and UUID text conversion are the fields of a
    parameter \<open>auth_env\<close>, constrained by \<open>jwt_contract\<close>, the properties the code relies
    on (a token decodes to its claims until it expires, UUIDs print and parse back); the
    concrete codec \<open>demo_env\<close> meets it, so the hypothesis is satisfiable and the witnesses
    run. The \<open>String(100)\<close> columns of \<open>users\<close> are \<open>row_fits\<close>: a commit of a row that
    does not fit raises \<open>DataError\<close> (\<open>ValueTooLong\<close>), which \<open>AuthService.register\<close>
    lets escape. \<open>users_reachable\<close> is the users tables reached by registrations; C26 to
    C31 cover unique logins, login after registration, token lifetimes and the header
    check, and C38 the column width.
  \<^item> \<open>Dto\<close>: JSON values and Python's truthiness, membership and indexing on them; the
    responses (\<open>Json status body\<close>, \<open>Internal_error\<close> for an exception a handler turns
    into a 500, \<open>Unmodelled\<close> where a value the typed model cannot carry reaches the
    service); the DTOs and mappers (\<open>GameInfoDto\<close>, \<open>AvailableGameDto\<close>,
    \<open>GameHistoryDto\<close>, \<open>LeaderboardEntryDto\<close>, the JSON objects of the lists, the
    request DTOs with \<open>AuthMapper\<close> and \<open>JwtMapper\<close>, which the auth routes go through, \<open>CurrentGameDTO\<close>/\<open>GameFieldDTO\<close> with \<open>WebGameMapper\<close>); a lemma bounds
    the win-ratio rounding.
  \<^item> \<open>Web\<close>: every handler of the three controllers, each as the code orders its checks,
    service call and \<open>try/except\<close> translation, and \<open>handle_request\<close>, the application as
    one step on the state record \<open>app_state\<close> (games table, users table) with
    \<open>require_auth\<close> in front of the protected routes; \<open>app_reachable\<close> is the states reached
    by requests; the URL routing of the three blueprints with Werkzeug's precedence of
    static segments (\<open>dispatch\<close>), which every endpoint's request line reaches. C33 to C37:
    the auth guard, refinement of the services by the HTTP layer (every request is at most
    one \<open>service_step\<close> and one registration), the application invariant, the move route
    end to end, no 500 for well-typed bodies but the registration a column refuses.
  \<^item> \<open>App\<close>: the process. The database (\<open>datasource/database.py\<close>) as its tables and
    committed rows, with \<open>init_db\<close> (\<open>create_all\<close>: creates the missing tables, keeps
    the rest) and the session, which reads the committed rows and commits what a handler
    writes (\<open>get_db_session\<close>, \<open>session_commit\<close>); \<open>Container.__init__\<close>
    (\<open>di/container.py\<close>) as \<open>container_init\<close>: one session, the 15-minute provider,
    and the session's failed state (\<open>ct_failed\<close>) once a commit has raised, after which
    every query raises \<open>PendingRollbackError\<close> because no code calls \<open>rollback()\<close>;
    \<open>failed_answer\<close> is each route's answer then (its own checks, then 500, or 401 where
    \<open>AuthService\<close> swallows the exception); \<open>create_app\<close> (\<open>web/module/app.py\<close>)
    with its secret and configured lifetimes; \<open>main_app\<close> (\<open>main.py\<close>) and
    \<open>serve\<close>, one request dispatched by URL and handled on the container's session;
    \<open>serve_all\<close>, requests one after another; \<open>run_handlers\<close>, the handlers alone run
    in sequence on the tables; and \<open>served\<close>, the life of a deployment. C2: the process
    implements the handlers (a refinement by induction on the requests); C6: after a
    failed commit the process answers no request with success until a restart, which
    brings it back over the committed rows; C39: one registration of an overlong login
    causes that, after which correct credentials get 401; C32: the application's tokens
    expire after the container's 15 minutes, not the 30 minutes \<open>create_app\<close>
    configures.
  \<^item> This theory: the lifecycle properties over reachable tables (C8 to C25), the
    termination of games played by the rules (C3: a well-founded relation, every legal move
    lowers the empty cells), the liveness of running games (C40), and the lost update of two
    concurrent moves, each with a witness on a concrete table built from the empty one by
    service calls.

  \<^bold>\<open>Modelling choices.\<close> UUIDs are natural numbers and timestamps natural numbers, since
  the code only compares and stores them; a fresh \<open>uuid4()\<close> is a hypothesis of the create
  step. Python's win ratio (a float) is a rational. Kernel evaluation of \<open>minimax\<close> is
  exponential in the empty cells, so the concrete scenarios use boards with at most five
  empty cells; the general properties hold for every board. \<open>round(x, 3)\<close> is rounding to
  the nearest thousandth with ties to even on the rational ratio; on the float, a tie that is
  not exactly representable is decided by binary rounding, so the last digit can differ.
  A request body is the JSON value \<open>request.get_json()\<close> returns, \<open>None\<close> where it
  raises. A query without \<open>ORDER BY\<close> returns rows in an order the database does not
  define; the model fixes it as storage order, where updates keep a row in its place. Of
  the column bounds only those of \<open>users\<close> can be exceeded: the game columns hold a
  36-character UUID text and enum values of at most 18 characters. Modules the code imports that the sources lack (\<open>domain/model/game_type.py\<close>,
  \<open>sign_up_request.py\<close> and several DTO classes of \<open>web/model\<close>) are modelled from
  their use in the code and from the spec.

  \<^bold>\<open>Not modelled.\<close> The SQL engine itself (connections, SQL text, \<open>echo\<close>):
  the database is its tables and committed rows. \<open>Container.close\<close> and the container's
  property aliases: every write is committed at once, so closing the session loses
  nothing, and the aliases return the objects \<open>container_init\<close> builds. The host, port
  and debug flags of \<open>app.run\<close>, and the flask_jwt_extended \<open>JWTManager\<close> beyond the
  secret it signs with: no route uses its decorators. SHA-256 and the JWT library are the parameters above. HTTP methods other than GET and
  POST, trailing slashes, and the conversion of the \<open>limit\<close> query argument are left to
  Flask. Concurrency is modelled for \<open>make_move\<close> and registration, the two operations
  whose check and write the spec leaves unsynchronised.
\<close>

section \<open>Legal moves\<close>

text \<open>
  The move the rules of the game mean (the spec's state machine): the submitted board is
  the stored one with one empty cell marked with a non-zero value. \<open>make_move\<close> does not
  check this (it accepts any 3x3 board); the predicate is used only to state what the code
  guarantees for clients that play by the rules.
\<close>

definition legal_board :: "board \<Rightarrow> board \<Rightarrow> bool" where
  "legal_board old b \<longleftrightarrow>
     list_ex (\<lambda>c. cell_at b c \<noteq> 0 \<and> b = set_cell old (fst c) (snd c) (cell_at b c)) (empty_cells old)"

section \<open>Scenario games\<close>

abbreviation demo_pvp :: current_game where
  "demo_pvp \<equiv> \<lparr>game_id = 1, game_field = empty_board, game_type = PVP, game_state = PLAYER_TURN,
     player1_id = 10, player2_id = Some 11, player1_symbol = X, player2_symbol = O',
     current_player_id = Some 10, winner_id = None, created_at = 0\<rparr>"

abbreviation demo_board :: board where
  "demo_board \<equiv> [[1, 0, 0], [0, 0, 0], [0, 0, 0]]"

abbreviation demo_after :: current_game where
  "demo_after \<equiv> demo_pvp\<lparr>game_field := demo_board, current_player_id := Some 11\<rparr>"

abbreviation other_board :: board where
  "other_board \<equiv> [[0, 1, 0], [0, 0, 0], [0, 0, 0]]"

abbreviation demo_other :: current_game where
  "demo_other \<equiv> demo_pvp\<lparr>game_field := other_board, current_player_id := Some 11\<rparr>"

abbreviation demo_won :: current_game where
  "demo_won \<equiv> demo_pvp\<lparr>game_field := [[1, 1, 1], [0, 0, 0], [0, 0, 0]], game_state := PLAYER_WON,
                        current_player_id := None, winner_id := Some 10\<rparr>"

abbreviation demo_pvc :: current_game where
  "demo_pvc \<equiv> \<lparr>game_id = 2, game_field = empty_board, game_type = PVC, game_state = PLAYER_TURN,
     player1_id = 20, player2_id = None, player1_symbol = X, player2_symbol = O',
     current_player_id = Some 20, winner_id = None, created_at = 0\<rparr>"

abbreviation pvc_board :: board where
  "pvc_board \<equiv> [[1, 2, 1], [1, 2, 0], [2, 0, 0]]"

abbreviation demo_pvc_after :: current_game where
  "demo_pvc_after \<equiv> demo_pvc\<lparr>game_field := [[1, 2, 1], [1, 2, 0], [2, 2, 0]], game_state := PLAYER_WON,
                                current_player_id := None\<rparr>"

abbreviation draw_board :: board where
  "draw_board \<equiv> [[1, 2, 1], [1, 2, 2], [2, 1, 1]]"

abbreviation demo_draw :: current_game where
  "demo_draw \<equiv> demo_pvp\<lparr>game_field := draw_board, game_state := DRAW, current_player_id := None\<rparr>"

abbreviation demo_open :: current_game where
  "demo_open \<equiv> \<lparr>game_id = 1, game_field = empty_board, game_type = PVP, game_state = WAITING_FOR_PLAYER,
     player1_id = 10, player2_id = None, player1_symbol = X, player2_symbol = O',
     current_player_id = None, winner_id = None, created_at = 0\<rparr>"

section \<open>Scenario tables\<close>

lemma demo_inv: "game_inv demo_pvp"
  using empty_board_facts by (simp add: game_inv_def turn_ok_def)

lemma demo_store_inv: "store_inv [(1, to_entity demo_pvp)]"
  using store_inv_write [of "[]" demo_pvp] demo_inv by (simp add: store_inv_def)

lemma demo_get: "get_game_svc [(1, to_entity demo_pvp)] 1 = Some demo_pvp"
  using get_game_svc_update [of demo_pvp 1 "[]"] empty_board_facts by simp

lemma demo_load: "load_game [(1, to_entity demo_pvp)] 1 = Inr demo_pvp"
  using load_game_svc [OF demo_store_inv, of 1] demo_get by simp

lemma demo_board_facts:
  "board_wf demo_board" "check_winner_symbol demo_board = None" "\<not> is_board_full demo_board"
  by (simp_all add: board_wf_def check_winner_symbol_def row_win_def col_win_def
      is_board_full_def board_cells_def upt_3)

lemma demo_result: "move_result demo_pvp 10 demo_board = demo_after"
  using demo_board_facts
  by (simp add: move_result_first update_game_state_def is_game_over_def get_opponent_id_def)

lemma demo_move:
  "make_move [(1, to_entity demo_pvp)] 1 10 demo_board = Inr ([(1, to_entity demo_after)], demo_after)"
  using demo_result make_move_cases [OF demo_store_inv demo_load] demo_board_facts
  by (simp add: is_game_over_def is_player_turn_def)

lemma demo_other_result: "move_result demo_pvp 10 other_board = demo_other"
proof -
  have "check_winner_symbol other_board = None" "\<not> is_board_full other_board" "board_wf other_board"
    by code_simp+
  then show ?thesis
    by (simp add: move_result_first update_game_state_def is_game_over_def get_opponent_id_def)
qed

lemma demo_prepare:
  "mm_prepare [(1, to_entity demo_pvp)] 1 10 demo_board = Inr demo_after"
  "mm_prepare [(1, to_entity demo_pvp)] 1 10 other_board = Inr demo_other"
proof -
  have "board_wf demo_board" "board_wf other_board" by code_simp+
  then show "mm_prepare [(1, to_entity demo_pvp)] 1 10 demo_board = Inr demo_after"
    "mm_prepare [(1, to_entity demo_pvp)] 1 10 other_board = Inr demo_other"
    using demo_load demo_result demo_other_result
    by (simp_all add: mm_prepare_def is_game_over_def is_player_turn_def valid_board_format_wf)
qed

lemma demo_reachable: "reachable [(1, to_entity demo_pvp)]"
proof -
  let ?ng = "new_game 1 0 10 PVP"
  have inv0: "store_inv []" by (simp add: store_inv_def)
  have p0: "persisted [] ?ng = ?ng" by (simp add: persisted_def stored_created_def to_entity_def)
  have c: "create_game [] 1 0 10 PVP = Inr ([(1, to_entity ?ng)], ?ng)"
    using create_game_eq [OF inv0, of 1 0 10 PVP] p0 by (simp add: new_game_def)
  have r1: "reachable [(1, to_entity ?ng)]"
    using reachable.step [OF reachable.init service_step.create [OF _ c]] by simp
  have inv1: "store_inv [(1, to_entity ?ng)]" by (rule reachable_store_inv [OF r1])
  have ld: "load_game [(1, to_entity ?ng)] 1 = Inr ?ng"
    using load_game_svc [OF inv1, of 1] get_game_svc_update [of ?ng 1 "[]"] empty_board_facts
    by (simp add: new_game_def game_field_init_def)
  have j: "join_game [(1, to_entity ?ng)] 1 11 = Inr ([(1, to_entity demo_pvp)], demo_pvp)"
    using join_game_eq [OF inv1 ld, of 11] empty_board_facts
    by (simp add: new_game_def joined_def game_field_init_def)
  show ?thesis using reachable.step [OF r1 service_step.join [OF j]] .
qed

lemma demo_won_move:
  "make_move [(1, to_entity demo_pvp)] 1 10 [[1, 1, 1], [0, 0, 0], [0, 0, 0]] =
     Inr ([(1, to_entity demo_won)], demo_won)"
proof -
  have "move_result demo_pvp 10 [[1, 1, 1], [0, 0, 0], [0, 0, 0]] = demo_won"
    by (simp add: move_result_first update_game_state_def is_game_over_def
        check_winner_symbol_def row_win_def upt_3)
  then show ?thesis
    using make_move_cases [OF demo_store_inv demo_load]
    by (simp add: is_game_over_def is_player_turn_def board_wf_def)
qed

lemma demo_won_reachable: "reachable [(1, to_entity demo_won)]"
  using reachable.step [OF demo_reachable service_step.move [OF demo_won_move]] .

lemma demo_won_get: "get_game_svc [(1, to_entity demo_won)] 1 = Some demo_won"
  using get_game_svc_update [of demo_won 1 "[]"] by simp

lemma demo_pvc_reachable: "reachable [(2, to_entity demo_pvc)]"
proof -
  have ng: "new_game 2 0 20 PVC = demo_pvc"
    using empty_board_facts by (simp add: new_game_def game_field_init_def)
  have p0: "persisted [] demo_pvc = demo_pvc" by (simp add: persisted_def stored_created_def to_entity_def)
  have c: "create_game [] 2 0 20 PVC = Inr ([(2, to_entity demo_pvc)], demo_pvc)"
    using create_game_eq [of "[]" 2 0 20 PVC] ng p0 by (simp add: store_inv_def)
  show ?thesis using reachable.step [OF reachable.init service_step.create [OF _ c]] by simp
qed

lemma demo_pvc_get: "get_game_svc [(2, to_entity demo_pvc)] 2 = Some demo_pvc"
  using get_game_svc_update [of demo_pvc 2 "[]"] empty_board_facts by simp

lemma pvc_choice: "choose_move [[1, 2, 1], [1, 2, 0], [2, 0, 0]] O' X = Some (2, 1)"
  by code_simp

lemma pvc_board_facts:
  "board_wf pvc_board" "check_winner_symbol pvc_board = None" "\<not> is_board_full pvc_board"
  by (simp_all add: board_wf_def check_winner_symbol_def row_win_def col_win_def
      is_board_full_def board_cells_def upt_3)

lemma demo_pvc_move:
  "make_move [(2, to_entity demo_pvc)] 2 20 pvc_board = Inr ([(2, to_entity demo_pvc_after)], demo_pvc_after)"
proof -
  have inv: "store_inv [(2, to_entity demo_pvc)]"
    by (rule reachable_store_inv [OF demo_pvc_reachable])
  have ld: "load_game [(2, to_entity demo_pvc)] 2 = Inr demo_pvc"
    using load_game_svc [OF inv, of 2] demo_pvc_get by simp
  have w: "check_winner_symbol [[1, 2, 1], [1, 2, 0], [2, 2, 0]] = Some 2"
    by (simp add: check_winner_symbol_def row_win_def col_win_def upt_3)
  have "move_result demo_pvc 20 pvc_board = demo_pvc_after"
    using pvc_board_facts pvc_choice w
    by (simp add: move_result_first update_game_state_def is_game_over_def computer_step_def
        set_cell_def)
  then show ?thesis
    using make_move_cases [OF inv ld] pvc_board_facts by (simp add: is_game_over_def is_player_turn_def)
qed

lemma draw_board_facts:
  "board_wf draw_board" "check_winner_symbol draw_board = None" "is_board_full draw_board"
  by (simp_all add: board_wf_def check_winner_symbol_def row_win_def col_win_def
      is_board_full_def board_cells_def upt_3)

lemma demo_draw_move:
  "make_move [(1, to_entity demo_pvp)] 1 10 draw_board = Inr ([(1, to_entity demo_draw)], demo_draw)"
proof -
  have "move_result demo_pvp 10 draw_board = demo_draw"
    using draw_board_facts by (simp add: move_result_first update_game_state_def is_game_over_def)
  then show ?thesis
    using make_move_cases [OF demo_store_inv demo_load] draw_board_facts
    by (simp add: is_game_over_def is_player_turn_def)
qed

lemma demo_won_step:
  "service_step [(1, to_entity demo_won)] [(1, to_entity demo_won), (2, to_entity demo_pvc)]"
proof -
  have inv: "store_inv [(1, to_entity demo_won)]" by (rule reachable_store_inv [OF demo_won_reachable])
  have ng: "new_game 2 0 20 PVC = demo_pvc"
    using empty_board_facts by (simp add: new_game_def game_field_init_def)
  have p: "persisted [(1, to_entity demo_won)] demo_pvc = demo_pvc"
    by (simp add: persisted_def stored_created_def to_entity_def)
  have "create_game [(1, to_entity demo_won)] 2 0 20 PVC =
          Inr ([(1, to_entity demo_won), (2, to_entity demo_pvc)], demo_pvc)"
    using create_game_eq [OF inv, of 2 0 20 PVC] ng p by simp
  then show ?thesis by (rule service_step.create [rotated]) simp
qed

lemma demo_open_new: "new_game 1 0 10 PVP = demo_open"
  using empty_board_facts by (simp add: new_game_def game_field_init_def)

lemma demo_create: "create_game [] 1 0 10 PVP = Inr ([(1, to_entity demo_open)], demo_open)"
proof -
  have "persisted [] demo_open = demo_open" by (simp add: persisted_def stored_created_def to_entity_def)
  then show ?thesis using create_game_eq [of "[]" 1 0 10 PVP] demo_open_new by (simp add: store_inv_def)
qed

lemma demo_open_store_inv: "store_inv [(1, to_entity demo_open)]"
  using store_inv_write [of "[]" demo_open, OF _ game_inv_new_game [of 1 0 10 PVP, unfolded demo_open_new]]
  by (simp add: store_inv_def)

lemma demo_open_get: "get_game_svc [(1, to_entity demo_open)] 1 = Some demo_open"
  using get_game_svc_update [of demo_open 1 "[]"] empty_board_facts by simp

lemma demo_two_inv: "store_inv [(1, to_entity demo_won), (2, to_entity demo_pvc)]"
  by (rule reachable_store_inv [OF reachable.step [OF demo_won_reachable demo_won_step]])

lemma demo_two_domain:
  "to_domain (to_entity demo_won) = Some demo_won" "to_domain (to_entity demo_pvc) = Some demo_pvc"
  using empty_board_facts by (simp_all add: to_domain_to_entity)

lemma demo_two_leaderboard:
  "repo_get_leaderboard [(1, to_entity demo_won), (2, to_entity demo_pvc)] 10 = [(10, 1, 1, 1), (11, 0, 0, 1)]"
  by (simp add: repo_get_leaderboard_def to_entity_def is_completed_row_def tally_game_def bump_stats_def
      leader_rows_def sort_leaders_def)

section \<open>Service lifecycle properties\<close>

text \<open>
  C8: on a consistent table, \<open>make_move\<close> raises GameNotFound for an unknown id,
  then GameAlreadyOver, NotYourTurn and InvalidBoardFormat in the order of its guards, and
  otherwise writes the single row \<open>move_result\<close> of the loaded game, the
  separate writes of the code amounting to one.
\<close>

theorem make_move_spec:
  assumes inv: "store_inv st"
  shows "make_move st gid pid b =
    (case get_game_svc st gid of
       None \<Rightarrow> Inl GameNotFound
     | Some g \<Rightarrow>
         if is_game_over g then Inl GameAlreadyOver
         else if \<not> is_player_turn g pid then Inl NotYourTurn
         else if \<not> board_wf b then Inl InvalidBoardFormat
         else Inr (AList.update gid (to_entity (move_result g pid b)) st, move_result g pid b))"
proof (cases "get_game_svc st gid")
  case None
  then show ?thesis using load_game_svc [OF inv, of gid] make_move_load_Inl by simp
next
  case (Some g)
  then show ?thesis using load_game_svc [OF inv, of gid] make_move_cases [OF inv] by simp
qed

theorem make_move_spec_witness:
  "store_inv [(1, to_entity demo_pvp)] \<and>
   make_move [(1, to_entity demo_pvp)] 1 11 [[1, 0, 0], [0, 0, 0], [0, 0, 0]] = Inl NotYourTurn"
  using demo_store_inv make_move_spec [OF demo_store_inv, of 1 11 "[[1, 0, 0], [0, 0, 0], [0, 0, 0]]"] demo_get
  by (simp add: is_game_over_def is_player_turn_def)

text \<open>
  C9: after a successful move the stored row of the game reads back as the returned game,
  and every other row of the table is unchanged.
\<close>

theorem make_move_persists:
  assumes inv: "store_inv st" and ok: "make_move st gid pid b = Inr (st', g')"
  shows "get_game_svc st' gid = Some g' \<and> (\<forall>k. k \<noteq> gid \<longrightarrow> map_of st' k = map_of st k)"
proof (cases "get_game_svc st gid")
  case None
  then show ?thesis using ok load_game_svc [OF inv, of gid] make_move_load_Inl by simp
next
  case (Some g)
  from make_move_Inr [OF inv Some ok] have "game_inv g'" and "st' = AList.update gid (to_entity g') st"
    using move_result_inv by auto
  then show ?thesis using get_game_svc_update game_inv_board_nonempty by auto
qed

theorem make_move_persists_witness:
  "store_inv [(1, to_entity demo_pvp)] \<and>
   make_move [(1, to_entity demo_pvp)] 1 10 demo_board = Inr ([(1, to_entity demo_after)], demo_after) \<and>
   get_game_svc [(1, to_entity demo_after)] 1 = Some demo_after \<and>
   map_of ([(1, to_entity demo_after)] :: game_store) 2 = map_of ([(1, to_entity demo_pvp)] :: game_store) 2"
  using demo_store_inv demo_move make_move_persists [OF demo_store_inv demo_move] by simp

text \<open>
  C10: every game stored in a table the service can reach from an empty one satisfies the
  game invariant \<open>game_inv\<close>: 3x3 board, X/O symbols, and per state the players,
  turn, winner and board contents that state promises.
\<close>

theorem reachable_game_inv:
  "reachable st \<Longrightarrow> get_game_svc st gid = Some g \<Longrightarrow> game_inv g"
  using load_game_svc [of st gid] load_game_Inr [of st gid g] reachable_store_inv by auto

theorem reachable_game_inv_witness:
  "reachable [(1, to_entity demo_pvp)] \<and> get_game_svc [(1, to_entity demo_pvp)] 1 = Some demo_pvp \<and>
   game_inv demo_pvp"
  using demo_reachable demo_get reachable_game_inv [OF demo_reachable demo_get] by simp

text \<open>
  C11: a finished game (DRAW or PLAYER_WON) is absorbing: every further move raises
  GameAlreadyOver and every join raises NotAvailableForJoining.
\<close>

theorem terminal_absorbing:
  assumes r: "reachable st" and g: "get_game_svc st gid = Some g" and over: "is_game_over g"
  shows "make_move st gid pid b = Inl GameAlreadyOver \<and> join_game st gid q = Inl NotAvailableForJoining"
proof -
  have inv: "store_inv st" by (rule reachable_store_inv [OF r])
  have ld: "load_game st gid = Inr g" using load_game_svc [OF inv, of gid] g by simp
  have "game_state g \<noteq> WAITING_FOR_PLAYER" using over by (auto simp: is_game_over_def)
  then show ?thesis
    using make_move_cases [OF inv ld] over ld by (simp add: join_game_def)
qed

theorem terminal_absorbing_witness:
  "reachable [(1, to_entity demo_won)] \<and> get_game_svc [(1, to_entity demo_won)] 1 = Some demo_won \<and>
   is_game_over demo_won \<and>
   make_move [(1, to_entity demo_won)] 1 11 [[1, 1, 1], [2, 2, 2], [0, 0, 0]] = Inl GameAlreadyOver \<and>
   join_game [(1, to_entity demo_won)] 1 12 = Inl NotAvailableForJoining"
  using demo_won_reachable demo_won_get
    terminal_absorbing [OF demo_won_reachable demo_won_get, of 11 "[[1, 1, 1], [2, 2, 2], [0, 0, 0]]" 12]
  by (simp add: is_game_over_def)

text \<open>
  C12: no successful service call changes the stored row of a finished game.
\<close>

theorem terminal_row_stable:
  assumes r: "reachable st" and step: "service_step st st'"
    and g: "get_game_svc st gid = Some g" and over: "is_game_over g"
  shows "get_game_svc st' gid = Some g"
proof -
  have inv: "store_inv st" by (rule reachable_store_inv [OF r])
  obtain k h where st': "st' = AList.update k (to_entity h) st"
    and live: "\<And>g. get_game_svc st k = Some g \<Longrightarrow> \<not> is_game_over g"
    using service_step_write [OF step inv] by metis
  have "k \<noteq> gid" using live g over by auto
  then show ?thesis using st' g get_game_svc_update_other by simp
qed

theorem terminal_row_stable_witness:
  "reachable [(1, to_entity demo_won)] \<and>
   service_step [(1, to_entity demo_won)] [(1, to_entity demo_won), (2, to_entity demo_pvc)] \<and>
   get_game_svc [(1, to_entity demo_won)] 1 = Some demo_won \<and> is_game_over demo_won \<and>
   get_game_svc [(1, to_entity demo_won), (2, to_entity demo_pvc)] 1 = Some demo_won"
  using terminal_row_stable [OF demo_won_reachable demo_won_step demo_won_get] demo_won_reachable
    demo_won_step demo_won_get
  by (simp add: is_game_over_def)

text \<open>
  C13: in a PvP game a move by the player whose turn it is that neither wins nor fills the
  board installs the board and passes the turn to the other player of the game.
\<close>

theorem pvp_turn_alternates:
  assumes r: "reachable st" and g: "get_game_svc st gid = Some g" and pvp: "game_type g = PVP"
    and ok: "make_move st gid pid b = Inr (st', g')"
    and nw: "check_winner_symbol b = None" and nf: "\<not> is_board_full b"
  shows "game_field g' = b \<and> game_state g' = PLAYER_TURN \<and> current_player_id g = Some pid \<and>
         (\<exists>q. current_player_id g' = Some q \<and> q \<noteq> pid \<and> {pid, q} = {player1_id g, the (player2_id g)})"
proof -
  from make_move_reachable_Inr [OF r g ok]
  have inv: "game_inv g" and st: "game_state g = PLAYER_TURN" and cur: "current_player_id g = Some pid"
    and res: "g' = move_result g pid b" by auto
  have u: "update_game_state (g\<lparr>game_field := b\<rparr>) = g\<lparr>game_field := b\<rparr>"
    using nw nf by (simp add: update_game_state_ongoing)
  have "g' = g\<lparr>game_field := b, current_player_id := get_opponent_id g pid\<rparr>"
    using res st pvp by (simp add: move_result_first u is_game_over_def)
  then show ?thesis using get_opponent_id_turn [OF inv pvp st cur] st cur by auto
qed

theorem pvp_turn_alternates_witness:
  "reachable [(1, to_entity demo_pvp)] \<and> get_game_svc [(1, to_entity demo_pvp)] 1 = Some demo_pvp \<and>
   game_type demo_pvp = PVP \<and>
   make_move [(1, to_entity demo_pvp)] 1 10 demo_board = Inr ([(1, to_entity demo_after)], demo_after) \<and>
   check_winner_symbol demo_board = None \<and> \<not> is_board_full demo_board \<and>
   current_player_id demo_after = Some 11"
  using pvp_turn_alternates [OF demo_reachable demo_get _ demo_move] demo_reachable demo_get demo_move
    demo_board_facts
  by simp

text \<open>
  C14: in a PvC game a human move that neither wins nor fills the board is answered by the
  computer: it plays O on the cell \<open>choose_move\<close> picks, which is empty, and the
  state is re-evaluated on that board.
\<close>

theorem pvc_computer_replies:
  assumes r: "reachable st" and g: "get_game_svc st gid = Some g" and pvc: "game_type g = PVC"
    and ok: "make_move st gid pid b = Inr (st', g')"
    and nw: "check_winner_symbol b = None" and nf: "\<not> is_board_full b"
  shows "\<exists>c. choose_move b O' X = Some c \<and> c \<in> set (empty_cells b) \<and>
             g' = update_game_state (g\<lparr>game_field := set_cell b (fst c) (snd c) 2\<rparr>)"
proof -
  from make_move_reachable_Inr [OF r g ok]
  have inv: "game_inv g" and st: "game_state g = PLAYER_TURN" and wf: "board_wf b"
    and res: "g' = move_result g pid b" by auto
  have sym: "player1_symbol g = X" "player2_symbol g = O'" using inv by (simp_all add: game_inv_def)
  have cur: "current_player_id g = Some (player1_id g)" by (rule pvc_turn_first [OF inv pvc st])
  obtain c where c: "choose_move b O' X = Some c" using choose_move_exists [OF wf nf] by blast
  have u: "update_game_state (g\<lparr>game_field := b\<rparr>) = g\<lparr>game_field := b\<rparr>"
    using nw nf by (simp add: update_game_state_ongoing)
  define g2 where "g2 = update_game_state (g\<lparr>game_field := set_cell b (fst c) (snd c) 2\<rparr>)"
  have cur2: "\<not> is_game_over g2 \<Longrightarrow> current_player_id g2 = Some (player1_id g2)"
    using cur by (auto simp: g2_def update_game_state_def Let_def is_game_over_def split: option.splits)
  have "g' = (if \<not> is_game_over g2 then g2\<lparr>current_player_id := Some (player1_id g2)\<rparr> else g2)"
    using res st pvc c sym
    by (simp add: move_result_first u is_game_over_def computer_step_def g2_def)
  then have "g' = g2" using cur2 current_player_id_update_same by auto
  then show ?thesis using c choose_move_in_empty [OF c wf] g2_def by blast
qed

theorem pvc_computer_replies_witness:
  "reachable [(2, to_entity demo_pvc)] \<and> get_game_svc [(2, to_entity demo_pvc)] 2 = Some demo_pvc \<and>
   game_type demo_pvc = PVC \<and>
   make_move [(2, to_entity demo_pvc)] 2 20 pvc_board = Inr ([(2, to_entity demo_pvc_after)], demo_pvc_after) \<and>
   check_winner_symbol pvc_board = None \<and> \<not> is_board_full pvc_board \<and>
   (\<exists>c. choose_move pvc_board O' X = Some c \<and> c \<in> set (empty_cells pvc_board) \<and>
        demo_pvc_after = update_game_state (demo_pvc\<lparr>game_field := set_cell pvc_board (fst c) (snd c) 2\<rparr>))"
  using pvc_computer_replies [OF demo_pvc_reachable demo_pvc_get _ demo_pvc_move] demo_pvc_reachable
    demo_pvc_get demo_pvc_move pvc_board_facts
  by simp

text \<open>
  C15: a submitted board with a winning line ends the game as PLAYER_WON with no current
  player; the winner is the creator for a line of 1s, the second player for a line of 2s in
  a PvP game, and nobody otherwise (a line of 2s in PvC, or of a value that is no player's).
\<close>

theorem make_move_win:
  assumes r: "reachable st" and g: "get_game_svc st gid = Some g"
    and ok: "make_move st gid pid b = Inr (st', g')" and w: "check_winner_symbol b = Some w"
  shows "game_field g' = b \<and> game_state g' = PLAYER_WON \<and> current_player_id g' = None \<and>
         winner_id g' = (if w = 1 then Some (player1_id g)
                         else if w = 2 \<and> game_type g = PVP then player2_id g else None)"
proof -
  from make_move_reachable_Inr [OF r g ok]
  have inv: "game_inv g" and st: "game_state g = PLAYER_TURN" and res: "g' = move_result g pid b"
    by auto
  have u: "update_game_state (g\<lparr>game_field := b\<rparr>) =
     g\<lparr>game_field := b, game_state := PLAYER_WON, current_player_id := None,
       winner_id := (if w = 1 then Some (player1_id g)
                     else if w = 2 then (if game_type g = PVP then player2_id g else None)
                     else winner_id g)\<rparr>"
    using update_game_state_won [of "g\<lparr>game_field := b\<rparr>" w] w inv by (simp add: game_inv_def)
  have "g' = update_game_state (g\<lparr>game_field := b\<rparr>)"
    using res by (simp add: move_result_first u is_game_over_def)
  then show ?thesis using u inv st by (simp add: game_inv_def)
qed

theorem make_move_win_witness:
  "reachable [(1, to_entity demo_pvp)] \<and> get_game_svc [(1, to_entity demo_pvp)] 1 = Some demo_pvp \<and>
   make_move [(1, to_entity demo_pvp)] 1 10 [[1, 1, 1], [0, 0, 0], [0, 0, 0]] =
     Inr ([(1, to_entity demo_won)], demo_won) \<and>
   check_winner_symbol [[1, 1, 1], [0, 0, 0], [0, 0, 0]] = Some 1 \<and>
   winner_id demo_won = Some 10"
proof -
  have w: "check_winner_symbol [[1, 1, 1], [0, 0, 0], [0, 0, 0]] = Some 1"
    by (simp add: check_winner_symbol_def row_win_def upt_3)
  show ?thesis
    using make_move_win [OF demo_reachable demo_get demo_won_move w] demo_reachable demo_get demo_won_move w
    by simp
qed

text \<open>
  C16: a submitted board that is full without a winning line ends the game as a DRAW with no
  current player and no winner.
\<close>

theorem make_move_draw:
  assumes r: "reachable st" and g: "get_game_svc st gid = Some g"
    and ok: "make_move st gid pid b = Inr (st', g')"
    and nw: "check_winner_symbol b = None" and full: "is_board_full b"
  shows "game_field g' = b \<and> game_state g' = DRAW \<and> current_player_id g' = None \<and> winner_id g' = None"
proof -
  from make_move_reachable_Inr [OF r g ok] have res: "g' = move_result g pid b" by auto
  have "g' = g\<lparr>game_field := b, game_state := DRAW, current_player_id := None, winner_id := None\<rparr>"
    using res nw full by (simp add: move_result_first update_game_state_draw is_game_over_def)
  then show ?thesis by simp
qed

theorem make_move_draw_witness:
  "reachable [(1, to_entity demo_pvp)] \<and> get_game_svc [(1, to_entity demo_pvp)] 1 = Some demo_pvp \<and>
   make_move [(1, to_entity demo_pvp)] 1 10 draw_board = Inr ([(1, to_entity demo_draw)], demo_draw) \<and>
   check_winner_symbol draw_board = None \<and> is_board_full draw_board \<and> game_state demo_draw = DRAW"
  using make_move_draw [OF demo_reachable demo_get demo_draw_move] demo_reachable demo_get
    demo_draw_move draw_board_facts
  by simp

section \<open>Creating, joining and reading games\<close>

text \<open>
  C17: on a consistent table \<open>join_game
\<close> raises GameNotFound for an unknown id, NotAvailableForJoining unless the game waits for a player, OnlyPvpJoinable for a PvC game and CannotJoinOwnGame for its creator, in that order; otherwise it writes the game with the joiner as second player, state PLAYER_TURN and the creator to move.\<close>

theorem join_game_spec:
  assumes inv: "store_inv st"
  shows "join_game st gid pid =
    (case get_game_svc st gid of
       None \<Rightarrow> Inl GameNotFound
     | Some g \<Rightarrow>
         if game_state g \<noteq> WAITING_FOR_PLAYER then Inl NotAvailableForJoining
         else if game_type g \<noteq> PVP then Inl OnlyPvpJoinable
         else if player1_id g = pid then Inl CannotJoinOwnGame
         else Inr (AList.update gid (to_entity (g\<lparr>player2_id := Some pid, game_state := PLAYER_TURN,
                                                   current_player_id := Some (player1_id g)\<rparr>)) st,
                   g\<lparr>player2_id := Some pid, game_state := PLAYER_TURN,
                     current_player_id := Some (player1_id g)\<rparr>))"
  using join_game_svc [OF inv, of gid pid, unfolded joined_def] .

theorem join_game_spec_witness:
  "store_inv [(1, to_entity demo_open)] \<and>
   join_game [(1, to_entity demo_open)] 1 10 = Inl CannotJoinOwnGame \<and>
   join_game [(1, to_entity demo_open)] 2 11 = Inl GameNotFound"
proof -
  have "get_game_svc [(1, to_entity demo_open)] 2 = None" by (simp add: get_game_svc_def get_game_def)
  then show ?thesis
    using demo_open_store_inv demo_open_get join_game_spec [OF demo_open_store_inv, of 1 10]
      join_game_spec [OF demo_open_store_inv, of 2 11]
    by simp
qed

text \<open>
  The scenario of the spec: a PvP game created on an empty table waits for a player;
  its creator cannot join it; a second user joins it and the game is in PLAYER_TURN with the
  creator to move; a third user is then refused.
\<close>

theorem create_join_scenario:
  "create_game [] 1 0 10 PVP = Inr ([(1, to_entity demo_open)], demo_open) \<and>
   game_state demo_open = WAITING_FOR_PLAYER \<and>
   join_game [(1, to_entity demo_open)] 1 10 = Inl CannotJoinOwnGame \<and>
   join_game [(1, to_entity demo_open)] 1 11 = Inr ([(1, to_entity demo_pvp)], demo_pvp) \<and>
   game_state demo_pvp = PLAYER_TURN \<and> current_player_id demo_pvp = Some 10 \<and>
   join_game [(1, to_entity demo_pvp)] 1 12 = Inl NotAvailableForJoining"
proof -
  have "joined demo_open 11 = demo_pvp" by (simp add: joined_def)
  then show ?thesis
    using demo_create join_game_svc [OF demo_open_store_inv, of 1] demo_open_get
      join_game_svc [OF demo_store_inv, of 1] demo_get
    by simp
qed

text \<open>
  C19: a game created under a fresh id is appended to the table and reads back as the
  returned game: empty board, the given type and creator, the creation time, no winner, and
  WAITING_FOR_PLAYER with no one to move for PvP or PLAYER_TURN with the creator to move for
  PvC.
\<close>

theorem create_game_roundtrip:
  assumes inv: "store_inv st" and fresh: "map_of st gid = None"
    and ok: "create_game st gid now pid t = Inr (st', g)"
  shows "get_game_svc st' gid = Some g \<and> st' = st @ [(gid, to_entity g)] \<and>
         game_id g = gid \<and> game_field g = empty_board \<and> game_type g = t \<and> player1_id g = pid \<and>
         created_at g = now \<and> winner_id g = None \<and>
         game_state g = (if t = PVP then WAITING_FOR_PLAYER else PLAYER_TURN) \<and>
         current_player_id g = (if t = PVP then None else Some pid)"
proof -
  have p: "persisted st (new_game gid now pid t) = new_game gid now pid t"
    using fresh by (simp add: persisted_def stored_created_def to_entity_def new_game_def)
  have "Inr (st', g) = create_game st gid now pid t" using ok by simp
  then have g: "g = new_game gid now pid t"
    and st': "st' = AList.update gid (to_entity (new_game gid now pid t)) st"
    using create_game_eq [OF inv, of gid now pid t] p by simp_all
  have "game_field g = empty_board"
    using g empty_board_facts by (simp add: new_game_def game_field_init_def)
  then show ?thesis
    using st' update_absent_append [OF fresh] get_game_svc_update [of g gid st] empty_board_facts
    unfolding g by (simp add: new_game_def)
qed

theorem create_game_roundtrip_witness:
  "store_inv [] \<and> map_of ([] :: game_store) 1 = None \<and>
   create_game [] 1 0 10 PVP = Inr ([(1, to_entity demo_open)], demo_open) \<and>
   get_game_svc [(1, to_entity demo_open)] 1 = Some demo_open"
  using create_game_roundtrip [of "[]" 1 0 10 PVP, OF _ _ demo_create] demo_create
  by (simp add: store_inv_def)

text \<open>
  C20: the mapper round-trips a game (\<open>to_domain (to_entity g) = g
\<close>) exactly when its board is not the empty list, which \<open>GameField\<close> would replace by the empty 3x3 board.\<close>

theorem mapper_roundtrip:
  "to_domain (to_entity g) = Some g \<longleftrightarrow> game_field g \<noteq> []"
proof
  assume "to_domain (to_entity g) = Some g"
  then have "game_field g = game_field_init (game_field g)"
    unfolding to_domain_to_entity_init by (metis current_game.select_convs(2) current_game.surjective
      current_game.update_convs(2) option.inject)
  then show "game_field g \<noteq> []" using game_field_init_nonempty by metis
next
  assume "game_field g \<noteq> []"
  then show "to_domain (to_entity g) = Some g" by (rule to_domain_to_entity)
qed

text \<open>
  C21: on a consistent table \<open>get_available_games
\<close> returns, in storage order, exactly the stored games that are not over (waiting for a player or in play).\<close>

theorem available_games_spec:
  "store_inv st \<Longrightarrow>
   get_available_games_svc st =
     Inr (filter (\<lambda>g. \<not> is_game_over g) (List.map_filter (\<lambda>(k, e). to_domain e) st))"
  unfolding get_available_games_svc_def get_available_games_def store_inv_def
  by (rule map_domain_filter) (simp_all add: to_entity_def is_game_over_def game_state_value_eq_iff game_state_open)

theorem available_games_spec_witness:
  "store_inv [(1, to_entity demo_won), (2, to_entity demo_pvc)] \<and>
   get_available_games_svc [(1, to_entity demo_won), (2, to_entity demo_pvc)] = Inr [demo_pvc]"
  using demo_two_inv available_games_spec [OF demo_two_inv] demo_two_domain
  by (simp add: map_filter_simps is_game_over_def)

text \<open>
  C22: on a consistent table \<open>get_completed_games_by_user
\<close> returns the finished games in which the user is first or second player, each once, newest first.\<close>

theorem completed_games_spec:
  assumes inv: "store_inv st"
  shows "\<exists>gs. get_completed_games_by_user_svc st u = Inr gs \<and>
           sorted_wrt (\<lambda>a b. created_at b \<le> created_at a) gs \<and>
           mset gs = mset (filter (\<lambda>g. is_game_over g \<and> (player1_id g = u \<or> player2_id g = Some u))
                               (List.map_filter (\<lambda>(k, e). to_domain e) st))"
proof -
  let ?P = "\<lambda>e. (ent_player1_id e = u \<or> ent_player2_id e = Some u) \<and> is_completed_row e"
  let ?Q = "\<lambda>g. is_game_over g \<and> (player1_id g = u \<or> player2_id g = Some u)"
  let ?es = "filter ?P (map snd st)"
  let ?h = "\<lambda>e. the (to_domain e)"
  have rows: "list_all (\<lambda>(k, e). row_ok k e) st" using inv by (simp add: store_inv_def)
  have pq: "\<And>g. ?P (to_entity g) = ?Q g"
    by (auto simp: to_entity_def is_completed_row_def is_game_over_def game_state_value_eq_iff)
  have dom: "list_all (\<lambda>e. to_domain e \<noteq> None) ?es" by (rule rows_to_domain [OF rows])
  have created: "\<forall>e \<in> set ?es. created_at (?h e) = ent_created_at e"
    using dom by (auto simp: list_all_iff to_domain_def split: option.splits)
  have dom_sorted: "list_all (\<lambda>e. to_domain e \<noteq> None) (sort_key (\<lambda>e. - int (ent_created_at e)) ?es)"
    using dom by (simp add: list_all_iff)
  define gs where "gs = map ?h (sort_key (\<lambda>e. - int (ent_created_at e)) ?es)"
  have res: "get_completed_games_by_user_svc st u = Inr gs"
    using dom_sorted by (simp add: get_completed_games_by_user_svc_def get_completed_games_by_user_def
      map_domain_def gs_def)
  have "sorted (map (\<lambda>e. - int (ent_created_at e)) (sort_key (\<lambda>e. - int (ent_created_at e)) ?es))"
    by (rule sorted_sort_key)
  moreover have "map (\<lambda>g. - int (created_at g)) gs =
      map (\<lambda>e. - int (ent_created_at e)) (sort_key (\<lambda>e. - int (ent_created_at e)) ?es)"
    unfolding gs_def map_map o_def by (intro map_cong refl) (simp add: created)
  ultimately have "sorted (map (\<lambda>g. - int (created_at g)) gs)" by simp
  then have sorted: "sorted_wrt (\<lambda>a b. created_at b \<le> created_at a) gs" by (rule sorted_key_desc)
  have "mset gs = mset (map ?h ?es)" by (simp only: gs_def mset_map mset_sort)
  also have "map ?h ?es = filter ?Q (List.map_filter (\<lambda>(k, e). to_domain e) st)"
    by (rule rows_map_filter [of st ?P ?Q, OF rows pq])
  finally show ?thesis using res sorted by blast
qed

theorem completed_games_spec_witness:
  "store_inv [(1, to_entity demo_won), (2, to_entity demo_pvc)] \<and>
   (\<exists>gs. get_completed_games_by_user_svc [(1, to_entity demo_won), (2, to_entity demo_pvc)] 10 = Inr gs \<and>
         sorted_wrt (\<lambda>a b. created_at b \<le> created_at a) gs \<and> mset gs = {#demo_won#})"
  using demo_two_inv completed_games_spec [OF demo_two_inv, of 10] demo_two_domain
  by (simp add: map_filter_simps is_game_over_def)

section \<open>The leaderboard\<close>

text \<open>
  C23: \<open>get_leaderboard\<close> raises exactly when the limit is outside [1, 100],
  LimitTooSmall below and LimitTooLarge above; otherwise it returns at most
  \<open>limit\<close> entries, one per user, in the order of the repository's ranking and
  with non-increasing win ratio.
\<close>

theorem get_leaderboard_spec:
  "(isl (get_leaderboard f s st l) \<longleftrightarrow> l < 1 \<or> 100 < l) \<and>
   (case get_leaderboard f s st l of
      Inl e \<Rightarrow> e = (if l < 1 then LimitTooSmall else LimitTooLarge)
    | Inr rs \<Rightarrow> length rs \<le> nat l \<and> distinct (map ls_user_id rs) \<and>
                sorted_wrt (\<lambda>a b. ls_win_ratio b \<le> ls_win_ratio a) rs \<and>
                map ls_user_id rs = map fst (repo_get_leaderboard st (nat l)))"
proof -
  let ?R = "repo_get_leaderboard st (nat l)"
  let ?mk = "\<lambda>(u, r, w, t). \<lparr>ls_user_id = u, ls_login = (case f u of Some x \<Rightarrow> x | None \<Rightarrow> s u), ls_win_ratio = r\<rparr>"
  have idf: "ls_user_id \<circ> ?mk = fst" by (auto simp: fun_eq_iff)
  have rat: "sorted_wrt (\<lambda>a b. ls_win_ratio b \<le> ls_win_ratio a) (map ?mk ?R)"
    using repo_leaderboard_sorted [of st "nat l"]
    by (auto simp: sorted_wrt_map leader_key_def less_eq_prod_def elim!: sorted_wrt_mono_rel [rotated]
        split: prod.splits)
  show ?thesis
    using repo_leaderboard_distinct [of st "nat l"] repo_leaderboard_length_le [of st "nat l"] rat
    by (auto simp: get_leaderboard_def idf)
qed

text \<open>
  C24: the repository's leaderboard has one row per user who played a completed game, cut to
  the limit (its length is the smaller of the limit and the number of such users), and is
  sorted by (win ratio, wins) in descending order.
\<close>

theorem repo_leaderboard_shape:
  "length (repo_get_leaderboard st n) = min n (card {u. 0 < games_in (completed_rows st) u}) \<and>
   distinct (map fst (repo_get_leaderboard st n)) \<and>
   sorted_wrt (\<lambda>a b. leader_key b \<le> leader_key a) (repo_get_leaderboard st n)"
proof -
  let ?s = "fold (\<lambda>e s. tally_game s e) (completed_rows st) []"
  have d: "distinct (map fst ?s)" by (rule distinct_fold_tally) simp
  have len_rows: "length (leader_rows ?s) = length ?s"
    using tally_all_positive [of "completed_rows st"] by (simp add: leader_rows_def)
  have "length ?s = card {u. 0 < games_in (completed_rows st) u}"
    using distinct_card [OF d] tally_keys [of "completed_rows st"] by simp
  moreover have "length (sort_leaders (leader_rows ?s)) = length (leader_rows ?s)"
    by (simp add: sort_leaders_def)
  ultimately have len: "length (repo_get_leaderboard st n) = min n (card {u. 0 < games_in (completed_rows st) u})"
    using len_rows by (simp add: repo_leaderboard_rows)
  then show ?thesis using repo_leaderboard_distinct repo_leaderboard_sorted by blast
qed

text \<open>
  C25: every row (user, ratio, wins, total) of the leaderboard counts exactly the completed
  games the user played as first or second player and the ones of them whose winner is the
  user, and its ratio is wins / total with total positive.
\<close>

theorem repo_leaderboard_counts:
  "(u, r, w, t) \<in> set (repo_get_leaderboard st n) \<Longrightarrow>
   0 < t \<and> t = games_in (completed_rows st) u \<and> w = wins_in (completed_rows st) u \<and>
   r = of_nat w / of_nat t"
  unfolding repo_leaderboard_rows
  by (auto dest!: in_set_takeD simp: sort_leaders_set leader_rows_member tally_member)

theorem repo_leaderboard_counts_witness:
  "(10, 1, 1, 1) \<in> set (repo_get_leaderboard [(1, to_entity demo_won), (2, to_entity demo_pvc)] 10) \<and>
   0 < (1::nat) \<and> 1 = games_in (completed_rows [(1, to_entity demo_won), (2, to_entity demo_pvc)]) 10 \<and>
   1 = wins_in (completed_rows [(1, to_entity demo_won), (2, to_entity demo_pvc)]) 10"
  using repo_leaderboard_counts [of 10 1 1 1 "[(1, to_entity demo_won), (2, to_entity demo_pvc)]" 10]
    demo_two_leaderboard
  by simp

text \<open>
  C40: no game the service reaches is stuck. In a running game the player whose turn it is
  has a symbol and an empty cell, and the board with that cell marked is a move the service
  accepts.
\<close>

theorem running_game_can_move:
  assumes reach: "reachable st" and get: "get_game_svc st gid = Some g"
    and run: "game_state g = PLAYER_TURN" and cur: "current_player_id g = Some p"
  shows "\<exists>s c. get_player_symbol g p = Some s \<and> c \<in> set (empty_cells (game_field g)) \<and>
           (\<exists>r. make_move st gid p (set_cell (game_field g) (fst c) (snd c) (symbol_value s)) = Inr r)"
proof -
  have inv: "store_inv st" using reachable_store_inv [OF reach] .
  have ld: "load_game st gid = Inr g" using load_game_svc [OF inv, of gid] get by simp
  have gi: "game_inv g" using load_game_Inr [OF inv ld] by blast
  then have wf: "board_wf (game_field g)" and nf: "\<not> is_board_full (game_field g)" and t: "turn_ok g"
    using run by (simp_all add: game_inv_def)
  obtain s where s: "get_player_symbol g p = Some s"
    using t cur by (auto simp: turn_ok_def get_player_symbol_def split: game_type.splits option.splits)
  obtain c where c: "c \<in> set (empty_cells (game_field g))"
    using empty_cells_Nil_full [OF wf] nf by (cases "empty_cells (game_field g)") auto
  have "\<not> is_game_over g" "is_player_turn g p" using run cur by (simp_all add: is_game_over_def is_player_turn_def)
  then have "\<exists>r. make_move st gid p (set_cell (game_field g) (fst c) (snd c) (symbol_value s)) = Inr r"
    using make_move_cases [OF inv ld] board_wf_set_cell [OF wf] by simp
  then show ?thesis using s c by blast
qed

theorem running_game_can_move_witness:
  "reachable [(1, to_entity demo_pvp)] \<and> get_game_svc [(1, to_entity demo_pvp)] 1 = Some demo_pvp \<and>
   game_state demo_pvp = PLAYER_TURN \<and> current_player_id demo_pvp = Some 10 \<and>
   (\<exists>s c. get_player_symbol demo_pvp 10 = Some s \<and> c \<in> set (empty_cells (game_field demo_pvp)) \<and>
      (\<exists>r. make_move [(1, to_entity demo_pvp)] 1 10 (set_cell (game_field demo_pvp) (fst c) (snd c) (symbol_value s)) = Inr r))"
  using demo_reachable demo_get running_game_can_move [OF demo_reachable demo_get] by simp

lemma legal_board_less:
  assumes wf: "board_wf old" and l: "legal_board old b"
  shows "board_wf b \<and> length (empty_cells b) < length (empty_cells old)"
proof -
  obtain c where c: "c \<in> set (empty_cells old)" and v: "cell_at b c \<noteq> 0"
    and b: "b = set_cell old (fst c) (snd c) (cell_at b c)"
    using l by (auto simp: legal_board_def list_ex_iff)
  show ?thesis using empty_cells_set_cell_less [OF c v] board_wf_set_cell [OF wf] b by metis
qed

text \<open>
  C3: every game ends when it is played by the rules. There is no infinite sequence of
  successful \<open>make_move\<close> calls on one game of a reachable table whose boards each mark one
  empty cell: each such call lowers the number of empty cells of the stored game (the
  computer's reply lowers it further), so a game sees at most nine of them.
\<close>

theorem legal_play_terminates:
  "wf {((st', gid), (st, gid)) | st st' gid. reachable st \<and>
        (\<exists>g p b g'. get_game_svc st gid = Some g \<and> legal_board (game_field g) b \<and>
                    make_move st gid p b = Inr (st', g'))}"
proof (rule wf_subset [OF wf_measure])
  let ?m = "\<lambda>(st, gid). case get_game_svc st gid of None \<Rightarrow> 0 | Some g \<Rightarrow> length (empty_cells (game_field g))"
  show "{((st', gid), (st, gid)) | st st' gid. reachable st \<and>
        (\<exists>g p b g'. get_game_svc st gid = Some g \<and> legal_board (game_field g) b \<and>
                    make_move st gid p b = Inr (st', g'))} \<subseteq> measure ?m"
  proof clarify
    fix st st' gid g p b g'
    assume r: "reachable st" and get: "get_game_svc st gid = Some g"
      and l: "legal_board (game_field g) b" and ok: "make_move st gid p b = Inr (st', g')"
    have inv: "store_inv st" by (rule reachable_store_inv [OF r])
    note mv = make_move_Inr [OF inv get ok]
    have wf: "board_wf (game_field g)" using mv by (simp add: game_inv_def)
    have less: "length (empty_cells b) < length (empty_cells (game_field g))"
      using legal_board_less [OF wf l] by blast
    have "game_field g' \<noteq> []"
      using mv game_inv_board_nonempty move_result_inv by blast
    then have get': "get_game_svc st' gid = Some g'" using mv get_game_svc_update by simp
    show "((st', gid), (st, gid)) \<in> measure ?m"
      using get get' less move_result_empty_cells [of b g p] mv by simp
  qed
qed

theorem legal_play_terminates_witness:
  "wf {((st', gid), (st, gid)) | st st' gid. reachable st \<and>
        (\<exists>g p b g'. get_game_svc st gid = Some g \<and> legal_board (game_field g) b \<and>
                    make_move st gid p b = Inr (st', g'))} \<and>
   (([(1, to_entity demo_after)], 1), ([(1, to_entity demo_pvp)], 1)) \<in>
     {((st', gid), (st, gid)) | st st' gid. reachable st \<and>
        (\<exists>g p b g'. get_game_svc st gid = Some g \<and> legal_board (game_field g) b \<and>
                    make_move st gid p b = Inr (st', g'))}"
proof -
  have "legal_board (game_field demo_pvp) demo_board" by code_simp
  then show ?thesis using legal_play_terminates demo_reachable demo_get demo_move by blast
qed

text \<open>
  C18: two concurrent moves by the same player (spec, section 5: no locking, no version check).
  Served one after the other, the second is refused with \<open>Not your turn\<close>. Interleaved so
  that both read the table before either writes, both pass the turn check and both succeed;
  the second write replaces the first, so the first mark is lost although its request was
  answered with success, and the turn has passed once.
\<close>

theorem concurrent_moves_lost_update:
  "make_move [(1, to_entity demo_pvp)] 1 10 demo_board = Inr ([(1, to_entity demo_after)], demo_after) \<and>
   make_move [(1, to_entity demo_after)] 1 10 other_board = Inl NotYourTurn \<and>
   conc_step\<^sup>*\<^sup>* ([(1, to_entity demo_pvp)], [Pending 1 10 demo_board, Pending 1 10 other_board])
                ([(1, to_entity demo_other)], [Done demo_after, Done demo_other]) \<and>
   get_game_svc [(1, to_entity demo_other)] 1 = Some demo_other"
proof -
  let ?st = "[(1, to_entity demo_pvp)] :: game_store"
  have s1: "conc_step (?st, [Pending 1 10 demo_board, Pending 1 10 other_board])
                      (?st, [Prepared demo_after, Pending 1 10 other_board])"
    using conc_step.read [of 0 "[Pending 1 10 demo_board, Pending 1 10 other_board]" 1 10 demo_board ?st]
      demo_prepare by simp
  have s2: "conc_step (?st, [Prepared demo_after, Pending 1 10 other_board])
                      (?st, [Prepared demo_after, Prepared demo_other])"
    using conc_step.read [of 1 "[Prepared demo_after, Pending 1 10 other_board]" 1 10 other_board ?st]
      demo_prepare by simp
  have s3: "conc_step (?st, [Prepared demo_after, Prepared demo_other])
                      (mm_commit ?st demo_after, [Done demo_after, Prepared demo_other])"
    using conc_step.commit [of 0 "[Prepared demo_after, Prepared demo_other]" demo_after ?st] by simp
  have s4: "conc_step (mm_commit ?st demo_after, [Done demo_after, Prepared demo_other])
                      (mm_commit (mm_commit ?st demo_after) demo_other, [Done demo_after, Done demo_other])"
    using conc_step.commit [of 1 "[Done demo_after, Prepared demo_other]" demo_other] by simp
  have fin: "mm_commit (mm_commit ?st demo_after) demo_other = [(1, to_entity demo_other)]"
    by (simp add: mm_commit_def)
  have inv: "store_inv [(1, to_entity demo_after)]"
    using reachable_store_inv [OF reachable.step [OF demo_reachable service_step.move [OF demo_move]]] .
  have ld: "load_game [(1, to_entity demo_after)] 1 = Inr demo_after"
    by (simp add: load_game_def get_game_def to_domain_to_entity)
  have seq2: "make_move [(1, to_entity demo_after)] 1 10 other_board = Inl NotYourTurn"
    using make_move_cases [OF inv ld] by (simp add: is_game_over_def is_player_turn_def)
  have "conc_step\<^sup>*\<^sup>* (?st, [Pending 1 10 demo_board, Pending 1 10 other_board])
                    (mm_commit (mm_commit ?st demo_after) demo_other, [Done demo_after, Done demo_other])"
    using rtranclp.rtrancl_into_rtrancl [of conc_step, OF rtranclp.rtrancl_into_rtrancl [of conc_step, OF
            rtranclp.rtrancl_into_rtrancl [of conc_step, OF r_into_rtranclp [of conc_step, OF s1] s2] s3] s4] .
  then have "conc_step\<^sup>*\<^sup>* (?st, [Pending 1 10 demo_board, Pending 1 10 other_board])
                    ([(1, to_entity demo_other)], [Done demo_after, Done demo_other])"
    by (simp only: fin)
  moreover have "get_game_svc [(1, to_entity demo_other)] 1 = Some demo_other"
    using get_game_svc_update [of demo_other 1 "[]"] by simp
  ultimately show ?thesis using demo_move seq2 by blast
qed

end
